theory Spec2Isabelle
  imports Complex_Main "HOL-Library.Char_ord"
begin

section \<open>Errors raised by the notebook's steps\<close>

text \<open>
  The notebook has no \<^verbatim>\<open>try\<close>/\<^verbatim>\<open>except\<close>; an exception raised by a step ends it.
  Every step of the model returns \<open>py_error + 'a\<close>, with \<open>Inl\<close> for the exception.
\<close>

datatype py_error =
    KeyError
  | IndexError
  | ValueError
  | NameError
  | FileNotFoundError string
  | OSError string
  | UnicodeDecodeError
  | LibraryError string

section \<open>Continuing Cleaning: per-document token lists\<close>

text \<open>
  The attributes of a spaCy token that the cleaning loop reads:
  \<^verbatim>\<open>w.text\<close>, \<^verbatim>\<open>w.lemma_\<close>, \<^verbatim>\<open>w.is_stop\<close>, \<^verbatim>\<open>w.is_punct\<close>, \<^verbatim>\<open>w.like_num\<close>.
\<close>

record token =
  w_text :: string
  w_lemma :: string
  w_is_stop :: bool
  w_is_punct :: bool
  w_like_num :: bool

text \<open>The Python string \<^verbatim>\<open>'\n'\<close>: one line feed.\<close>

definition newline :: string where
  "newline = [CHR 0x0A]"

text \<open>
  \<^verbatim>\<open>
  texts, article = [], []
  for w in doc:
      if w.text != '\n' and not w.is_stop and not w.is_punct and not w.like_num:
          article.append(w.lemma_)
      if w.text == '\n':
          texts.append(article)
          article = []
  \<close>
  The loop body, on the pair \<open>(texts, article)\<close>.
\<close>

definition texts_step :: "string list list \<times> string list \<Rightarrow> token \<Rightarrow> string list list \<times> string list" where
  "texts_step s w =
     (case s of (texts, article) \<Rightarrow>
        let article1 =
              (if w_text w \<noteq> newline \<and> \<not> w_is_stop w \<and> \<not> w_is_punct w \<and> \<not> w_like_num w
               then article @ [w_lemma w] else article)
        in if w_text w = newline then (texts @ [article1], []) else (texts, article1))"

definition texts_loop :: "token list \<Rightarrow> string list list \<times> string list" where
  "texts_loop doc = foldl texts_step ([], []) doc"

text \<open>The notebook's variable \<^verbatim>\<open>texts\<close> after the loop, and the article left in progress.\<close>

definition texts_of :: "token list \<Rightarrow> string list list" where
  "texts_of doc = fst (texts_loop doc)"

definition article_of :: "token list \<Rightarrow> string list" where
  "article_of doc = snd (texts_loop doc)"

section \<open>The character alphabet of the generation demo\<close>

definition SEQ_LENGTH :: nat where
  "SEQ_LENGTH = 100"

text \<open>
  \<^verbatim>\<open>chars = sorted(list(set(data)))\<close>: the distinct characters in ascending order of
  their code. The stream is a list over any linearly ordered character type.
\<close>

definition chars :: "'c::linorder list \<Rightarrow> 'c list" where
  "chars data = sorted_list_of_set (set data)"

text \<open>
  \<^verbatim>\<open>dict(pairs)\<close> stores the pairs in order, a later pair overwriting an earlier one
  with the same key.
\<close>

definition dict :: "('k \<times> 'v) list \<Rightarrow> ('k \<rightharpoonup> 'v)" where
  "dict kvs = foldl (\<lambda>m kv. m(fst kv \<mapsto> snd kv)) Map.empty kvs"

text \<open>
  \<^verbatim>\<open>
  char_to_int = dict((c, i) for i, c in enumerate(chars))
  ix_to_char  = dict((i, c) for i, c in enumerate(chars))
  vocab_size  = len(chars)
  \<close>
\<close>

definition char_to_int :: "'c::linorder list \<Rightarrow> ('c \<rightharpoonup> nat)" where
  "char_to_int data = dict (map (\<lambda>ic. (snd ic, fst ic)) (enumerate 0 (chars data)))"

definition ix_to_char :: "'c::linorder list \<Rightarrow> (nat \<rightharpoonup> 'c)" where
  "ix_to_char data = dict (enumerate 0 (chars data))"

definition vocab_size :: "'c::linorder list \<Rightarrow> nat" where
  "vocab_size data = length (chars data)"

section \<open>Sliding-window training examples\<close>

text \<open>
  A list comprehension that looks every element up in a dictionary, as
  \<^verbatim>\<open>[char_to_int[char] for char in seq_in]\<close> and \<^verbatim>\<open>[ix_to_char[value] for value in pattern]\<close>:
  a missing key raises KeyError.
\<close>

fun lookup_all :: "('k \<rightharpoonup> 'v) \<Rightarrow> 'k list \<Rightarrow> py_error + 'v list" where
  "lookup_all m [] = Inr []"
| "lookup_all m (k # ks) =
     (case m k of
        None \<Rightarrow> Inl KeyError
      | Some v \<Rightarrow> (case lookup_all m ks of Inl e \<Rightarrow> Inl e | Inr vs \<Rightarrow> Inr (v # vs)))"

text \<open>
  \<^verbatim>\<open>
  seq_in  = data[i : i + SEQ_LENGTH]
  seq_out = data[i + SEQ_LENGTH]
  list_X.append([char_to_int[char] for char in seq_in])
  list_Y.append(char_to_int[seq_out])
  \<close>
  The slice never raises; the index raises IndexError out of range.
\<close>

definition example_step ::
  "('c \<rightharpoonup> nat) \<Rightarrow> 'c list \<Rightarrow> nat list list \<times> nat list \<Rightarrow> nat \<Rightarrow> py_error + (nat list list \<times> nat list)" where
  "example_step c2i data s i =
     (case s of (list_X, list_Y) \<Rightarrow>
        let seq_in = take SEQ_LENGTH (drop i data) in
        if i + SEQ_LENGTH < length data then
          (let seq_out = data ! (i + SEQ_LENGTH) in
           case lookup_all c2i seq_in of
             Inl e \<Rightarrow> Inl e
           | Inr xs \<Rightarrow>
               (case c2i seq_out of
                  None \<Rightarrow> Inl KeyError
                | Some y \<Rightarrow> Inr (list_X @ [xs], list_Y @ [y])))
        else Inl IndexError)"

text \<open>A \<^verbatim>\<open>for\<close> loop over a range whose body may raise: the first exception ends it.\<close>

fun for_each :: "('s \<Rightarrow> 'a \<Rightarrow> py_error + 's) \<Rightarrow> 'a list \<Rightarrow> 's \<Rightarrow> py_error + 's" where
  "for_each body [] s = Inr s"
| "for_each body (x # xs) s =
     (case body s x of Inl e \<Rightarrow> Inl e | Inr s' \<Rightarrow> for_each body xs s')"

text \<open>
  \<^verbatim>\<open>for i in range(0, len(data) - SEQ_LENGTH, 1)\<close>: the range is empty when
  \<^verbatim>\<open>len(data) <= SEQ_LENGTH\<close>, as \<open>[0..<length data - SEQ_LENGTH]\<close> is.
\<close>

definition build_examples :: "'c::linorder list \<Rightarrow> py_error + (nat list list \<times> nat list)" where
  "build_examples data =
     for_each (example_step (char_to_int data) data) [0..<length data - SEQ_LENGTH] ([], [])"

section \<open>Building the recurrent model\<close>

text \<open>
  A layer as the notebook constructs it: \<^verbatim>\<open>LSTM(units, input_shape = ..., return_sequences = ...)\<close>
  (both keywords optional, \<^verbatim>\<open>return_sequences\<close> defaulting to False),
  \<^verbatim>\<open>Dropout(rate)\<close> and \<^verbatim>\<open>Dense(units, activation = ...)\<close>.
  A \<^verbatim>\<open>Sequential\<close> model is the list of the layers added to it, in order.
\<close>

datatype layer =
    LSTM int "(int \<times> int) option" bool
  | Dropout rat
  | Dense int string

fun is_LSTM :: "layer \<Rightarrow> bool" where
  "is_LSTM (LSTM _ _ _) = True"
| "is_LSTM _ = False"

fun is_Dropout :: "layer \<Rightarrow> bool" where
  "is_Dropout (Dropout _) = True"
| "is_Dropout _ = False"

fun is_Dense :: "layer \<Rightarrow> bool" where
  "is_Dense (Dense _ _) = True"
| "is_Dense _ = False"

text \<open>The keyword arguments \<^verbatim>\<open>create_model\<close> reads with \<^verbatim>\<open>kwargs.get(key, default)\<close>.\<close>

record create_kwargs =
  kw_drop_rate :: "rat option"
  kw_activation :: "string option"
  kw_mode :: "string option"

definition kwargs_get :: "'a option \<Rightarrow> 'a \<Rightarrow> 'a" where
  "kwargs_get v d = (case v of None \<Rightarrow> d | Some x \<Rightarrow> x)"

text \<open>
  \<^verbatim>\<open>
  for i in range(n_layers - 2):
      model.add( LSTM(hidden_dim, return_sequences = True) )
      if mode == 'train':
          model.add( Dropout(drop) )
  \<close>
\<close>

fun add_hidden :: "nat \<Rightarrow> int \<Rightarrow> string \<Rightarrow> rat \<Rightarrow> layer list \<Rightarrow> layer list" where
  "add_hidden 0 hidden_dim mode drop_rate model = model"
| "add_hidden (Suc k) hidden_dim mode drop_rate model =
     add_hidden k hidden_dim mode drop_rate
       (let model1 = model @ [LSTM hidden_dim None True]
        in if mode = ''train'' then model1 @ [Dropout drop_rate] else model1)"

text \<open>
  \<^verbatim>\<open>
  def create_model(n_layers, input_shape, hidden_dim, n_out, **kwargs):
      drop        = kwargs.get('drop_rate', 0.2)
      activ       = kwargs.get('activation', 'softmax')
      mode        = kwargs.get('mode', 'train')
      hidden_dim  = int(hidden_dim)
      model       = Sequential()
      flag        = True
      if n_layers == 1:
          model.add( LSTM(hidden_dim, input_shape = (input_shape[1], input_shape[2])) )
          if mode == 'train':
              model.add( Dropout(drop) )
      else:
          model.add( LSTM(hidden_dim, input_shape = (input_shape[1], input_shape[2]), return_sequences = True) )
          if mode == 'train':
              model.add( Dropout(drop) )
          for i in range(n_layers - 2):
              ...
          model.add( LSTM(hidden_dim) )
      model.add( Dense(n_out, activation = activ) )
      return model
  \<close>
  \<open>input_shape\<close> is the shape of the rank-3 array of examples; \<open>hidden_dim\<close> is
  given as an integer, on which \<^verbatim>\<open>int\<close> is the identity. \<^verbatim>\<open>range(n_layers - 2)\<close>
  is empty when \<^verbatim>\<open>n_layers < 2\<close>, as \<open>nat (n_layers - 2)\<close> is zero.
\<close>

definition create_model :: "int \<Rightarrow> int \<times> int \<times> int \<Rightarrow> int \<Rightarrow> int \<Rightarrow> create_kwargs \<Rightarrow> layer list" where
  "create_model n_layers input_shape hidden_dim n_out kwargs =
     (let drop_rate = kwargs_get (kw_drop_rate kwargs) (2 / 10);
          activ = kwargs_get (kw_activation kwargs) ''softmax'';
          mode = kwargs_get (kw_mode kwargs) ''train'';
          shape = (fst (snd input_shape), snd (snd input_shape));
          model =
            (if n_layers = 1 then
               (let model1 = [LSTM hidden_dim (Some shape) False]
                in if mode = ''train'' then model1 @ [Dropout drop_rate] else model1)
             else
               (let model1 = [LSTM hidden_dim (Some shape) True];
                    model2 = (if mode = ''train'' then model1 @ [Dropout drop_rate] else model1);
                    model3 = add_hidden (nat (n_layers - 2)) hidden_dim mode drop_rate model2
                in model3 @ [LSTM hidden_dim None False]))
      in model @ [Dense n_out activ])"

text \<open>Every LSTM layer of a list of layers is directly followed by a Dropout layer.\<close>

definition dropout_follows :: "layer list \<Rightarrow> bool" where
  "dropout_follows xs \<longleftrightarrow>
     (\<forall>i<length xs. is_LSTM (xs ! i) \<longrightarrow> Suc i < length xs \<and> is_Dropout (xs ! Suc i))"

section \<open>Files\<close>

text \<open>
  The file system, as far as the notebook touches it: a path leads to a text file or to
  a file holding the weights of a saved model, and a file can be created or replaced at
  the paths that are writable (the directory exists and may be written to).
\<close>

datatype 'w file_content = TextFile string | WeightsFile 'w

record 'w filesystem =
  files :: "string \<rightharpoonup> 'w file_content"
  writable :: "string \<Rightarrow> bool"

text \<open>
  Reading in text mode translates the line endings: a carriage return followed by a
  line feed, and a carriage return alone, both become one line feed.
\<close>

fun universal_newlines :: "string \<Rightarrow> string" where
  "universal_newlines [] = []"
| "universal_newlines [c] = (if c = CHR 0x0D then [CHR 0x0A] else [c])"
| "universal_newlines (c # d # ds) =
     (if c = CHR 0x0D \<and> d = CHR 0x0A then CHR 0x0A # universal_newlines ds
      else if c = CHR 0x0D then CHR 0x0A # universal_newlines (d # ds)
      else c # universal_newlines (d # ds))"

text \<open>\<^verbatim>\<open>open(path).read()\<close>: the file is opened for reading in text mode.\<close>

definition open_read :: "'w filesystem \<Rightarrow> string \<Rightarrow> py_error + string" where
  "open_read fs path =
     (case files fs path of
        None \<Rightarrow> Inl (FileNotFoundError path)
      | Some (TextFile s) \<Rightarrow> Inr (universal_newlines s)
      | Some (WeightsFile w) \<Rightarrow> Inl UnicodeDecodeError)"

text \<open>Creating or replacing a file raises where the path is not writable.\<close>

definition write_file :: "'w filesystem \<Rightarrow> string \<Rightarrow> 'w file_content \<Rightarrow> py_error + 'w filesystem" where
  "write_file fs path content =
     (if writable fs path then Inr (fs\<lparr>files := (files fs)(path \<mapsto> content)\<rparr>)
      else Inl (OSError path))"

text \<open>
  \<^verbatim>\<open>
  test_data_dir = '{}'.format(os.sep).join([gensim.__path__[0], 'test', 'test_data'])
  lee_train_file = test_data_dir + os.sep + 'lee_background.cor'
  text = open(lee_train_file).read()
  \<close>
  \<open>gensim_path\<close> is \<^verbatim>\<open>gensim.__path__[0]\<close> and \<open>sep\<close> is \<^verbatim>\<open>os.sep\<close>.
\<close>

definition test_data_dir :: "string \<Rightarrow> string \<Rightarrow> string" where
  "test_data_dir gensim_path sep = gensim_path @ sep @ ''test'' @ sep @ ''test_data''"

definition lee_train_file :: "string \<Rightarrow> string \<Rightarrow> string" where
  "lee_train_file gensim_path sep = test_data_dir gensim_path sep @ sep @ ''lee_background.cor''"


section \<open>Warnings\<close>

text \<open>
  \<^verbatim>\<open>warnings.filterwarnings('ignore')\<close> puts, in front of the list of warning filters, an
  entry that matches every warning; a warning is handled by the first entry that matches
  it. \<open>Everything a\<close> is an entry that matches every warning, with action \<open>a\<close>;
  \<open>Specific p a\<close> matches the warnings that satisfy \<open>p\<close>.
\<close>

datatype filter_action = Ignore | Show





section \<open>Training and sampling\<close>

text \<open>
  A floating-point number as numpy compares it: a real number, an infinity, or not a
  number. \<open>np_less\<close> is \<^verbatim>\<open>np.less\<close> and \<open>np_greater\<close> is \<^verbatim>\<open>np.greater\<close>: both are
  false when either side is not a number.
\<close>

datatype np_float = Num real | PosInf | NegInf | NaN

fun np_less :: "np_float \<Rightarrow> np_float \<Rightarrow> bool" where
  "np_less (Num a) (Num b) = (a < b)"
| "np_less (Num a) PosInf = True"
| "np_less NegInf (Num b) = True"
| "np_less NegInf PosInf = True"
| "np_less _ _ = False"

definition np_greater :: "np_float \<Rightarrow> np_float \<Rightarrow> bool" where
  "np_greater a b = np_less b a"

text \<open>
  The calls into numpy and Keras, whose results the notebook passes on without looking
  into them, are parameters of the model. Keras and numpy draw their random numbers from
  the global generator of numpy, which nothing in the notebook seeds; its state, of type
  \<open>'g\<close>, is passed to every call that draws and returned by it:
  \<^item> \<open>np_divide X n\<close> is \<^verbatim>\<open>X / float(n)\<close> on an integer array of windows;
  \<^item> \<open>predict layers w x\<close> is \<^verbatim>\<open>model.predict(x, verbose = 0)\<close> of a model with these
    layers and weights, which may raise;
  \<^item> \<open>np_argmax\<close> is \<^verbatim>\<open>np.argmax\<close>;
  \<^item> \<open>fit_epoch layers loss opt w X Y b_size g\<close> is the training that \<^verbatim>\<open>model.fit\<close>
    does in one epoch, which shuffles the examples: the new weights, the loss of the
    epoch and the generator, or an exception;
  \<^item> \<open>initial_weights layers g\<close> are the weights of a model that was just built, which
    are drawn at random, and the generator;
  \<^item> \<open>random_draw g\<close> is the next number of the generator and the generator after it,
    from which \<^verbatim>\<open>np.random.randint\<close> takes its result;
  \<^item> \<open>format_epoch\<close> and \<open>format_loss\<close> are the fields \<^verbatim>\<open>{epoch:02d}\<close> and
    \<^verbatim>\<open>{loss:.4f}\<close> of \<^verbatim>\<open>str.format\<close>.
\<close>

record ('w, 'x, 'p, 'g) keras =
  np_divide :: "nat list list \<Rightarrow> nat \<Rightarrow> 'x"
  predict :: "layer list \<Rightarrow> 'w \<Rightarrow> 'x \<Rightarrow> py_error + 'p"
  np_argmax :: "'p \<Rightarrow> nat"
  fit_epoch :: "layer list \<Rightarrow> string \<Rightarrow> string \<Rightarrow> 'w \<Rightarrow> 'x \<Rightarrow> nat list list \<Rightarrow> nat \<Rightarrow> 'g \<Rightarrow>
                py_error + ('w \<times> np_float \<times> 'g)"
  initial_weights :: "layer list \<Rightarrow> 'g \<Rightarrow> 'w \<times> 'g"
  random_draw :: "'g \<Rightarrow> nat \<times> 'g"
  format_epoch :: "nat \<Rightarrow> string"
  format_loss :: "np_float \<Rightarrow> string"

text \<open>
  A \<^verbatim>\<open>Sequential\<close> object: its layers, its current weights, and the loss and optimizer
  it was last compiled with.
\<close>

record 'w sequential =
  layers :: "layer list"
  weights :: 'w
  compiled :: "(string \<times> string) option"

definition compile :: "string \<Rightarrow> string \<Rightarrow> 'w sequential \<Rightarrow> 'w sequential" where
  "compile loss opt model = model\<lparr>compiled := Some (loss, opt)\<rparr>"

text \<open>\<^verbatim>\<open>model.load_weights(filename)\<close>: raises when there is no such weights file.\<close>

definition load_weights :: "'w filesystem \<Rightarrow> string \<Rightarrow> 'w sequential \<Rightarrow> py_error + 'w sequential" where
  "load_weights fs filename model =
     (case files fs filename of
        None \<Rightarrow> Inl (OSError filename)
      | Some (TextFile s) \<Rightarrow> Inl (OSError filename)
      | Some (WeightsFile w) \<Rightarrow> Inr (model\<lparr>weights := w\<rparr>))"

subsection \<open>The checkpoint callback and the fit loop of Keras\<close>

text \<open>
  The values that \<^verbatim>\<open>model.fit\<close> hands to its callbacks at the end of an epoch: the
  dictionary \<^verbatim>\<open>logs\<close>, here as the list of its items.
\<close>

type_synonym logs = "(string \<times> np_float) list"

text \<open>
  What the callback reports with \<^verbatim>\<open>verbose = 1\<close> at the end of an epoch: that it saved
  the model to a path, that the monitored value did not improve, or that the monitored
  value is not among the logs.
\<close>

datatype checkpoint_event = Saved nat string | NotImproved nat | Skipped nat

text \<open>
  Modelled from the spec: Keras' \<^verbatim>\<open>ModelCheckpoint\<close> is not part of the repository. The
  spec speaks of "writing/reading model checkpoint files to a local directory during the
  generation demo", and the notebook says that fit "will save the weights to a file
  whenever there is an improvement. This is taken care of through the callback." The
  object keeps the arguments it was made with and the best monitored value so far:
  \<^item> \<open>cp_filepath epoch logs\<close> is the path, the template formatted with the number
    of the epoch and the logs;
  \<^item> \<open>cp_monitor\<close> is the key of the monitored value in the logs;
  \<^item> \<open>cp_save_best_only\<close> asks to save only when the monitored value improves;
  \<^item> \<open>cp_greater\<close> says whether greater is better (mode \<^verbatim>\<open>max\<close>) or less
    (mode \<^verbatim>\<open>min\<close>);
  \<^item> \<open>cp_best\<close> is the best value so far.
\<close>

record model_checkpoint =
  cp_filepath :: "nat \<Rightarrow> logs \<Rightarrow> py_error + string"
  cp_monitor :: string
  cp_save_best_only :: bool
  cp_greater :: bool
  cp_best :: np_float

text \<open>Whether the first string occurs in the second: Python's \<^verbatim>\<open>in\<close> on strings.\<close>

fun occurs_in :: "string \<Rightarrow> string \<Rightarrow> bool" where
  "occurs_in pat [] = (pat = [])"
| "occurs_in pat (c # cs) = (take (length pat) (c # cs) = pat \<or> occurs_in pat cs)"

text \<open>
  Modelled from the spec: the constructor \<^verbatim>\<open>ModelCheckpoint(filepath, monitor, save_best_only, mode)\<close>
  of Keras, not part of the repository. Mode \<^verbatim>\<open>min\<close> compares with \<^verbatim>\<open>np.less\<close> from
  plus infinity, mode \<^verbatim>\<open>max\<close> with \<^verbatim>\<open>np.greater\<close> from minus infinity; any other mode
  takes \<^verbatim>\<open>max\<close> for a monitored accuracy or f-measure and \<^verbatim>\<open>min\<close> otherwise.
\<close>

definition ModelCheckpoint ::
  "(nat \<Rightarrow> logs \<Rightarrow> py_error + string) \<Rightarrow> string \<Rightarrow> bool \<Rightarrow> string \<Rightarrow> model_checkpoint" where
  "ModelCheckpoint filepath monitor save_best_only mode =
     (let greater =
            (if mode = ''min'' then False
             else if mode = ''max'' then True
             else occurs_in ''acc'' monitor \<or> take 8 monitor = ''fmeasure'')
      in \<lparr>cp_filepath = filepath, cp_monitor = monitor, cp_save_best_only = save_best_only,
          cp_greater = greater, cp_best = (if greater then NegInf else PosInf)\<rparr>)"

definition monitor_op :: "model_checkpoint \<Rightarrow> np_float \<Rightarrow> np_float \<Rightarrow> bool" where
  "monitor_op cb current best = (if cp_greater cb then np_greater current best else np_less current best)"

text \<open>
  What a run of \<^verbatim>\<open>model.fit\<close> has done so far: the weights of the model, the loss of
  every finished epoch, the file system, the reports of the callback, the callback, and
  the random generator.
\<close>

record ('w, 'g) fit_state =
  st_weights :: 'w
  st_history :: "np_float list"
  st_fs :: "'w filesystem"
  st_events :: "checkpoint_event list"
  st_checkpoint :: model_checkpoint
  st_generator :: 'g

text \<open>
  Modelled from the spec: the method \<^verbatim>\<open>on_epoch_end(epoch, logs)\<close> of Keras'
  \<^verbatim>\<open>ModelCheckpoint\<close>, not part of the repository. It formats the path with the number of
  the epoch counted from one. When asked to save the best only, it skips an epoch whose
  logs lack the monitored value, saves the model and keeps the value as the best when
  the value improves on the best, and reports no improvement otherwise; when not asked,
  it saves at every epoch. Formatting and saving may raise.
\<close>

definition on_epoch_end :: "('w, 'g) fit_state \<Rightarrow> nat \<Rightarrow> logs \<Rightarrow> py_error + ('w, 'g) fit_state" where
  "on_epoch_end st epoch logs =
     (let cb = st_checkpoint st in
      case cp_filepath cb (epoch + 1) logs of
        Inl e \<Rightarrow> Inl e
      | Inr path \<Rightarrow>
          if cp_save_best_only cb then
            (case map_of logs (cp_monitor cb) of
               None \<Rightarrow> Inr (st\<lparr>st_events := st_events st @ [Skipped (epoch + 1)]\<rparr>)
             | Some current \<Rightarrow>
                 if monitor_op cb current (cp_best cb) then
                   (case write_file (st_fs st) path (WeightsFile (st_weights st)) of
                      Inl e \<Rightarrow> Inl e
                    | Inr fs1 \<Rightarrow>
                        Inr (st\<lparr>st_fs := fs1,
                                st_events := st_events st @ [Saved (epoch + 1) path],
                                st_checkpoint := cb\<lparr>cp_best := current\<rparr>\<rparr>))
                 else Inr (st\<lparr>st_events := st_events st @ [NotImproved (epoch + 1)]\<rparr>))
          else
            (case write_file (st_fs st) path (WeightsFile (st_weights st)) of
               Inl e \<Rightarrow> Inl e
             | Inr fs1 \<Rightarrow> Inr (st\<lparr>st_fs := fs1, st_events := st_events st @ [Saved (epoch + 1) path]\<rparr>)))"

text \<open>
  A loop with effects outside the program: when the body raises, what it and the earlier
  iterations did stays done. The body returns the state it reached and the exception, if
  any; so does the loop.
\<close>

fun for_each_st :: "('s \<Rightarrow> 'a \<Rightarrow> 's \<times> py_error option) \<Rightarrow> 'a list \<Rightarrow> 's \<Rightarrow> 's \<times> py_error option" where
  "for_each_st body [] s = (s, None)"
| "for_each_st body (x # xs) s =
     (case body s x of (s', Some e) \<Rightarrow> (s', Some e) | (s', None) \<Rightarrow> for_each_st body xs s')"

text \<open>
  Modelled from the spec: one epoch of Keras' \<^verbatim>\<open>model.fit\<close>, not part of the repository.
  The model must have been compiled; the epoch trains the weights, its loss is recorded
  under the key \<^verbatim>\<open>loss\<close>, and the callback is called with the logs. An exception of the
  training or of the callback ends the epoch.
\<close>

definition fit_step ::
  "('w, 'x, 'p, 'g) keras \<Rightarrow> 'w sequential \<Rightarrow> 'x \<Rightarrow> nat list list \<Rightarrow> nat \<Rightarrow> ('w, 'g) fit_state \<Rightarrow> nat \<Rightarrow> ('w, 'g) fit_state \<times> py_error option" where
  "fit_step lib model X Y b_size st epoch =
     (case compiled model of
        None \<Rightarrow> (st, Some (LibraryError ''RuntimeError''))
      | Some (loss, opt) \<Rightarrow>
          (case fit_epoch lib (layers model) loss opt (st_weights st) X Y b_size (st_generator st) of
             Inl e \<Rightarrow> (st, Some e)
           | Inr (w, epoch_loss, g) \<Rightarrow>
               (let st1 = st\<lparr>st_weights := w, st_history := st_history st @ [epoch_loss],
                             st_generator := g\<rparr>
                in case on_epoch_end st1 epoch [(''loss'', epoch_loss)] of
                     Inl e \<Rightarrow> (st1, Some e)
                   | Inr st2 \<Rightarrow> (st2, None))))"

text \<open>
  Modelled from the spec: Keras' \<^verbatim>\<open>model.fit(X, Y, epochs, batch_size, callbacks = [checkpoint])\<close>,
  not part of the repository: the epochs in order, up to the first exception.
\<close>

definition fit ::
  "('w, 'x, 'p, 'g) keras \<Rightarrow> 'w sequential \<Rightarrow> 'x \<Rightarrow> nat list list \<Rightarrow> nat \<Rightarrow> nat \<Rightarrow> model_checkpoint \<Rightarrow> 'w filesystem \<Rightarrow> 'g \<Rightarrow>
   ('w, 'g) fit_state \<times> py_error option" where
  "fit lib model X Y epochs b_size checkpoint fs g =
     for_each_st (fit_step lib model X Y b_size) [0..<epochs]
       \<lparr>st_weights = weights model, st_history = [], st_fs = fs, st_events = [],
        st_checkpoint = checkpoint, st_generator = g\<rparr>"

subsection \<open>train\<close>

record train_kwargs =
  kw_loss :: "string option"
  kw_optimizer :: "string option"

text \<open>
  \<^verbatim>\<open>filepath = "Weights/weights-improvement-{epoch:02d}-{loss:.4f}.hdf5"\<close> formatted
  with an epoch and a loss, and \<^verbatim>\<open>filepath.format(epoch = epoch, **logs)\<close>, which raises
  KeyError when the logs have no loss.
\<close>

definition filepath :: "('w, 'x, 'p, 'g) keras \<Rightarrow> nat \<Rightarrow> np_float \<Rightarrow> string" where
  "filepath lib epoch loss =
     ''Weights/weights-improvement-'' @ format_epoch lib epoch @ ''-'' @ format_loss lib loss @ ''.hdf5''"

definition format_filepath :: "('w, 'x, 'p, 'g) keras \<Rightarrow> nat \<Rightarrow> logs \<Rightarrow> py_error + string" where
  "format_filepath lib epoch logs =
     (case map_of logs ''loss'' of
        None \<Rightarrow> Inl KeyError
      | Some loss \<Rightarrow> Inr (filepath lib epoch loss))"

text \<open>What \<open>train\<close> leaves behind.\<close>

record ('w, 'g) trained =
  tr_model :: "'w sequential"
  tr_fs :: "'w filesystem"
  tr_history :: "np_float list"
  tr_events :: "checkpoint_event list"
  tr_error :: "py_error option"
  tr_generator :: 'g

text \<open>
  \<^verbatim>\<open>
  def train(model, X, Y, n_epochs, b_size, vocab_size, **kwargs):
      loss            = kwargs.get('loss', 'categorical_crossentropy')
      opt             = kwargs.get('optimizer', 'adam')
      model.compile(loss = loss, optimizer = opt)
      filepath        = "Weights/weights-improvement-{epoch:02d}-{loss:.4f}.hdf5"
      checkpoint      = ModelCheckpoint(filepath, monitor = 'loss', verbose = 1, save_best_only = True, mode = 'min')
      callbacks_list  = [checkpoint]
      X               = X / float(vocab_size)
      model.fit(X, Y, epochs = n_epochs, batch_size = b_size, callbacks = callbacks_list)
  \<close>
  The result: the model as training left it, the file system, the losses of the epochs
  and the reports of the callback, both printed by fit, the exception that ended
  training, if any, and the random generator. \<open>g\<close> is the generator when \<open>train\<close> is
  called.
\<close>

definition train ::
  "('w, 'x, 'p, 'g) keras \<Rightarrow> 'w filesystem \<Rightarrow> 'w sequential \<Rightarrow> nat list list \<Rightarrow> nat list list \<Rightarrow> nat \<Rightarrow> nat \<Rightarrow> nat \<Rightarrow>
   train_kwargs \<Rightarrow> 'g \<Rightarrow> ('w, 'g) trained" where
  "train lib fs model X Y n_epochs b_size n_vocab kwargs g =
     (let loss = kwargs_get (kw_loss kwargs) ''categorical_crossentropy'';
          opt = kwargs_get (kw_optimizer kwargs) ''adam'';
          model1 = compile loss opt model;
          checkpoint = ModelCheckpoint (format_filepath lib) ''loss'' True ''min'';
          X1 = np_divide lib X n_vocab;
          r = fit lib model1 X1 Y n_epochs b_size checkpoint fs g
      in \<lparr>tr_model = model1\<lparr>weights := st_weights (fst r)\<rparr>, tr_fs = st_fs (fst r),
          tr_history = st_history (fst r), tr_events = st_events (fst r), tr_error = snd r,
          tr_generator = st_generator (fst r)\<rparr>)"

subsection \<open>generate_text\<close>

text \<open>
  \<^verbatim>\<open>
  x           = np.reshape(pattern, (1, len(pattern), 1))
  x           = x / float(vocab_size)
  prediction  = model.predict(x, verbose = 0)
  index       = np.argmax(prediction)
  result      = index
  output.append(result)
  pattern.append(index)
  pattern = pattern[1 : len(pattern)]
  \<close>
  The body of the prediction loop, on the pair \<open>(pattern, output)\<close>.
\<close>

definition predict_step ::
  "('w, 'x, 'p, 'g) keras \<Rightarrow> 'w sequential \<Rightarrow> nat \<Rightarrow> nat list \<times> nat list \<Rightarrow> nat \<Rightarrow> py_error + (nat list \<times> nat list)" where
  "predict_step lib model n_vocab s i =
     (case s of (pattern, output) \<Rightarrow>
        let x = np_divide lib [pattern] n_vocab in
        case predict lib (layers model) (weights model) x of
          Inl e \<Rightarrow> Inl e
        | Inr prediction \<Rightarrow>
            (let index = np_argmax lib prediction;
                 output1 = output @ [index];
                 pattern1 = pattern @ [index]
             in Inr (drop 1 (take (length pattern1) pattern1), output1)))"

text \<open>The first \<open>k\<close> iterations of \<^verbatim>\<open>for i in range(250)\<close>, from the seed and no output.\<close>

definition sample ::
  "('w, 'x, 'p, 'g) keras \<Rightarrow> 'w sequential \<Rightarrow> nat \<Rightarrow> nat \<Rightarrow> nat list \<Rightarrow> py_error + (nat list \<times> nat list)" where
  "sample lib model n_vocab k seed = for_each (predict_step lib model n_vocab) [0..<k] (seed, [])"

text \<open>\<^verbatim>\<open>print ("\"", s, "\"")\<close>: the three arguments, separated by spaces.\<close>

definition print_quoted :: "string \<Rightarrow> string" where
  "print_quoted s = [CHR 0x22] @ '' '' @ s @ '' '' @ [CHR 0x22]"

text \<open>
  \<^verbatim>\<open>
  def generate_text(model, X, filename, ix_to_char, vocab_size):
      model.load_weights(filename)
      model.compile(loss = 'categorical_crossentropy', optimizer = 'adam')
      start   = np.random.randint(0, len(X) - 1)
      pattern = np.ravel(X[start]).tolist()
      print ("Seed:")
      print ("\"", ''.join([ix_to_char[value] for value in pattern]), "\"")
      output = []
      for i in range(250):
          ...
      print("Predictions")
      print ("\"", ''.join([ix_to_char[value] for value in output]), "\"")
  \<close>
  \<open>rnd\<close> is the number the random generator draws when \<open>generate_text\<close> gets to
  \<^verbatim>\<open>np.random.randint\<close>, the only draw it makes; \<^verbatim>\<open>np.random.randint(0, high)\<close> brings
  it into \<open>0..high - 1\<close> and raises ValueError when \<^verbatim>\<open>high <= 0\<close>. The result is the
  lines printed, or the exception.
\<close>

definition generate_text ::
  "('w, 'x, 'p, 'g) keras \<Rightarrow> 'w filesystem \<Rightarrow> nat \<Rightarrow> 'w sequential \<Rightarrow> nat list list \<Rightarrow> string \<Rightarrow> (nat \<rightharpoonup> char) \<Rightarrow> nat \<Rightarrow>
   py_error + string list" where
  "generate_text lib fs rnd model X filename i2c n_vocab =
     (case load_weights fs filename model of
        Inl e \<Rightarrow> Inl e
      | Inr model1 \<Rightarrow>
          (let model2 = compile ''categorical_crossentropy'' ''adam'' model1 in
           if length X \<le> 1 then Inl ValueError
           else
             (let start = rnd mod (length X - 1);
                  pattern = X ! start
              in case lookup_all i2c pattern of
                   Inl e \<Rightarrow> Inl e
                 | Inr seed \<Rightarrow>
                     (case sample lib model2 n_vocab 250 pattern of
                        Inl e \<Rightarrow> Inl e
                      | Inr (pattern1, output) \<Rightarrow>
                          (case lookup_all i2c output of
                             Inl e \<Rightarrow> Inl e
                           | Inr predicted \<Rightarrow>
                               Inr [''Seed:'', print_quoted seed,
                                    ''Predictions'', print_quoted predicted])))))"

section \<open>A small library for running the model\<close>

text \<open>
  An instance of the library parameters on which the definitions above can be evaluated:
  weights are numbers, arrays are lists, a prediction is a list of scores that raises
  on weights \<open>0\<close>, and training raises on batch size \<open>0\<close>. An epoch of training
  takes the weights \<open>0, 1, 2, 3\<close> round and reports the loss \<open>1\<close>, \<open>5\<close>, \<open>1/3\<close>,
  \<open>1\<close> from the weights \<open>0, 1, 2, 3\<close>. The random generator is a counter: a draw is
  its value, and every call that draws adds one to it.
\<close>

definition toy_lib :: "(nat, nat list list, nat list, nat) keras" where
  "toy_lib =
     \<lparr>np_divide = (\<lambda>X n. X),
      predict = (\<lambda>ls w x. if w = 0 then Inl (LibraryError ''predict'') else Inr (map (\<lambda>v. v + w) (concat x))),
      np_argmax = (\<lambda>p. length p),
      fit_epoch = (\<lambda>ls loss opt w X Y b g.
         if b = 0 then Inl (LibraryError ''fit'')
         else Inr ((w + 1) mod 4, if w = 1 then Num 5 else if w = 2 then Num (1 / 3) else Num 1, g + 1)),
      initial_weights = (\<lambda>ls g. (g mod 4, g + 1)),
      random_draw = (\<lambda>g. (g, g + 1)),
      format_epoch = (\<lambda>n. replicate n (CHR ''I'')),
      format_loss = (\<lambda>l. if np_less l (Num 1) then ''low'' else ''high'')\<rparr>"

definition toy_model :: "nat sequential" where
  "toy_model = \<lparr>layers = [LSTM 2 (Some (3, 1)) False, Dense 3 ''softmax''], weights = 0, compiled = None\<rparr>"

definition toy_fs :: "nat filesystem" where
  "toy_fs = \<lparr>files = Map.empty, writable = (\<lambda>path. take 8 path = ''Weights/'')\<rparr>"

section \<open>Invariant of the training loop\<close>

text \<open>
  What holds after \<open>n\<close> epochs of the fit that \<open>train\<close> starts on the file system
  \<open>fs\<close>, where \<open>w_of k\<close> are the weights after \<open>k\<close> epochs.
\<close>

definition fit_inv ::
  "('w, 'x, 'p, 'g) keras \<Rightarrow> 'w filesystem \<Rightarrow> (nat \<Rightarrow> 'w) \<Rightarrow> nat \<Rightarrow> ('w, 'g) fit_state \<Rightarrow> bool" where
  "fit_inv lib fs w_of n st \<longleftrightarrow>
     cp_filepath (st_checkpoint st) = format_filepath lib \<and>
     cp_monitor (st_checkpoint st) = ''loss'' \<and>
     cp_save_best_only (st_checkpoint st) \<and>
     \<not> cp_greater (st_checkpoint st) \<and>
     length (st_history st) = n \<and>
     length (st_events st) = n \<and>
     st_weights st = w_of n \<and>
     writable (st_fs st) = writable fs \<and>
     cp_best (st_checkpoint st) \<noteq> NaN \<and>
     (\<forall>x. np_less x (cp_best (st_checkpoint st)) \<longleftrightarrow>
          np_less x PosInf \<and> (\<forall>j<n. st_history st ! j = NaN \<or> np_less x (st_history st ! j))) \<and>
     (\<forall>i<n. if np_less (st_history st ! i) PosInf \<and>
                (\<forall>j<i. st_history st ! j = NaN \<or> np_less (st_history st ! i) (st_history st ! j))
             then st_events st ! i = Saved (Suc i) (filepath lib (Suc i) (st_history st ! i)) \<and>
                  writable fs (filepath lib (Suc i) (st_history st ! i))
             else st_events st ! i = NotImproved (Suc i)) \<and>
     (\<forall>p. (\<forall>i<n. st_events st ! i \<noteq> Saved (Suc i) p) \<longrightarrow> files (st_fs st) p = files fs p) \<and>
     (\<forall>p i. i < n \<and> st_events st ! i = Saved (Suc i) p \<and>
            (\<forall>j. i < j \<and> j < n \<longrightarrow> st_events st ! j \<noteq> Saved (Suc j) p) \<longrightarrow>
            files (st_fs st) p = Some (WeightsFile (w_of (Suc i))))"

text \<open>
  The facts about the files, for a state of the fit: either the invariant holds of it,
  or it was reached by an epoch that raised from a state of which the invariant holds.
\<close>

definition files_ok ::
  "('w, 'x, 'p, 'g) keras \<Rightarrow> 'w filesystem \<Rightarrow> (nat \<Rightarrow> 'w) \<Rightarrow> ('w, 'g) fit_state \<Rightarrow> bool" where
  "files_ok lib fs w_of st \<longleftrightarrow>
     writable (st_fs st) = writable fs \<and>
     length (st_events st) \<le> length (st_history st) \<and>
     (\<forall>p. files (st_fs st) p \<noteq> files fs p \<longrightarrow>
          (\<exists>rest. p = ''Weights/'' @ rest) \<and> (\<exists>i<length (st_events st). st_events st ! i = Saved (Suc i) p)) \<and>
     (\<forall>i<length (st_events st). \<forall>epoch p. st_events st ! i = Saved epoch p \<longrightarrow>
          epoch = Suc i \<and> p = filepath lib (Suc i) (st_history st ! i) \<and> writable fs p \<and>
          np_less (st_history st ! i) PosInf \<and>
          (\<forall>j<i. st_history st ! j = NaN \<or> np_less (st_history st ! i) (st_history st ! j))) \<and>
     (\<forall>i<length (st_events st). \<forall>p. st_events st ! i = Saved (Suc i) p \<and>
          (\<forall>j. i < j \<and> j < length (st_events st) \<longrightarrow> st_events st ! j \<noteq> Saved (Suc j) p) \<longrightarrow>
          files (st_fs st) p = Some (WeightsFile (w_of (Suc i))))"

section \<open>Text classification\<close>

text \<open>
  The calls into scikit-learn are parameters of the model. An estimator is fitted on data
  and then holds what it learnt (\<open>'tf\<close> for the TF-IDF vectorizer, \<open>'sv\<close> for the
  truncated SVD, \<open>'nb\<close> and \<open>'svc\<close> for the classifiers); \<^verbatim>\<open>Normalizer\<close> learns
  nothing. Documents are strings, feature rows are lists of numbers, labels are numbers.
\<close>

record ('tf, 'sv, 'nb, 'svc) sklearn =
  tfidf_fit :: "string list \<Rightarrow> 'tf"
  tfidf_transform :: "'tf \<Rightarrow> string list \<Rightarrow> real list list"
  svd_fit :: "nat \<Rightarrow> real list list \<Rightarrow> 'sv"
  svd_transform :: "'sv \<Rightarrow> real list list \<Rightarrow> real list list"
  normalize :: "real list list \<Rightarrow> real list list"
  gnb_fit :: "real list list \<Rightarrow> nat list \<Rightarrow> 'nb"
  gnb_predict :: "'nb \<Rightarrow> real list list \<Rightarrow> nat list"
  svc_fit :: "real list list \<Rightarrow> nat list \<Rightarrow> 'svc"
  svc_predict :: "'svc \<Rightarrow> real list list \<Rightarrow> nat list"

text \<open>What \<^verbatim>\<open>fetch_20newsgroups\<close> returns, as far as the notebook reads it.\<close>

record bunch =
  bunch_data :: "string list"
  bunch_target :: "nat list"
  bunch_target_names :: "string list"

text \<open>
  \<^verbatim>\<open>vectorizer.fit_transform(docs)\<close> fits the vectorizer and transforms the same
  documents; \<^verbatim>\<open>vectorizer.transform(docs)\<close> transforms with what was fitted before.
\<close>

definition vectorizer_fit_transform ::
  "('tf, 'sv, 'nb, 'svc) sklearn \<Rightarrow> string list \<Rightarrow> 'tf \<times> real list list" where
  "vectorizer_fit_transform lib docs =
     (let vectorizer = tfidf_fit lib docs in (vectorizer, tfidf_transform lib vectorizer docs))"

definition vectorizer_transform ::
  "('tf, 'sv, 'nb, 'svc) sklearn \<Rightarrow> 'tf \<Rightarrow> string list \<Rightarrow> real list list" where
  "vectorizer_transform lib vectorizer docs = tfidf_transform lib vectorizer docs"

text \<open>
  \<^verbatim>\<open>lsa = make_pipeline(svd, normalizer)\<close> and \<^verbatim>\<open>lsa.fit_transform(X)\<close>: the SVD is
  fitted on \<open>X\<close>, \<open>X\<close> is transformed with it, and the rows are normalized. The
  fitted SVD replaces whatever the pipeline held before.
\<close>

definition lsa_fit_transform ::
  "('tf, 'sv, 'nb, 'svc) sklearn \<Rightarrow> nat \<Rightarrow> real list list \<Rightarrow> 'sv \<times> real list list" where
  "lsa_fit_transform lib n_components X =
     (let svd = svd_fit lib n_components X in (svd, normalize lib (svd_transform lib svd X)))"

text \<open>The variables the classification cells leave behind.\<close>

record ('tf, 'sv) classification =
  c_vectorizer :: 'tf
  c_lsa :: 'sv
  c_X_train :: "real list list"
  c_X_test :: "real list list"
  c_y_train :: "nat list"
  c_y_test :: "nat list"
  c_y_pred_NB :: "nat list"
  c_y_pred_SVM :: "nat list"

text \<open>
  \<^verbatim>\<open>
  n_components = 5
  vectorizer = TfidfVectorizer(max_df=0.5, min_df=2, stop_words='english', use_idf=True)
  X_train = vectorizer.fit_transform(data_train.data)
  svd = TruncatedSVD(n_components)
  normalizer = Normalizer(copy=False)
  lsa = make_pipeline(svd, normalizer)
  X_train = lsa.fit_transform(X_train)

  y_train, y_test = data_train.target, data_test.target
  print("Extracting features from the test data using the same vectorizer")
  X_test = vectorizer.transform(data_test.data)
  X_test = lsa.fit_transform(X_test)

  gnb = GaussianNB()
  y_pred_NB = gnb.fit(X_train, y_train).predict(X_test)
  svm = SVC()
  y_pred_SVM = svm.fit(X_train, y_train).predict(X_test)
  \<close>
\<close>

definition classification_demo ::
  "('tf, 'sv, 'nb, 'svc) sklearn \<Rightarrow> bunch \<Rightarrow> bunch \<Rightarrow> ('tf, 'sv) classification" where
  "classification_demo lib data_train data_test =
     (let n_components = 5;
          fitted = vectorizer_fit_transform lib (bunch_data data_train);
          vectorizer = fst fitted;
          X_train0 = snd fitted;
          lsa1 = lsa_fit_transform lib n_components X_train0;
          X_train = snd lsa1;
          y_train = bunch_target data_train;
          y_test = bunch_target data_test;
          X_test0 = vectorizer_transform lib vectorizer (bunch_data data_test);
          lsa2 = lsa_fit_transform lib n_components X_test0;
          X_test = snd lsa2;
          y_pred_NB = gnb_predict lib (gnb_fit lib X_train y_train) X_test;
          y_pred_SVM = svc_predict lib (svc_fit lib X_train y_train) X_test
      in \<lparr>c_vectorizer = vectorizer, c_lsa = fst lsa2, c_X_train = X_train, c_X_test = X_test,
          c_y_train = y_train, c_y_test = y_test, c_y_pred_NB = y_pred_NB, c_y_pred_SVM = y_pred_SVM\<rparr>)"

text \<open>
  The test features as the specification describes them: the test documents vectorized
  with the vectorizer fitted on the training documents, then transformed with the SVD
  fitted on the training features, and normalized.
\<close>

definition spec_X_test ::
  "('tf, 'sv, 'nb, 'svc) sklearn \<Rightarrow> bunch \<Rightarrow> bunch \<Rightarrow> real list list" where
  "spec_X_test lib data_train data_test =
     (let vectorizer = tfidf_fit lib (bunch_data data_train);
          svd = svd_fit lib 5 (tfidf_transform lib vectorizer (bunch_data data_train))
      in normalize lib (svd_transform lib svd (tfidf_transform lib vectorizer (bunch_data data_test))))"

text \<open>
  A small instance of the scikit-learn parameters: the vectorizer learns the number of
  training documents and maps a document to its length and that number; the SVD learns
  the sum of the first column and subtracts it from every entry; the classifiers
  threshold the first feature.
\<close>

definition toy_sklearn :: "(nat, real, unit, unit) sklearn" where
  "toy_sklearn =
     \<lparr>tfidf_fit = (\<lambda>docs. length docs),
      tfidf_transform = (\<lambda>v docs. map (\<lambda>d. [real (length d), real v]) docs),
      svd_fit = (\<lambda>n X. sum_list (map (\<lambda>row. case row of [] \<Rightarrow> 0 | x # xs \<Rightarrow> x) X)),
      svd_transform = (\<lambda>s X. map (map (\<lambda>x. x - s)) X),
      normalize = (\<lambda>X. X),
      gnb_fit = (\<lambda>X y. ()),
      gnb_predict = (\<lambda>m X. map (\<lambda>row. case row of [] \<Rightarrow> 0 | x # xs \<Rightarrow> if x < 0 then 0 else 1) X),
      svc_fit = (\<lambda>X y. ()),
      svc_predict = (\<lambda>m X. map (\<lambda>row. case row of [] \<Rightarrow> 0 | x # xs \<Rightarrow> if x < 0 then 0 else 1) X)\<rparr>"

definition toy_train :: bunch where
  "toy_train = \<lparr>bunch_data = [''space'', ''god''], bunch_target = [0, 1], bunch_target_names = [''sci.space'', ''alt.atheism'']\<rparr>"

definition toy_test :: bunch where
  "toy_test = \<lparr>bunch_data = [''orbit''], bunch_target = [0], bunch_target_names = [''sci.space'', ''alt.atheism'']\<rparr>"

section \<open>The notebook as a whole\<close>

subsection \<open>Statements and cells\<close>

text \<open>
  The cells of the notebook are run from top to bottom on the global variables. A
  statement reads global names, calls a library or a function of the notebook on what it
  read, and binds names to the result. Reading a name that is not bound raises
  NameError. When the reading or the call raises, nothing is bound and the exception is
  the result of the statement, next to the state as it was.
\<close>

definition name_lookup :: "'a option \<Rightarrow> py_error + 'a" where
  "name_lookup v = (case v of None \<Rightarrow> Inl NameError | Some x \<Rightarrow> Inr x)"

text \<open>Two expressions, evaluated from left to right.\<close>

definition both :: "py_error + 'a \<Rightarrow> py_error + 'b \<Rightarrow> py_error + ('a \<times> 'b)" where
  "both a b =
     (case a of
        Inl e \<Rightarrow> Inl e
      | Inr x \<Rightarrow> (case b of Inl e \<Rightarrow> Inl e | Inr y \<Rightarrow> Inr (x, y)))"

definition statement ::
  "('s \<Rightarrow> py_error + 'a) \<Rightarrow> ('a \<Rightarrow> py_error + 'b) \<Rightarrow> ('b \<Rightarrow> 's \<Rightarrow> 's) \<Rightarrow> 's \<Rightarrow> 's \<times> py_error option" where
  "statement read call store s =
     (case read s of
        Inl e \<Rightarrow> (s, Some e)
      | Inr args \<Rightarrow>
          (case call args of
             Inl e \<Rightarrow> (s, Some e)
           | Inr result \<Rightarrow> (store result s, None)))"

text \<open>
  The statements of a run of cells in order: the first exception ends the run, and the
  statements after it are not run. The result is the state reached and the exception, if
  any.
\<close>

definition run_steps :: "('s \<Rightarrow> 's \<times> py_error option) list \<Rightarrow> 's \<Rightarrow> 's \<times> py_error option" where
  "run_steps steps s = for_each_st (\<lambda>s step. step s) steps s"

text \<open>
  A list comprehension \<^verbatim>\<open>[f(x) for x in xs]\<close> whose element expression may raise: the
  first exception ends it.
\<close>

definition map_each :: "('a \<Rightarrow> py_error + 'b) \<Rightarrow> 'a list \<Rightarrow> py_error + 'b list" where
  "map_each f xs =
     for_each (\<lambda>acc x. case f x of Inl e \<Rightarrow> Inl e | Inr y \<Rightarrow> Inr (acc @ [y])) xs []"

text \<open>
  What a run of the notebook is given from outside: the file system, where gensim is
  installed and the path separator, and what \<^verbatim>\<open>fetch_20newsgroups\<close> returns for the
  subsets \<^verbatim>\<open>train\<close> and \<^verbatim>\<open>test\<close> of the four categories, a collection or an exception.
\<close>

record 'w env =
  e_fs :: "'w filesystem"
  e_gensim_path :: string
  e_sep :: string
  e_newsgroups :: "string \<Rightarrow> py_error + bunch"

subsection \<open>The topic-modelling cells\<close>

text \<open>
  The calls into spaCy and gensim are parameters of the model, and every one of them may
  raise:
  \<^item> \<open>spacy_load name\<close> is \<^verbatim>\<open>spacy.load(name)\<close>, the pipeline;
  \<^item> \<open>set_is_stop nlp word\<close> is the pipeline after \<^verbatim>\<open>nlp.vocab[word].is_stop = True\<close>;
  \<^item> \<open>nlp_call nlp text\<close> is \<^verbatim>\<open>nlp(text)\<close>, the tokens of the annotated text;
  \<^item> \<open>render_annotations sent\<close> is what the cells print and render of the tags,
    entities, noun chunks and dependencies of the annotated sentence;
  \<^item> \<open>phrases\<close> is \<^verbatim>\<open>gensim.models.Phrases\<close> and \<open>apply_phrases bigram line\<close> is
    \<^verbatim>\<open>bigram[line]\<close>;
  \<^item> \<open>dictionary\<close> is \<^verbatim>\<open>Dictionary\<close> and \<open>doc2bow\<close> its method;
  \<^item> \<open>lda_model corpus num_topics dictionary g\<close> is \<^verbatim>\<open>LdaModel\<close>, which is given no
    \<^verbatim>\<open>random_state\<close> and draws from the global generator of numpy: the model and the
    generator after it;
  \<^item> \<open>show_topics\<close> is the method of the topic model.
\<close>

record ('nlp, 'bg, 'dict, 'lda, 'g) text_libs =
  spacy_load :: "string \<Rightarrow> py_error + 'nlp"
  set_is_stop :: "'nlp \<Rightarrow> string \<Rightarrow> py_error + 'nlp"
  nlp_call :: "'nlp \<Rightarrow> string \<Rightarrow> py_error + token list"
  render_annotations :: "token list \<Rightarrow> py_error + string list"
  phrases :: "string list list \<Rightarrow> py_error + 'bg"
  apply_phrases :: "'bg \<Rightarrow> string list \<Rightarrow> py_error + string list"
  dictionary :: "string list list \<Rightarrow> py_error + 'dict"
  doc2bow :: "'dict \<Rightarrow> string list \<Rightarrow> py_error + (nat \<times> nat) list"
  lda_model :: "(nat \<times> nat) list list \<Rightarrow> nat \<Rightarrow> 'dict \<Rightarrow> 'g \<Rightarrow> py_error + ('lda \<times> 'g)"
  show_topics :: "'lda \<Rightarrow> py_error + string list"

text \<open>
  The global variables that the topic-modelling cells bind, \<open>None\<close> for a name that is
  not bound, what the cells have printed, and the random generator.
\<close>

record ('nlp, 'bg, 'dict, 'lda, 'g) topic_state =
  t_test_data_dir :: "string option"
  t_lee_train_file :: "string option"
  t_text :: "string option"
  t_nlp :: "'nlp option"
  t_doc :: "token list option"
  t_sent :: "token list option"
  t_texts :: "string list list option"
  t_article :: "string list option"
  t_bigram :: "'bg option"
  t_dictionary :: "'dict option"
  t_corpus :: "(nat \<times> nat) list list option"
  t_ldamodel :: "'lda option"
  t_printed :: "string list"
  t_generator :: 'g

definition topic_init :: "'g \<Rightarrow> ('nlp, 'bg, 'dict, 'lda, 'g) topic_state" where
  "topic_init g =
     \<lparr>t_test_data_dir = None, t_lee_train_file = None, t_text = None, t_nlp = None, t_doc = None,
      t_sent = None, t_texts = None, t_article = None, t_bigram = None, t_dictionary = None,
      t_corpus = None, t_ldamodel = None, t_printed = [], t_generator = g\<rparr>"

definition my_stop_words :: "string list" where
  "my_stop_words = [''say'', [CHR 0x27, CHR ''s''], ''Mr'', ''be'', ''said'', ''says'', ''saying'']"

text \<open>
  \<^verbatim>\<open>
  for stopword in my_stop_words:
      lexeme = nlp.vocab[stopword]
      lexeme.is_stop = True
  \<close>
  The pipeline keeps the stop words that were set before an exception.
\<close>

definition stop_words_cell ::
  "('nlp, 'bg, 'dict, 'lda, 'g) text_libs \<Rightarrow> ('nlp, 'bg, 'dict, 'lda, 'g) topic_state \<Rightarrow>
   ('nlp, 'bg, 'dict, 'lda, 'g) topic_state \<times> py_error option" where
  "stop_words_cell libs s =
     for_each_st
       (\<lambda>s stopword.
          statement (\<lambda>s. name_lookup (t_nlp s)) (\<lambda>nlp. set_is_stop libs nlp stopword)
            (\<lambda>nlp s. s\<lparr>t_nlp := Some nlp\<rparr>) s)
       my_stop_words s"

text \<open>
  \<^verbatim>\<open>
  test_data_dir = '{}'.format(os.sep).join([gensim.__path__[0], 'test', 'test_data'])
  lee_train_file = test_data_dir + os.sep + 'lee_background.cor'
  text = open(lee_train_file).read()
  nlp = spacy.load("en")
  my_stop_words = [...]; for stopword in my_stop_words: ...
  doc = nlp(text)
  doc
  sent = nlp(u"Tom ran to the repair shop to fix his bicycle.")
  ... (the cells that print and render the annotations of sent)
  texts, article = [], []
  for w in doc: ... (the cleaning loop)
  texts
  bigram = gensim.models.Phrases(texts)
  texts = [bigram[line] for line in texts]
  texts[10]
  dictionary = Dictionary(texts)
  corpus = [dictionary.doc2bow(text) for text in texts]
  corpus[100]
  ldamodel = LdaModel(corpus=corpus, num_topics=10, id2word=dictionary)
  ldamodel.show_topics()
  \<close>
  The statements in order. A cell that only displays a value binds nothing;
  \<^verbatim>\<open>texts[10]\<close> and \<^verbatim>\<open>corpus[100]\<close> raise IndexError on a shorter list.
\<close>

definition topic_steps ::
  "('nlp, 'bg, 'dict, 'lda, 'g) text_libs \<Rightarrow> 'w env \<Rightarrow>
   (('nlp, 'bg, 'dict, 'lda, 'g) topic_state \<Rightarrow> ('nlp, 'bg, 'dict, 'lda, 'g) topic_state \<times> py_error option) list" where
  "topic_steps libs env =
     [statement (\<lambda>s. Inr ()) (\<lambda>u. Inr (test_data_dir (e_gensim_path env) (e_sep env)))
        (\<lambda>d s. s\<lparr>t_test_data_dir := Some d\<rparr>),
      statement (\<lambda>s. name_lookup (t_test_data_dir s)) (\<lambda>d. Inr (d @ e_sep env @ ''lee_background.cor''))
        (\<lambda>path s. s\<lparr>t_lee_train_file := Some path\<rparr>),
      statement (\<lambda>s. name_lookup (t_lee_train_file s)) (open_read (e_fs env))
        (\<lambda>text s. s\<lparr>t_text := Some text\<rparr>),
      statement (\<lambda>s. Inr ()) (\<lambda>u. spacy_load libs ''en'') (\<lambda>nlp s. s\<lparr>t_nlp := Some nlp\<rparr>),
      stop_words_cell libs,
      statement (\<lambda>s. both (name_lookup (t_nlp s)) (name_lookup (t_text s)))
        (\<lambda>(nlp, text). nlp_call libs nlp text) (\<lambda>doc s. s\<lparr>t_doc := Some doc\<rparr>),
      statement (\<lambda>s. name_lookup (t_doc s)) Inr (\<lambda>doc s. s),
      statement (\<lambda>s. name_lookup (t_nlp s))
        (\<lambda>nlp. nlp_call libs nlp ''Tom ran to the repair shop to fix his bicycle.'')
        (\<lambda>sent s. s\<lparr>t_sent := Some sent\<rparr>),
      statement (\<lambda>s. name_lookup (t_sent s)) (render_annotations libs)
        (\<lambda>lines s. s\<lparr>t_printed := t_printed s @ lines\<rparr>),
      statement (\<lambda>s. Inr ()) Inr (\<lambda>u s. s\<lparr>t_texts := Some [], t_article := Some []\<rparr>),
      statement (\<lambda>s. name_lookup (t_doc s)) (\<lambda>doc. Inr (texts_loop doc))
        (\<lambda>(texts, article) s. s\<lparr>t_texts := Some texts, t_article := Some article\<rparr>),
      statement (\<lambda>s. name_lookup (t_texts s)) Inr (\<lambda>texts s. s),
      statement (\<lambda>s. name_lookup (t_texts s)) (phrases libs) (\<lambda>bigram s. s\<lparr>t_bigram := Some bigram\<rparr>),
      statement (\<lambda>s. both (name_lookup (t_texts s)) (name_lookup (t_bigram s)))
        (\<lambda>(texts, bigram). map_each (apply_phrases libs bigram) texts)
        (\<lambda>texts s. s\<lparr>t_texts := Some texts\<rparr>),
      statement (\<lambda>s. name_lookup (t_texts s))
        (\<lambda>texts. if length texts \<le> 10 then Inl IndexError else Inr (texts ! 10)) (\<lambda>line s. s),
      statement (\<lambda>s. name_lookup (t_texts s)) (dictionary libs)
        (\<lambda>dict s. s\<lparr>t_dictionary := Some dict\<rparr>),
      statement (\<lambda>s. both (name_lookup (t_texts s)) (name_lookup (t_dictionary s)))
        (\<lambda>(texts, dict). map_each (doc2bow libs dict) texts)
        (\<lambda>corpus s. s\<lparr>t_corpus := Some corpus\<rparr>),
      statement (\<lambda>s. name_lookup (t_corpus s))
        (\<lambda>corpus. if length corpus \<le> 100 then Inl IndexError else Inr (corpus ! 100)) (\<lambda>bow s. s),
      statement (\<lambda>s. both (name_lookup (t_corpus s)) (both (name_lookup (t_dictionary s)) (Inr (t_generator s))))
        (\<lambda>(corpus, dict, g). lda_model libs corpus 10 dict g)
        (\<lambda>(ldamodel, g) s. s\<lparr>t_ldamodel := Some ldamodel, t_generator := g\<rparr>),
      statement (\<lambda>s. name_lookup (t_ldamodel s)) (show_topics libs)
        (\<lambda>lines s. s\<lparr>t_printed := t_printed s @ lines\<rparr>)]"

subsection \<open>The classification cells\<close>

text \<open>
  The calls into scikit-learn as a run of the notebook makes them: every one of them may
  raise, and \<^verbatim>\<open>TruncatedSVD\<close>, which is given no \<^verbatim>\<open>random_state\<close>, draws from the global
  generator of numpy when it is fitted.
\<close>

record ('tf, 'sv, 'nb, 'svc, 'g) sklearn_calls =
  call_tfidf_fit :: "string list \<Rightarrow> py_error + 'tf"
  call_tfidf_transform :: "'tf \<Rightarrow> string list \<Rightarrow> py_error + real list list"
  call_svd_fit :: "nat \<Rightarrow> real list list \<Rightarrow> 'g \<Rightarrow> py_error + ('sv \<times> 'g)"
  call_svd_transform :: "'sv \<Rightarrow> real list list \<Rightarrow> py_error + real list list"
  call_normalize :: "real list list \<Rightarrow> py_error + real list list"
  call_gnb_fit :: "real list list \<Rightarrow> nat list \<Rightarrow> py_error + 'nb"
  call_gnb_predict :: "'nb \<Rightarrow> real list list \<Rightarrow> py_error + nat list"
  call_svc_fit :: "real list list \<Rightarrow> nat list \<Rightarrow> py_error + 'svc"
  call_svc_predict :: "'svc \<Rightarrow> real list list \<Rightarrow> py_error + nat list"

text \<open>Calls that never raise and draw nothing: those of a \<open>sklearn\<close> record.\<close>

definition pure_calls :: "('tf, 'sv, 'nb, 'svc) sklearn \<Rightarrow> ('tf, 'sv, 'nb, 'svc, 'g) sklearn_calls" where
  "pure_calls lib =
     \<lparr>call_tfidf_fit = (\<lambda>docs. Inr (tfidf_fit lib docs)),
      call_tfidf_transform = (\<lambda>v docs. Inr (tfidf_transform lib v docs)),
      call_svd_fit = (\<lambda>n X g. Inr (svd_fit lib n X, g)),
      call_svd_transform = (\<lambda>svd X. Inr (svd_transform lib svd X)),
      call_normalize = (\<lambda>X. Inr (normalize lib X)),
      call_gnb_fit = (\<lambda>X y. Inr (gnb_fit lib X y)),
      call_gnb_predict = (\<lambda>m X. Inr (gnb_predict lib m X)),
      call_svc_fit = (\<lambda>X y. Inr (svc_fit lib X y)),
      call_svc_predict = (\<lambda>m X. Inr (svc_predict lib m X))\<rparr>"

text \<open>
  The global variables that the classification cells bind, and the random generator.
  \<open>v_vectorizer\<close>, \<open>v_lsa\<close>, \<open>v_gnb\<close> and \<open>v_svm\<close> hold what the estimator of that name
  has been fitted to, once it has been fitted.
\<close>

record ('tf, 'sv, 'nb, 'svc, 'g) classification_state =
  v_data_train :: "bunch option"
  v_n_components :: "nat option"
  v_labels :: "nat list option"
  v_true_k :: "nat option"
  v_vectorizer :: "'tf option"
  v_X_train :: "real list list option"
  v_lsa :: "'sv option"
  v_data_test :: "bunch option"
  v_target_names :: "string list option"
  v_y_train :: "nat list option"
  v_y_test :: "nat list option"
  v_X_test :: "real list list option"
  v_gnb :: "'nb option"
  v_y_pred_NB :: "nat list option"
  v_svm :: "'svc option"
  v_y_pred_SVM :: "nat list option"
  v_printed :: "string list"
  v_generator :: 'g

definition classification_init :: "'g \<Rightarrow> ('tf, 'sv, 'nb, 'svc, 'g) classification_state" where
  "classification_init g =
     \<lparr>v_data_train = None, v_n_components = None, v_labels = None, v_true_k = None,
      v_vectorizer = None, v_X_train = None, v_lsa = None, v_data_test = None,
      v_target_names = None, v_y_train = None, v_y_test = None, v_X_test = None, v_gnb = None,
      v_y_pred_NB = None, v_svm = None, v_y_pred_SVM = None, v_printed = [], v_generator = g\<rparr>"

text \<open>
  \<^verbatim>\<open>
  data_train = fetch_20newsgroups(subset='train', categories=categories, shuffle=True, random_state=42)
  n_components = 5
  labels = data_train.target
  true_k = np.unique(labels).shape[0]
  vectorizer = TfidfVectorizer(max_df=0.5, min_df=2, stop_words='english', use_idf=True)
  X_train = vectorizer.fit_transform(data_train.data)
  svd = TruncatedSVD(n_components)
  normalizer = Normalizer(copy=False)
  lsa = make_pipeline(svd, normalizer)
  X_train = lsa.fit_transform(X_train)

  data_test = fetch_20newsgroups(subset='test', categories=categories, shuffle=True, random_state=42)
  target_names = data_train.target_names
  y_train, y_test = data_train.target, data_test.target
  print("Extracting features from the test data using the same vectorizer")
  X_test = vectorizer.transform(data_test.data)
  X_test = lsa.fit_transform(X_test)

  gnb = GaussianNB()
  y_pred_NB = gnb.fit(X_train, y_train).predict(X_test)
  svm = SVC()
  y_pred_SVM = svm.fit(X_train, y_train).predict(X_test)
  \<close>
  The statements in order. A \<^verbatim>\<open>fit_transform\<close> and a \<^verbatim>\<open>fit(...).predict(...)\<close> are two
  steps each: the estimator stays fitted when the second step raises.
\<close>

definition classification_steps ::
  "('tf, 'sv, 'nb, 'svc, 'g) sklearn_calls \<Rightarrow> 'w env \<Rightarrow>
   (('tf, 'sv, 'nb, 'svc, 'g) classification_state \<Rightarrow>
    ('tf, 'sv, 'nb, 'svc, 'g) classification_state \<times> py_error option) list" where
  "classification_steps lib env =
     [statement (\<lambda>s. Inr ()) (\<lambda>u. e_newsgroups env ''train'') (\<lambda>d s. s\<lparr>v_data_train := Some d\<rparr>),
      statement (\<lambda>s. Inr ()) Inr (\<lambda>u s. s\<lparr>v_n_components := Some 5\<rparr>),
      statement (\<lambda>s. name_lookup (v_data_train s)) (\<lambda>d. Inr (bunch_target d))
        (\<lambda>labels s. s\<lparr>v_labels := Some labels\<rparr>),
      statement (\<lambda>s. name_lookup (v_labels s)) (\<lambda>labels. Inr (length (remdups labels)))
        (\<lambda>k s. s\<lparr>v_true_k := Some k\<rparr>),
      statement (\<lambda>s. name_lookup (v_data_train s)) (\<lambda>d. call_tfidf_fit lib (bunch_data d))
        (\<lambda>vectorizer s. s\<lparr>v_vectorizer := Some vectorizer\<rparr>),
      statement (\<lambda>s. both (name_lookup (v_vectorizer s)) (name_lookup (v_data_train s)))
        (\<lambda>(vectorizer, d). call_tfidf_transform lib vectorizer (bunch_data d))
        (\<lambda>X s. s\<lparr>v_X_train := Some X\<rparr>),
      statement (\<lambda>s. both (name_lookup (v_n_components s)) (both (name_lookup (v_X_train s)) (Inr (v_generator s))))
        (\<lambda>(n, X, g). call_svd_fit lib n X g)
        (\<lambda>(svd, g) s. s\<lparr>v_lsa := Some svd, v_generator := g\<rparr>),
      statement (\<lambda>s. both (name_lookup (v_lsa s)) (name_lookup (v_X_train s)))
        (\<lambda>(svd, X). case call_svd_transform lib svd X of Inl e \<Rightarrow> Inl e | Inr X1 \<Rightarrow> call_normalize lib X1)
        (\<lambda>X s. s\<lparr>v_X_train := Some X\<rparr>),
      statement (\<lambda>s. Inr ()) (\<lambda>u. e_newsgroups env ''test'') (\<lambda>d s. s\<lparr>v_data_test := Some d\<rparr>),
      statement (\<lambda>s. name_lookup (v_data_train s)) (\<lambda>d. Inr (bunch_target_names d))
        (\<lambda>names s. s\<lparr>v_target_names := Some names\<rparr>),
      statement (\<lambda>s. both (name_lookup (v_data_train s)) (name_lookup (v_data_test s)))
        (\<lambda>(d_train, d_test). Inr (bunch_target d_train, bunch_target d_test))
        (\<lambda>(y_train, y_test) s. s\<lparr>v_y_train := Some y_train, v_y_test := Some y_test\<rparr>),
      statement (\<lambda>s. Inr ()) Inr
        (\<lambda>u s. s\<lparr>v_printed := v_printed s @ [''Extracting features from the test data using the same vectorizer'']\<rparr>),
      statement (\<lambda>s. both (name_lookup (v_vectorizer s)) (name_lookup (v_data_test s)))
        (\<lambda>(vectorizer, d). call_tfidf_transform lib vectorizer (bunch_data d))
        (\<lambda>X s. s\<lparr>v_X_test := Some X\<rparr>),
      statement (\<lambda>s. both (name_lookup (v_n_components s)) (both (name_lookup (v_X_test s)) (Inr (v_generator s))))
        (\<lambda>(n, X, g). call_svd_fit lib n X g)
        (\<lambda>(svd, g) s. s\<lparr>v_lsa := Some svd, v_generator := g\<rparr>),
      statement (\<lambda>s. both (name_lookup (v_lsa s)) (name_lookup (v_X_test s)))
        (\<lambda>(svd, X). case call_svd_transform lib svd X of Inl e \<Rightarrow> Inl e | Inr X1 \<Rightarrow> call_normalize lib X1)
        (\<lambda>X s. s\<lparr>v_X_test := Some X\<rparr>),
      statement (\<lambda>s. both (name_lookup (v_X_train s)) (name_lookup (v_y_train s)))
        (\<lambda>(X, y). call_gnb_fit lib X y) (\<lambda>gnb s. s\<lparr>v_gnb := Some gnb\<rparr>),
      statement (\<lambda>s. both (name_lookup (v_gnb s)) (name_lookup (v_X_test s)))
        (\<lambda>(gnb, X). call_gnb_predict lib gnb X) (\<lambda>y s. s\<lparr>v_y_pred_NB := Some y\<rparr>),
      statement (\<lambda>s. both (name_lookup (v_X_train s)) (name_lookup (v_y_train s)))
        (\<lambda>(X, y). call_svc_fit lib X y) (\<lambda>svm s. s\<lparr>v_svm := Some svm\<rparr>),
      statement (\<lambda>s. both (name_lookup (v_svm s)) (name_lookup (v_X_test s)))
        (\<lambda>(svm, X). call_svc_predict lib svm X) (\<lambda>y s. s\<lparr>v_y_pred_SVM := Some y\<rparr>)]"

subsection \<open>The generation cells\<close>

text \<open>
  \<^verbatim>\<open>np_utils.to_categorical(list_Y)\<close>: one row per label, with a one in the column of
  the label, as the notebook's cell on \<^verbatim>\<open>test_x\<close> shows; the number of columns is the
  greatest label plus one, and there is no greatest label of an empty list.
\<close>

definition to_categorical :: "nat list \<Rightarrow> py_error + nat list list" where
  "to_categorical ys =
     (if ys = [] then Inl ValueError
      else Inr (map (\<lambda>y. map (\<lambda>k. if k = y then 1 else 0) [0..<Suc (fold max ys 0)]) ys))"

text \<open>
  The global variables that the generation cells bind, what the cells have printed, the
  reports of the checkpoint callback, the file system and the random generator.
  \<open>g_test_data_dir\<close> and \<open>g_lee_train_file\<close> are the two names that the topic-modelling
  cells have bound before.
\<close>

record ('w, 'g) generation_state =
  g_test_x :: "nat list option"
  g_test_y :: "nat list list option"
  g_test_data_dir :: "string option"
  g_lee_train_file :: "string option"
  g_data :: "string option"
  g_chars :: "string option"
  g_char_to_int :: "(char \<rightharpoonup> nat) option"
  g_ix_to_char :: "(nat \<rightharpoonup> char) option"
  g_vocab_size :: "nat option"
  g_list_X :: "nat list list option"
  g_list_Y :: "nat list option"
  g_n_patterns :: "nat option"
  g_X :: "nat list list option"
  g_Y :: "nat list list option"
  g_model :: "'w sequential option"
  g_history :: "np_float list"
  g_events :: "checkpoint_event list"
  g_printed :: "string list"
  g_fs :: "'w filesystem"
  g_generator :: 'g

definition generation_init ::
  "'w filesystem \<Rightarrow> 'g \<Rightarrow> string option \<Rightarrow> string option \<Rightarrow> ('w, 'g) generation_state" where
  "generation_init fs g dir path =
     \<lparr>g_test_x = None, g_test_y = None, g_test_data_dir = dir, g_lee_train_file = path,
      g_data = None, g_chars = None, g_char_to_int = None, g_ix_to_char = None,
      g_vocab_size = None, g_list_X = None, g_list_Y = None, g_n_patterns = None, g_X = None,
      g_Y = None, g_model = None, g_history = [], g_events = [], g_printed = [], g_fs = fs,
      g_generator = g\<rparr>"

text \<open>
  \<^verbatim>\<open>train(model, X[:1024], Y[:1024], 2, 512, vocab_size)\<close>: the model, the file system and
  the generator are as \<open>train\<close> left them, also when it raised.
\<close>

definition train_cell ::
  "('w, 'x, 'p, 'g) keras \<Rightarrow> ('w, 'g) generation_state \<Rightarrow> ('w, 'g) generation_state \<times> py_error option" where
  "train_cell lib s =
     (case both (name_lookup (g_model s))
             (both (name_lookup (g_X s)) (both (name_lookup (g_Y s)) (name_lookup (g_vocab_size s)))) of
        Inl e \<Rightarrow> (s, Some e)
      | Inr (model, X, Y, n_vocab) \<Rightarrow>
          (let r = train lib (g_fs s) model (take 1024 X) (take 1024 Y) 2 512 n_vocab
                     \<lparr>kw_loss = None, kw_optimizer = None\<rparr> (g_generator s)
           in (s\<lparr>g_model := Some (tr_model r), g_fs := tr_fs r,
                 g_history := g_history s @ tr_history r, g_events := g_events s @ tr_events r,
                 g_generator := tr_generator r\<rparr>,
               tr_error r)))"

text \<open>
  \<^verbatim>\<open>generate_text(model, X, filename, ix_to_char, vocab_size)\<close>: \<open>generate_text\<close> is given
  the number that the generator draws next. The model keeps the weights that were loaded
  and the generator has drawn once \<^verbatim>\<open>np.random.randint\<close> has returned, also when a later
  line of \<open>generate_text\<close> raises; the lines are kept when all of them were printed.
\<close>

definition generate_cell ::
  "('w, 'x, 'p, 'g) keras \<Rightarrow> string \<Rightarrow> ('w, 'g) generation_state \<Rightarrow>
   ('w, 'g) generation_state \<times> py_error option" where
  "generate_cell lib filename s =
     (case both (name_lookup (g_model s))
             (both (name_lookup (g_X s)) (both (name_lookup (g_ix_to_char s)) (name_lookup (g_vocab_size s)))) of
        Inl e \<Rightarrow> (s, Some e)
      | Inr (model, X, i2c, n_vocab) \<Rightarrow>
          (let drawn = random_draw lib (g_generator s);
               s1 = (case load_weights (g_fs s) filename model of
                       Inl e \<Rightarrow> s
                     | Inr model1 \<Rightarrow>
                         s\<lparr>g_model := Some (compile ''categorical_crossentropy'' ''adam'' model1),
                           g_generator := (if length X \<le> 1 then g_generator s else snd drawn)\<rparr>)
           in case generate_text lib (g_fs s) (fst drawn) model X filename i2c n_vocab of
                Inl e \<Rightarrow> (s1, Some e)
              | Inr lines \<Rightarrow> (s1\<lparr>g_printed := g_printed s @ lines\<rparr>, None)))"

text \<open>
  \<^verbatim>\<open>
  test_x = np.array([1, 2, 0, 4, 3, 7, 10])
  test_y = np_utils.to_categorical(test_x)
  ... (the definitions of create_model, train and generate_text)
  test_data_dir = '{}'.format(os.sep).join([gensim.__path__[0], 'test', 'test_data'])
  lee_train_file = test_data_dir + os.sep + 'lee_background.cor'
  data = open(lee_train_file).read()
  chars       = sorted(list(set(data)))
  char_to_int = dict((c, i) for i, c in enumerate(chars))
  ix_to_char  = dict((i, c) for i, c in enumerate(chars))
  vocab_size  = len(chars)
  list_X      = []
  list_Y      = []
  for i in range(0, len(data) - SEQ_LENGTH, 1): ...
  n_patterns  = len(list_X)
  X           = np.reshape(list_X, (n_patterns, SEQ_LENGTH, 1))
  Y           = np_utils.to_categorical(list_Y)
  model   = create_model(1, X.shape, 256, Y.shape[1], mode = 'train')
  train(model, X[:1024], Y[:1024], 2, 512, vocab_size)
  generate_text(model, X, "Weights/weights-improvement-01-4.3050.hdf5", ix_to_char, vocab_size)
  generate_text(model, X, "Weights/weights-improvement-02-4.0229.hdf5", ix_to_char, vocab_size)
  \<close>
  The statements in order. The loop that builds the examples is the one of
  \<open>build_examples\<close>, on the dictionary that the cell has bound; \<^verbatim>\<open>np.reshape\<close> raises
  unless there are \<^verbatim>\<open>n_patterns\<close> lists of length \<^verbatim>\<open>SEQ_LENGTH\<close>, and the windows of
  \<^verbatim>\<open>X\<close> are the lists of \<^verbatim>\<open>list_X\<close>; a model that is built draws its first weights from
  the generator.
\<close>

definition generation_steps ::
  "('w, 'x, 'p, 'g) keras \<Rightarrow> 'w env \<Rightarrow>
   (('w, 'g) generation_state \<Rightarrow> ('w, 'g) generation_state \<times> py_error option) list" where
  "generation_steps lib env =
     [statement (\<lambda>s. Inr ()) Inr (\<lambda>u s. s\<lparr>g_test_x := Some [1, 2, 0, 4, 3, 7, 10]\<rparr>),
      statement (\<lambda>s. name_lookup (g_test_x s)) to_categorical (\<lambda>y s. s\<lparr>g_test_y := Some y\<rparr>),
      statement (\<lambda>s. Inr ()) (\<lambda>u. Inr (test_data_dir (e_gensim_path env) (e_sep env)))
        (\<lambda>d s. s\<lparr>g_test_data_dir := Some d\<rparr>),
      statement (\<lambda>s. name_lookup (g_test_data_dir s)) (\<lambda>d. Inr (d @ e_sep env @ ''lee_background.cor''))
        (\<lambda>path s. s\<lparr>g_lee_train_file := Some path\<rparr>),
      statement (\<lambda>s. both (name_lookup (g_lee_train_file s)) (Inr (g_fs s)))
        (\<lambda>(path, fs). open_read fs path)
        (\<lambda>data s. s\<lparr>g_data := Some data\<rparr>),
      statement (\<lambda>s. name_lookup (g_data s)) (\<lambda>data. Inr (chars data)) (\<lambda>cs s. s\<lparr>g_chars := Some cs\<rparr>),
      statement (\<lambda>s. name_lookup (g_chars s))
        (\<lambda>cs. Inr (dict (map (\<lambda>ic. (snd ic, fst ic)) (enumerate 0 cs))))
        (\<lambda>c2i s. s\<lparr>g_char_to_int := Some c2i\<rparr>),
      statement (\<lambda>s. name_lookup (g_chars s)) (\<lambda>cs. Inr (dict (enumerate 0 cs)))
        (\<lambda>i2c s. s\<lparr>g_ix_to_char := Some i2c\<rparr>),
      statement (\<lambda>s. name_lookup (g_chars s)) (\<lambda>cs. Inr (length cs))
        (\<lambda>n s. s\<lparr>g_vocab_size := Some n\<rparr>),
      statement (\<lambda>s. Inr ()) Inr (\<lambda>u s. s\<lparr>g_list_X := Some [], g_list_Y := Some []\<rparr>),
      statement (\<lambda>s. both (name_lookup (g_data s)) (name_lookup (g_char_to_int s)))
        (\<lambda>(data, c2i). for_each (example_step c2i data) [0..<length data - SEQ_LENGTH] ([], []))
        (\<lambda>(list_X, list_Y) s. s\<lparr>g_list_X := Some list_X, g_list_Y := Some list_Y\<rparr>),
      statement (\<lambda>s. name_lookup (g_list_X s)) (\<lambda>list_X. Inr (length list_X))
        (\<lambda>n s. s\<lparr>g_n_patterns := Some n\<rparr>),
      statement (\<lambda>s. both (name_lookup (g_list_X s)) (name_lookup (g_n_patterns s)))
        (\<lambda>(list_X, n). if length list_X = n \<and> (\<forall>x \<in> set list_X. length x = SEQ_LENGTH)
                        then Inr list_X else Inl ValueError)
        (\<lambda>X s. s\<lparr>g_X := Some X\<rparr>),
      statement (\<lambda>s. name_lookup (g_list_Y s)) to_categorical (\<lambda>Y s. s\<lparr>g_Y := Some Y\<rparr>),
      statement (\<lambda>s. both (name_lookup (g_X s)) (name_lookup (g_Y s)))
        (\<lambda>(X, Y). case Y of
                     [] \<Rightarrow> Inl IndexError
                   | row # rows \<Rightarrow>
                       Inr (create_model 1 (int (length X), int SEQ_LENGTH, 1) 256 (int (length row))
                              \<lparr>kw_drop_rate = None, kw_activation = None, kw_mode = Some ''train''\<rparr>))
        (\<lambda>ls s. s\<lparr>g_model := Some \<lparr>layers = ls, weights = fst (initial_weights lib ls (g_generator s)),
                                     compiled = None\<rparr>,
                    g_generator := snd (initial_weights lib ls (g_generator s))\<rparr>),
      train_cell lib,
      generate_cell lib ''Weights/weights-improvement-01-4.3050.hdf5'',
      generate_cell lib ''Weights/weights-improvement-02-4.0229.hdf5'']"

subsection \<open>Running all cells\<close>

text \<open>
  What a run of the notebook leaves: the variables of the three groups of cells, \<open>None\<close>
  for a group that was not reached, and the exception that ended the run, if any.
\<close>

record ('nlp, 'bg, 'dict, 'lda, 'tf, 'sv, 'nb, 'svc, 'w, 'g) run =
  r_topics :: "('nlp, 'bg, 'dict, 'lda, 'g) topic_state"
  r_classification :: "('tf, 'sv, 'nb, 'svc, 'g) classification_state option"
  r_generation :: "('w, 'g) generation_state option"
  r_error :: "py_error option"

text \<open>
  All cells from top to bottom, from the generator \<open>g\<close>: an exception ends the run, so
  the cells below it are not run. The generator goes from one group of cells to the
  next, and so do the two names that the topic-modelling cells and the generation cells
  both bind.
\<close>

definition notebook ::
  "('nlp, 'bg, 'dict, 'lda, 'g) text_libs \<Rightarrow> ('tf, 'sv, 'nb, 'svc, 'g) sklearn_calls \<Rightarrow>
   ('w, 'x, 'p, 'g) keras \<Rightarrow> 'w env \<Rightarrow> 'g \<Rightarrow>
   ('nlp, 'bg, 'dict, 'lda, 'tf, 'sv, 'nb, 'svc, 'w, 'g) run" where
  "notebook txt sk kl env g =
     (case run_steps (topic_steps txt env) (topic_init g) of
        (t, Some e) \<Rightarrow>
          \<lparr>r_topics = t, r_classification = None, r_generation = None, r_error = Some e\<rparr>
      | (t, None) \<Rightarrow>
          (case run_steps (classification_steps sk env) (classification_init (t_generator t)) of
             (c, Some e) \<Rightarrow>
               \<lparr>r_topics = t, r_classification = Some c, r_generation = None, r_error = Some e\<rparr>
           | (c, None) \<Rightarrow>
               (case run_steps (generation_steps kl env)
                       (generation_init (e_fs env) (v_generator c) (t_test_data_dir t) (t_lee_train_file t)) of
                  (gen, err) \<Rightarrow>
                    \<lparr>r_topics = t, r_classification = Some c, r_generation = Some gen, r_error = err\<rparr>)))"

subsection \<open>A small run\<close>

text \<open>
  A small instance of the text libraries: every character is a token, a full stop is
  punctuation, the pipeline is the list of its stop words, the bag of words of a document
  is its length, and the topic model is the number of documents; fitting it draws once
  for every token of the corpus, and raises on a corpus without tokens when the generator
  is at \<open>13\<close>.
\<close>

definition toy_token :: "string list \<Rightarrow> char \<Rightarrow> token" where
  "toy_token stops c =
     \<lparr>w_text = [c], w_lemma = [c], w_is_stop = ([c] \<in> set stops), w_is_punct = (c = CHR ''.''),
      w_like_num = False\<rparr>"

definition toy_text :: "(string list, unit, unit, nat, nat) text_libs" where
  "toy_text =
     \<lparr>spacy_load = (\<lambda>name. if name = ''en'' then Inr [] else Inl (OSError name)),
      set_is_stop = (\<lambda>nlp word. Inr (nlp @ [word])),
      nlp_call = (\<lambda>nlp text. Inr (map (toy_token nlp) text)),
      render_annotations = (\<lambda>sent. Inr []),
      phrases = (\<lambda>texts. Inr ()),
      apply_phrases = (\<lambda>bigram line. Inr line),
      dictionary = (\<lambda>texts. Inr ()),
      doc2bow = (\<lambda>d line. Inr [(0, length line)]),
      lda_model = (\<lambda>corpus k d g.
         if g = 13 then Inl (LibraryError ''LdaModel'')
         else Inr (length corpus, g + sum_list (map (\<lambda>bow. sum_list (map snd bow)) corpus))),
      show_topics = (\<lambda>lda. Inr [])\<rparr>"

text \<open>
  A small instance of the scikit-learn calls: those of \<open>toy_sklearn\<close>, but fitting the
  SVD adds the generator to what it learns, draws once, and raises on no rows.
\<close>

definition toy_calls :: "(nat, real, unit, unit, nat) sklearn_calls" where
  "toy_calls =
     (pure_calls toy_sklearn)
       \<lparr>call_svd_fit := (\<lambda>n X g. if X = [] then Inl ValueError
                                  else Inr (svd_fit toy_sklearn n X + real g, g + 1))\<rparr>"

text \<open>
  The outside of a small run: the corpus file with the given content, two weights files
  under the names that the last two cells ask for, and the two small collections.
\<close>

definition toy_env :: "string \<Rightarrow> nat env" where
  "toy_env corpus =
     \<lparr>e_fs = \<lparr>files = [''/gensim/test/test_data/lee_background.cor'' \<mapsto> TextFile corpus,
                       ''Weights/weights-improvement-01-4.3050.hdf5'' \<mapsto> WeightsFile 1,
                       ''Weights/weights-improvement-02-4.0229.hdf5'' \<mapsto> WeightsFile 2],
              writable = (\<lambda>path. take 8 path = ''Weights/'')\<rparr>,
      e_gensim_path = ''/gensim'', e_sep = ''/'',
      e_newsgroups = (\<lambda>subset. if subset = ''train'' then Inr toy_train
                                else if subset = ''test'' then Inr toy_test
                                else Inl ValueError)\<rparr>"
section \<open>Properties of the cleaning loop\<close>

lemma texts_loop_snoc: "texts_loop (pre @ [w]) = texts_step (texts_loop pre) w"
  by (simp add: texts_loop_def)

lemma foldl_texts_step_no_newline:
  "\<forall>w\<in>set rest. w_text w \<noteq> newline \<Longrightarrow>
   foldl texts_step s rest =
     (fst s, snd s @ map w_lemma (filter (\<lambda>w. \<not> w_is_stop w \<and> \<not> w_is_punct w \<and> \<not> w_like_num w) rest))"
proof (induction rest arbitrary: s)
  case Nil
  then show ?case by simp
next
  case (Cons w rest)
  then have "texts_step s w =
      (fst s, if \<not> w_is_stop w \<and> \<not> w_is_punct w \<and> \<not> w_like_num w then snd s @ [w_lemma w] else snd s)"
    by (cases s) (simp add: texts_step_def Let_def)
  with Cons show ?case by simp
qed

text \<open>
  C3. For every token \<open>w\<close> of the annotated corpus, met after the tokens \<open>pre\<close>: when
  the text of \<open>w\<close> is a newline, the current article is closed, appended to the list of
  per-document token lists, and a new empty article is started; otherwise the lemma of
  \<open>w\<close> is appended to the current article exactly when \<open>w\<close> is neither a stop word,
  nor punctuation, nor number-like, and the list of documents is unchanged.
\<close>

theorem token_filter_step:
  "texts_loop (pre @ [w]) =
     (if w_text w = newline then (texts_of pre @ [article_of pre], [])
      else if \<not> w_is_stop w \<and> \<not> w_is_punct w \<and> \<not> w_like_num w
           then (texts_of pre, article_of pre @ [w_lemma w])
           else (texts_of pre, article_of pre))"
  by (cases "texts_loop pre") (simp add: texts_loop_snoc texts_step_def texts_of_def article_of_def)

text \<open>
  C10. Tokens after the last newline token never reach the list of documents: when no
  token of \<open>rest\<close> is a newline, the documents of \<open>pre @ rest\<close> are those of \<open>pre\<close>,
  the lemmas of the tokens of \<open>rest\<close> that pass the filter stay in the article in
  progress, and a corpus with no newline token at all yields the empty list of documents.
\<close>

theorem trailing_tokens_discarded:
  assumes "\<forall>w\<in>set rest. w_text w \<noteq> newline"
  shows "texts_of (pre @ rest) = texts_of pre \<and>
         article_of (pre @ rest) =
           article_of pre @
           map w_lemma (filter (\<lambda>w. \<not> w_is_stop w \<and> \<not> w_is_punct w \<and> \<not> w_like_num w) rest) \<and>
         texts_of rest = []"
proof -
  have "texts_loop (pre @ rest) = foldl texts_step (texts_loop pre) rest"
    by (simp add: texts_loop_def)
  moreover have "texts_loop rest = foldl texts_step ([], []) rest"
    by (simp add: texts_loop_def)
  ultimately show ?thesis
    using foldl_texts_step_no_newline[OF assms]
    by (simp add: texts_of_def article_of_def)
qed

theorem trailing_tokens_discarded_witness:
  "texts_of
     ([\<lparr>w_text = ''cats'', w_lemma = ''cat'', w_is_stop = False, w_is_punct = False, w_like_num = False\<rparr>,
       \<lparr>w_text = newline, w_lemma = newline, w_is_stop = False, w_is_punct = False, w_like_num = False\<rparr>] @
      [\<lparr>w_text = ''dogs'', w_lemma = ''dog'', w_is_stop = False, w_is_punct = False, w_like_num = False\<rparr>])
     = [[''cat'']] \<and>
   texts_of
     [\<lparr>w_text = ''dogs'', w_lemma = ''dog'', w_is_stop = False, w_is_punct = False, w_like_num = False\<rparr>]
     = []"
proof -
  let ?cats = "\<lparr>w_text = ''cats'', w_lemma = ''cat'', w_is_stop = False, w_is_punct = False, w_like_num = False\<rparr>"
  let ?nl = "\<lparr>w_text = newline, w_lemma = newline, w_is_stop = False, w_is_punct = False, w_like_num = False\<rparr>"
  let ?dogs = "\<lparr>w_text = ''dogs'', w_lemma = ''dog'', w_is_stop = False, w_is_punct = False, w_like_num = False\<rparr>"
  have h: "\<forall>w\<in>set [?dogs]. w_text w \<noteq> newline"
    by (simp add: newline_def)
  have "texts_of [?cats, ?nl] = [[''cat'']]"
    by (simp add: texts_of_def texts_loop_def texts_step_def newline_def)
  with trailing_tokens_discarded[OF h, of "[?cats, ?nl]"] show ?thesis
    by simp
qed

section \<open>Properties of the character alphabet\<close>

lemma dict_map_of_rev: "dict kvs = map_of (rev kvs)"
proof -
  have "foldl (\<lambda>m kv. m(fst kv \<mapsto> snd kv)) m0 kvs = m0 ++ map_of (rev kvs)" for m0 :: "'a \<rightharpoonup> 'b"
    by (induction kvs arbitrary: m0) (simp_all add: map_add_upd_left)
  then show ?thesis by (simp add: dict_def)
qed

lemma dict_zip_nth:
  assumes "length ks = length vs" "distinct ks" "i < length ks"
  shows "dict (zip ks vs) (ks ! i) = Some (vs ! i)"
proof -
  let ?n = "length ks"
  have len: "length (rev ks) = length (rev vs)" using assms by simp
  have "dict (zip ks vs) = map_of (zip (rev ks) (rev vs))"
    using assms by (simp add: dict_map_of_rev zip_rev)
  moreover have "ks ! i = rev ks ! (?n - 1 - i)" "vs ! i = rev vs ! (?n - 1 - i)"
    using assms by (simp_all add: rev_nth)
  moreover have "map_of (zip (rev ks) (rev vs)) (rev ks ! (?n - 1 - i)) = Some (rev vs ! (?n - 1 - i))"
    using assms by (intro map_of_zip_nth) simp_all
  ultimately show ?thesis by simp
qed

lemma dict_zip_dom: "length ks = length vs \<Longrightarrow> dom (dict (zip ks vs)) = set ks"
proof -
  assume "length ks = length vs"
  then have "fst ` set (zip ks vs) = set ks"
    by (metis map_fst_zip set_map order_refl)
  then show ?thesis
    by (simp add: dict_map_of_rev dom_map_of_conv_image_fst)
qed

lemma chars_props:
  "set (chars data) = set data" "distinct (chars data)" "sorted (chars data)"
  by (simp_all add: chars_def)

lemma char_to_int_zip:
  "char_to_int data = dict (zip (chars data) [0..<length (chars data)])"
proof -
  have "map (\<lambda>ic. (snd ic, fst ic)) (zip xs ys) = zip ys xs" for xs :: "nat list" and ys :: "'a list"
    by (induction xs ys rule: list_induct2') simp_all
  then show ?thesis by (simp add: char_to_int_def enumerate_eq_zip)
qed

lemma ix_to_char_zip:
  "ix_to_char data = dict (zip [0..<length (chars data)] (chars data))"
  by (simp add: ix_to_char_def enumerate_eq_zip)

lemma char_to_int_nth:
  "i < vocab_size data \<Longrightarrow> char_to_int data (chars data ! i) = Some i"
  using dict_zip_nth[of "chars data" "[0..<length (chars data)]" i]
  by (simp add: char_to_int_zip vocab_size_def chars_props)

lemma ix_to_char_nth:
  "i < vocab_size data \<Longrightarrow> ix_to_char data i = Some (chars data ! i)"
  using dict_zip_nth[of "[0..<length (chars data)]" "chars data" i]
  by (simp add: ix_to_char_zip vocab_size_def)

lemma dom_char_to_int: "dom (char_to_int data) = set data"
  by (simp add: char_to_int_zip dict_zip_dom chars_props)

lemma dom_ix_to_char: "dom (ix_to_char data) = {0..<vocab_size data}"
  by (simp add: ix_to_char_zip dict_zip_dom vocab_size_def)

lemma chars_strictly_ascending:
  "i < j \<Longrightarrow> j < vocab_size data \<Longrightarrow> chars data ! i < chars data ! j"
proof -
  assume a: "i < j" "j < vocab_size data"
  then have "chars data ! i \<le> chars data ! j"
    using chars_props(3)[of data] by (simp add: sorted_iff_nth_mono vocab_size_def)
  moreover have "chars data ! i \<noteq> chars data ! j"
    using a chars_props(2)[of data] by (simp add: nth_eq_iff_index_eq vocab_size_def)
  ultimately show ?thesis by simp
qed

text \<open>
  C8. The alphabet maps are mutually inverse bijections between the sorted distinct
  characters of the corpus and the ids \<open>0..vocab_size - 1\<close>: every character of
  \<open>chars\<close> has an id below \<open>vocab_size\<close> that \<open>ix_to_char\<close> maps back to it, every
  id below \<open>vocab_size\<close> has a character that \<open>char_to_int\<close> maps back to it, the
  keys and values of the two maps are exactly these characters and ids, the character
  at position \<open>i\<close> of \<open>chars\<close> gets the id \<open>i\<close>, and \<open>chars\<close> is strictly ascending.
\<close>

theorem char_maps_inverse:
  "(\<forall>c\<in>set (chars data). \<exists>i<vocab_size data. char_to_int data c = Some i \<and> ix_to_char data i = Some c) \<and>
   (\<forall>i<vocab_size data. \<exists>c\<in>set (chars data). ix_to_char data i = Some c \<and> char_to_int data c = Some i) \<and>
   dom (char_to_int data) = set (chars data) \<and>
   ran (char_to_int data) = {0..<vocab_size data} \<and>
   dom (ix_to_char data) = {0..<vocab_size data} \<and>
   ran (ix_to_char data) = set (chars data) \<and>
   (\<forall>i<vocab_size data. char_to_int data (chars data ! i) = Some i) \<and>
   (\<forall>j<vocab_size data. \<forall>i<j. chars data ! i < chars data ! j)"
proof (intro conjI)
  show "\<forall>c\<in>set (chars data). \<exists>i<vocab_size data. char_to_int data c = Some i \<and> ix_to_char data i = Some c"
  proof
    fix c assume "c \<in> set (chars data)"
    then obtain i where "i < vocab_size data" "chars data ! i = c"
      by (auto simp: in_set_conv_nth vocab_size_def)
    then show "\<exists>i<vocab_size data. char_to_int data c = Some i \<and> ix_to_char data i = Some c"
      using char_to_int_nth ix_to_char_nth by blast
  qed
  show "\<forall>i<vocab_size data. \<exists>c\<in>set (chars data). ix_to_char data i = Some c \<and> char_to_int data c = Some i"
  proof (intro allI impI)
    fix i assume i: "i < vocab_size data"
    then have "chars data ! i \<in> set (chars data)" by (simp add: vocab_size_def)
    with i show "\<exists>c\<in>set (chars data). ix_to_char data i = Some c \<and> char_to_int data c = Some i"
      using char_to_int_nth ix_to_char_nth by blast
  qed
  show "dom (char_to_int data) = set (chars data)"
    by (simp add: dom_char_to_int chars_props)
  show "ran (char_to_int data) = {0..<vocab_size data}"
  proof (rule set_eqI)
    fix i
    show "i \<in> ran (char_to_int data) \<longleftrightarrow> i \<in> {0..<vocab_size data}"
    proof
      assume "i \<in> ran (char_to_int data)"
      then obtain c where c: "char_to_int data c = Some i" by (auto simp: ran_def)
      then have "c \<in> set (chars data)" using dom_char_to_int[of data] chars_props(1)[of data] by auto
      then obtain k where "k < vocab_size data" "chars data ! k = c"
        by (auto simp: in_set_conv_nth vocab_size_def)
      with c char_to_int_nth[of k data] show "i \<in> {0..<vocab_size data}" by simp
    next
      assume "i \<in> {0..<vocab_size data}"
      then show "i \<in> ran (char_to_int data)"
        using char_to_int_nth[of i data] by (auto simp: ran_def)
    qed
  qed
  show "dom (ix_to_char data) = {0..<vocab_size data}" by (rule dom_ix_to_char)
  show "ran (ix_to_char data) = set (chars data)"
  proof (rule set_eqI)
    fix c
    show "c \<in> ran (ix_to_char data) \<longleftrightarrow> c \<in> set (chars data)"
    proof
      assume "c \<in> ran (ix_to_char data)"
      then obtain i where i: "ix_to_char data i = Some c" by (auto simp: ran_def)
      then have "i < vocab_size data" using dom_ix_to_char[of data] by auto
      with i ix_to_char_nth[of i data] show "c \<in> set (chars data)"
        by (auto simp: vocab_size_def)
    next
      assume "c \<in> set (chars data)"
      then obtain i where "i < vocab_size data" "chars data ! i = c"
        by (auto simp: in_set_conv_nth vocab_size_def)
      then show "c \<in> ran (ix_to_char data)"
        using ix_to_char_nth[of i data] by (auto simp: ran_def)
    qed
  qed
  show "\<forall>i<vocab_size data. char_to_int data (chars data ! i) = Some i"
    using char_to_int_nth by blast
  show "\<forall>j<vocab_size data. \<forall>i<j. chars data ! i < chars data ! j"
    using chars_strictly_ascending by blast
qed

theorem char_maps_inverse_witness:
  "vocab_size ''hello'' = 4 \<and>
   dom (ix_to_char ''hello'') = {0..<4} \<and>
   char_to_int ''hello'' (CHR ''l'') = Some 2 \<and>
   ix_to_char ''hello'' 2 = Some (CHR ''l'')"
proof -
  have v: "vocab_size ''hello'' = 4" by code_simp
  have c: "chars ''hello'' = ''ehlo''" by code_simp
  have d: "dom (ix_to_char ''hello'') = {0..<vocab_size ''hello''}"
    and a: "\<forall>i<vocab_size ''hello''. char_to_int ''hello'' (chars ''hello'' ! i) = Some i"
    and b: "\<forall>c\<in>set (chars ''hello''). \<exists>i<vocab_size ''hello''.
           char_to_int ''hello'' c = Some i \<and> ix_to_char ''hello'' i = Some c"
    using char_maps_inverse[of "''hello''"] by blast+
  have "(2::nat) < vocab_size ''hello''" using v by simp
  with a have "char_to_int ''hello'' (chars ''hello'' ! 2) = Some 2" by blast
  then have 1: "char_to_int ''hello'' (CHR ''l'') = Some 2" unfolding c by simp
  have "CHR ''l'' \<in> set (chars ''hello'')" unfolding c by simp
  with b obtain i where "char_to_int ''hello'' (CHR ''l'') = Some i" "ix_to_char ''hello'' i = Some (CHR ''l'')"
    by blast
  with 1 have 2: "ix_to_char ''hello'' 2 = Some (CHR ''l'')" by simp
  from d v 1 2 show ?thesis by simp
qed

section \<open>Properties of the training examples\<close>

lemma for_each_append:
  "for_each body (xs @ ys) s =
     (case for_each body xs s of Inl e \<Rightarrow> Inl e | Inr s' \<Rightarrow> for_each body ys s')"
  by (induction xs arbitrary: s) (simp_all split: sum.splits)

lemma lookup_all_total:
  "set cs \<subseteq> dom m \<Longrightarrow> lookup_all m cs = Inr (map (\<lambda>c. the (m c)) cs)"
  by (induction cs) auto

lemma example_step_total:
  assumes "set data \<subseteq> dom c2i" "i + SEQ_LENGTH < length data"
  shows "example_step c2i data (list_X, list_Y) i =
           Inr (list_X @ [map (\<lambda>c. the (c2i c)) (take SEQ_LENGTH (drop i data))],
                list_Y @ [the (c2i (data ! (i + SEQ_LENGTH)))])"
proof -
  have "set (take SEQ_LENGTH (drop i data)) \<subseteq> dom c2i"
    using assms(1) by (meson set_take_subset set_drop_subset subset_trans)
  then have 1: "lookup_all c2i (take SEQ_LENGTH (drop i data)) =
      Inr (map (\<lambda>c. the (c2i c)) (take SEQ_LENGTH (drop i data)))"
    by (rule lookup_all_total)
  have "data ! (i + SEQ_LENGTH) \<in> dom c2i"
    using assms by (meson nth_mem subsetD)
  then obtain y where 2: "c2i (data ! (i + SEQ_LENGTH)) = Some y" by auto
  show ?thesis using assms(2) 1 2 by (simp add: example_step_def)
qed

lemma examples_prefix:
  assumes "set data \<subseteq> dom c2i" "n + SEQ_LENGTH \<le> length data"
  shows "for_each (example_step c2i data) [0..<n] ([], []) =
           Inr (map (\<lambda>i. map (\<lambda>c. the (c2i c)) (take SEQ_LENGTH (drop i data))) [0..<n],
                map (\<lambda>i. the (c2i (data ! (i + SEQ_LENGTH)))) [0..<n])"
  using assms(2)
proof (induction n)
  case 0
  then show ?case by simp
next
  case (Suc n)
  then have "n + SEQ_LENGTH < length data" by simp
  with Suc assms(1) show ?case
    by (simp add: for_each_append example_step_total)
qed

text \<open>
  C2. For every character stream of length \<open>L > 100\<close> the construction returns, and builds
  exactly \<open>L - 100\<close> examples; the \<open>i\<close>-th example holds the ids of the characters at
  positions \<open>i\<close> to \<open>i + 99\<close>, and its label is the id of the character at position
  \<open>i + 100\<close>.
\<close>

theorem sliding_windows:
  assumes "length data > 100"
  shows "\<exists>list_X list_Y.
           build_examples data = Inr (list_X, list_Y) \<and>
           length list_X = length data - 100 \<and>
           length list_Y = length data - 100 \<and>
           (\<forall>i<length data - 100.
              length (list_X ! i) = 100 \<and>
              (\<forall>j<100. char_to_int data (data ! (i + j)) = Some (list_X ! i ! j)) \<and>
              char_to_int data (data ! (i + 100)) = Some (list_Y ! i))"
proof -
  let ?c2i = "char_to_int data"
  let ?n = "length data - 100"
  let ?X = "map (\<lambda>i. map (\<lambda>c. the (?c2i c)) (take 100 (drop i data))) [0..<?n]"
  let ?Y = "map (\<lambda>i. the (?c2i (data ! (i + 100)))) [0..<?n]"
  have dom: "set data \<subseteq> dom ?c2i" by (simp add: dom_char_to_int)
  have some: "?c2i (data ! k) = Some (the (?c2i (data ! k)))" if "k < length data" for k
  proof -
    have "data ! k \<in> dom ?c2i" using that dom by (meson nth_mem subsetD)
    then show ?thesis by auto
  qed
  have run: "build_examples data = Inr (?X, ?Y)"
    using examples_prefix[OF dom, of ?n] assms
    by (simp add: build_examples_def SEQ_LENGTH_def)
  have "length (?X ! i) = 100 \<and>
        (\<forall>j<100. ?c2i (data ! (i + j)) = Some (?X ! i ! j)) \<and>
        ?c2i (data ! (i + 100)) = Some (?Y ! i)" if i: "i < ?n" for i
  proof (intro conjI allI impI)
    show "length (?X ! i) = 100" using i by simp
    show "?c2i (data ! (i + 100)) = Some (?Y ! i)" using i some[of "i + 100"] by simp
    fix j :: nat assume j: "j < 100"
    then have "?X ! i ! j = the (?c2i (data ! (i + j)))" using i by simp
    then show "?c2i (data ! (i + j)) = Some (?X ! i ! j)" using some[of "i + j"] i j by simp
  qed
  with run show ?thesis by (intro exI[of _ ?X] exI[of _ ?Y]) simp
qed

theorem sliding_windows_witness:
  "\<exists>list_X list_Y.
     build_examples (replicate 102 (CHR ''a'')) = Inr (list_X, list_Y) \<and>
     length list_X = 2 \<and> length list_Y = 2 \<and> length (list_X ! 1) = 100 \<and>
     char_to_int (replicate 102 (CHR ''a'')) (CHR ''a'') = Some (list_Y ! 1)"
proof -
  have h: "length (replicate 102 (CHR ''a'')) > 100" by simp
  from sliding_windows[OF h] obtain list_X list_Y where
    r: "build_examples (replicate 102 (CHR ''a'')) = Inr (list_X, list_Y)"
       "length list_X = 2" "length list_Y = 2"
    and a: "\<forall>i<length (replicate 102 (CHR ''a'')) - 100.
              length (list_X ! i) = 100 \<and>
              (\<forall>j<100. char_to_int (replicate 102 (CHR ''a'')) (replicate 102 (CHR ''a'') ! (i + j)) = Some (list_X ! i ! j)) \<and>
              char_to_int (replicate 102 (CHR ''a'')) (replicate 102 (CHR ''a'') ! (i + 100)) = Some (list_Y ! i)"
    by auto
  from a have "length (list_X ! 1) = 100 \<and>
      char_to_int (replicate 102 (CHR ''a'')) (replicate 102 (CHR ''a'') ! (1 + 100)) = Some (list_Y ! 1)"
    by simp
  with r show ?thesis by simp
qed

section \<open>Properties of the model builder\<close>

lemma dropout_follows_pair: "dropout_follows [LSTM h s r, Dropout d]"
  by (simp add: dropout_follows_def less_Suc_eq)

lemma dropout_follows_append:
  assumes "dropout_follows xs" "dropout_follows ys"
  shows "dropout_follows (xs @ ys)"
  unfolding dropout_follows_def
proof (intro allI impI)
  fix i assume i: "i < length (xs @ ys)" and l: "is_LSTM ((xs @ ys) ! i)"
  show "Suc i < length (xs @ ys) \<and> is_Dropout ((xs @ ys) ! Suc i)"
  proof (cases "i < length xs")
    case True
    with l have "is_LSTM (xs ! i)" by (simp add: nth_append)
    with True assms(1) have "Suc i < length xs \<and> is_Dropout (xs ! Suc i)"
      by (simp add: dropout_follows_def)
    then show ?thesis by (simp add: nth_append)
  next
    case False
    with i have j: "i - length xs < length ys" by simp
    from False l have "is_LSTM (ys ! (i - length xs))" by (simp add: nth_append)
    with j assms(2) have "Suc (i - length xs) < length ys \<and> is_Dropout (ys ! Suc (i - length xs))"
      by (simp add: dropout_follows_def)
    moreover have "Suc i - length xs = Suc (i - length xs)" using False by simp
    moreover have "Suc i < length xs + length ys \<longleftrightarrow> Suc (i - length xs) < length ys"
      using False by linarith
    ultimately show ?thesis using False by (simp add: nth_append)
  qed
qed

lemma add_hidden_train:
  "dropout_follows model \<Longrightarrow> dropout_follows (add_hidden k hidden_dim ''train'' d model)"
proof (induction k arbitrary: model)
  case 0
  then show ?case by simp
next
  case (Suc k)
  have "dropout_follows (model @ [LSTM hidden_dim None True, Dropout d])"
    using Suc.prems dropout_follows_pair by (rule dropout_follows_append)
  then show ?case using Suc.IH by simp
qed

lemma add_hidden_no_Dense:
  "filter is_Dense (add_hidden k hidden_dim mode d model) = filter is_Dense model"
  by (induction k arbitrary: model) (simp_all add: Let_def)

lemma add_hidden_LSTMs:
  "length (filter is_LSTM (add_hidden k hidden_dim mode d model)) = length (filter is_LSTM model) + k"
  by (induction k arbitrary: model) (simp_all add: Let_def)

lemma add_hidden_no_Dropout:
  "mode \<noteq> ''train'' \<Longrightarrow>
   filter is_Dropout (add_hidden k hidden_dim mode d model) = filter is_Dropout model"
  by (induction k arbitrary: model) (simp_all add: Let_def)

text \<open>The body of a model with at least two layers, before the last LSTM and the Dense layer.\<close>

lemma create_model_multi:
  assumes "n_layers \<noteq> 1"
  shows "create_model n_layers input_shape hidden_dim n_out kwargs =
           add_hidden (nat (n_layers - 2)) hidden_dim (kwargs_get (kw_mode kwargs) ''train'')
             (kwargs_get (kw_drop_rate kwargs) (2 / 10))
             (if kwargs_get (kw_mode kwargs) ''train'' = ''train''
              then [LSTM hidden_dim (Some (fst (snd input_shape), snd (snd input_shape))) True,
                    Dropout (kwargs_get (kw_drop_rate kwargs) (2 / 10))]
              else [LSTM hidden_dim (Some (fst (snd input_shape), snd (snd input_shape))) True])
           @ [LSTM hidden_dim None False, Dense n_out (kwargs_get (kw_activation kwargs) ''softmax'')]"
  using assms by (simp add: create_model_def Let_def)

lemma create_model_single:
  "create_model 1 input_shape hidden_dim n_out kwargs =
     (if kwargs_get (kw_mode kwargs) ''train'' = ''train''
      then [LSTM hidden_dim (Some (fst (snd input_shape), snd (snd input_shape))) False,
            Dropout (kwargs_get (kw_drop_rate kwargs) (2 / 10))]
      else [LSTM hidden_dim (Some (fst (snd input_shape), snd (snd input_shape))) False])
     @ [Dense n_out (kwargs_get (kw_activation kwargs) ''softmax'')]"
  by (simp add: create_model_def Let_def)

lemma final_layers_train:
  assumes "dropout_follows pre"
  shows "\<forall>i<length (pre @ [LSTM h None False, Dense n a]).
           is_LSTM ((pre @ [LSTM h None False, Dense n a]) ! i) \<longrightarrow>
           (if \<forall>j. i < j \<and> j < length (pre @ [LSTM h None False, Dense n a])
                     \<longrightarrow> \<not> is_LSTM ((pre @ [LSTM h None False, Dense n a]) ! j)
            then is_Dense ((pre @ [LSTM h None False, Dense n a]) ! Suc i)
            else is_Dropout ((pre @ [LSTM h None False, Dense n a]) ! Suc i))"
proof (intro allI impI)
  let ?m = "pre @ [LSTM h None False, Dense n a]"
  fix i assume i: "i < length ?m" and l: "is_LSTM (?m ! i)"
  have fin: "is_LSTM (?m ! length pre)" by (simp add: nth_append)
  consider "i < length pre" | "i = length pre" | "i = Suc (length pre)"
    using i by fastforce
  then show "if \<forall>j. i < j \<and> j < length ?m \<longrightarrow> \<not> is_LSTM (?m ! j)
             then is_Dense (?m ! Suc i) else is_Dropout (?m ! Suc i)"
  proof cases
    case 1
    with l have "is_LSTM (pre ! i)" by (simp add: nth_append)
    with 1 assms have "Suc i < length pre \<and> is_Dropout (pre ! Suc i)"
      by (simp add: dropout_follows_def)
    then have d: "is_Dropout (?m ! Suc i)" by (simp add: nth_append)
    have "\<not> (\<forall>j. i < j \<and> j < length ?m \<longrightarrow> \<not> is_LSTM (?m ! j))"
      using 1 fin by (intro notI) (auto dest: spec[where x = "length pre"])
    with d show ?thesis by (simp only: if_False)
  next
    case 2
    have "\<forall>j. i < j \<and> j < length ?m \<longrightarrow> \<not> is_LSTM (?m ! j)"
    proof (intro allI impI)
      fix j assume "i < j \<and> j < length ?m"
      with 2 have "j = Suc (length pre)" by simp
      then show "\<not> is_LSTM (?m ! j)" by (simp add: nth_append)
    qed
    moreover have "is_Dense (?m ! Suc i)" using 2 by (simp add: nth_append)
    ultimately show ?thesis by simp
  next
    case 3
    with l show ?thesis by (simp add: nth_append)
  qed
qed

text \<open>
  C9. For every \<open>n_layers \<ge> 1\<close> the model holds exactly \<open>n_layers\<close> LSTM layers and one
  Dense layer, the last one, with \<open>n_out\<close> units and the requested activation. In mode
  \<open>train\<close> every LSTM layer is directly followed by a Dropout layer, except the final
  LSTM layer of a model with two or more layers, which the Dense layer follows; in any
  other mode the model has no Dropout layer.
\<close>

theorem create_model_layers:
  assumes "1 \<le> n_layers"
  shows "let model = create_model n_layers input_shape hidden_dim n_out kwargs;
             activ = kwargs_get (kw_activation kwargs) ''softmax'';
             mode = kwargs_get (kw_mode kwargs) ''train''
         in length (filter is_LSTM model) = nat n_layers \<and>
            filter is_Dense model = [Dense n_out activ] \<and>
            last model = Dense n_out activ \<and>
            (mode = ''train'' \<longrightarrow>
               (\<forall>i<length model. is_LSTM (model ! i) \<longrightarrow>
                  (if 2 \<le> n_layers \<and> (\<forall>j. i < j \<and> j < length model \<longrightarrow> \<not> is_LSTM (model ! j))
                   then is_Dense (model ! Suc i)
                   else is_Dropout (model ! Suc i)))) \<and>
            (mode \<noteq> ''train'' \<longrightarrow> filter is_Dropout model = [])"
proof (cases "n_layers = 1")
  case True
  show ?thesis
    unfolding True Let_def create_model_single
    by (simp add: less_Suc_eq)
next
  case False
  with assms have n: "2 \<le> n_layers" by simp
  let ?mode = "kwargs_get (kw_mode kwargs) ''train''"
  let ?d = "kwargs_get (kw_drop_rate kwargs) (2 / 10)"
  let ?a = "kwargs_get (kw_activation kwargs) ''softmax''"
  let ?first = "if ?mode = ''train''
      then [LSTM hidden_dim (Some (fst (snd input_shape), snd (snd input_shape))) True, Dropout ?d]
      else [LSTM hidden_dim (Some (fst (snd input_shape), snd (snd input_shape))) True]"
  let ?pre = "add_hidden (nat (n_layers - 2)) hidden_dim ?mode ?d ?first"
  let ?m = "create_model n_layers input_shape hidden_dim n_out kwargs"
  have m: "?m = ?pre @ [LSTM hidden_dim None False, Dense n_out ?a]"
    using False by (rule create_model_multi)
  have c1: "length (filter is_LSTM ?m) = nat n_layers"
    unfolding m using n by (simp add: add_hidden_LSTMs)
  have c2: "filter is_Dense ?m = [Dense n_out ?a]"
    unfolding m by (simp add: add_hidden_no_Dense)
  have c3: "last ?m = Dense n_out ?a"
    unfolding m by simp
  have c4: "\<forall>i<length ?m. is_LSTM (?m ! i) \<longrightarrow>
              (if 2 \<le> n_layers \<and> (\<forall>j. i < j \<and> j < length ?m \<longrightarrow> \<not> is_LSTM (?m ! j))
               then is_Dense (?m ! Suc i) else is_Dropout (?m ! Suc i))" if t: "?mode = ''train''"
  proof -
    have "dropout_follows ?first" using t by (simp add: dropout_follows_pair)
    then have "dropout_follows ?pre" unfolding t by (rule add_hidden_train)
    from final_layers_train[OF this, of hidden_dim n_out ?a] show ?thesis
      unfolding m using n by simp
  qed
  have c5: "filter is_Dropout ?m = []" if "?mode \<noteq> ''train''"
    unfolding m using that by (simp add: add_hidden_no_Dropout)
  from c1 c2 c3 c4 c5 show ?thesis unfolding Let_def by blast
qed

theorem create_model_layers_witness:
  "length (filter is_LSTM (create_model 3 (1024, 100, 1) 256 40
       \<lparr>kw_drop_rate = None, kw_activation = None, kw_mode = Some ''train''\<rparr>)) = 3 \<and>
   create_model 3 (1024, 100, 1) 256 40
       \<lparr>kw_drop_rate = None, kw_activation = None, kw_mode = Some ''train''\<rparr> =
     [LSTM 256 (Some (100, 1)) True, Dropout (2 / 10), LSTM 256 None True, Dropout (2 / 10),
      LSTM 256 None False, Dense 40 ''softmax'']"
proof -
  have h: "(1::int) \<le> 3" by simp
  have "length (filter is_LSTM (create_model 3 (1024, 100, 1) 256 40
       \<lparr>kw_drop_rate = None, kw_activation = None, kw_mode = Some ''train''\<rparr>)) = nat 3"
    using create_model_layers[OF h, of "(1024, 100, 1)" 256 40
       "\<lparr>kw_drop_rate = None, kw_activation = None, kw_mode = Some ''train''\<rparr>"]
    unfolding Let_def by blast
  moreover have "create_model 3 (1024, 100, 1) 256 40
       \<lparr>kw_drop_rate = None, kw_activation = None, kw_mode = Some ''train''\<rparr> =
     [LSTM 256 (Some (100, 1)) True, Dropout (2 / 10), LSTM 256 None True, Dropout (2 / 10),
      LSTM 256 None False, Dense 40 ''softmax'']"
    by (simp add: create_model_def kwargs_get_def Let_def)
  ultimately show ?thesis by simp
qed

section \<open>Properties of the prediction loop\<close>

lemma sample_0: "sample lib model n_vocab 0 seed = Inr (seed, [])"
  by (simp add: sample_def)

lemma sample_Suc:
  "sample lib model n_vocab (Suc k) seed =
     (case sample lib model n_vocab k seed of
        Inl e \<Rightarrow> Inl e
      | Inr s \<Rightarrow> predict_step lib model n_vocab s k)"
  by (simp add: sample_def for_each_append split: sum.splits)

lemma predict_step_Inr:
  "predict lib (layers model) (weights model) (np_divide lib [pattern] n_vocab) = Inr prediction \<Longrightarrow>
   predict_step lib model n_vocab (pattern, outp) i =
     Inr (drop 1 (pattern @ [np_argmax lib prediction]), outp @ [np_argmax lib prediction])"
  by (simp add: predict_step_def Let_def)


lemma predict_step_lengths:
  assumes "predict_step lib model n_vocab (pattern, outp) i = Inr (pattern1, outp1)"
  shows "length pattern1 = length pattern \<and> length outp1 = Suc (length outp)"
  using assms by (auto simp: predict_step_def Let_def split: sum.splits)

lemma sample_lengths:
  "sample lib model n_vocab k seed = Inr (pattern, outp) \<Longrightarrow>
   length pattern = length seed \<and> length outp = k"
proof (induction k arbitrary: pattern outp)
  case 0
  then show ?case by (simp add: sample_0)
next
  case (Suc k)
  then obtain p o' where s: "sample lib model n_vocab k seed = Inr (p, o')"
    and st: "predict_step lib model n_vocab (p, o') k = Inr (pattern, outp)"
    by (auto simp: sample_Suc split: sum.splits)
  from Suc.IH[OF s] predict_step_lengths[OF st] show ?case by simp
qed

lemma sample_total:
  assumes "\<forall>x. \<exists>p. predict lib (layers model) (weights model) x = Inr p"
  shows "\<exists>pattern outp. sample lib model n_vocab k seed = Inr (pattern, outp)"
proof (induction k)
  case 0
  then show ?case by (simp add: sample_0)
next
  case (Suc k)
  then obtain p o' where s: "sample lib model n_vocab k seed = Inr (p, o')" by blast
  from assms obtain pr where
    "predict lib (layers model) (weights model) (np_divide lib [p] n_vocab) = Inr pr" by blast
  from predict_step_Inr[OF this] s show ?case by (simp add: sample_Suc)
qed

text \<open>
  C4. Throughout the 250 iterations of the prediction loop the window keeps the length of
  the seed: after any number \<open>k \<le> 250\<close> of iterations the window is as long as the seed
  and \<open>k\<close> indices have been output; iteration \<open>k + 1\<close> appends the argmax of the
  model's prediction on the current window to the window and to the output, and drops
  the first element of the window. When the model's prediction never raises, the loop
  completes its 250 iterations.
\<close>

theorem window_length_constant:
  "(\<forall>k\<le>250. \<forall>pattern outp.
      sample lib model n_vocab k seed = Inr (pattern, outp) \<longrightarrow>
        length pattern = length seed \<and> length outp = k \<and>
        (k < 250 \<longrightarrow>
           (\<forall>prediction.
              predict lib (layers model) (weights model) (np_divide lib [pattern] n_vocab) = Inr prediction \<longrightarrow>
                sample lib model n_vocab (Suc k) seed =
                  Inr (drop 1 (pattern @ [np_argmax lib prediction]),
                       outp @ [np_argmax lib prediction])))) \<and>
   ((\<forall>x. \<exists>p. predict lib (layers model) (weights model) x = Inr p) \<longrightarrow>
      (\<exists>pattern outp. sample lib model n_vocab 250 seed = Inr (pattern, outp)))"
proof (intro conjI allI impI)
  fix k pattern outp
  assume "sample lib model n_vocab k seed = Inr (pattern, outp)"
  then show "length pattern = length seed" by (simp add: sample_lengths)
next
  fix k pattern outp
  assume "sample lib model n_vocab k seed = Inr (pattern, outp)"
  then show "length outp = k" by (simp add: sample_lengths)
next
  fix k pattern outp prediction
  assume s: "sample lib model n_vocab k seed = Inr (pattern, outp)"
    and p: "predict lib (layers model) (weights model) (np_divide lib [pattern] n_vocab) = Inr prediction"
  show "sample lib model n_vocab (Suc k) seed =
          Inr (drop 1 (pattern @ [np_argmax lib prediction]), outp @ [np_argmax lib prediction])"
    using s predict_step_Inr[OF p] by (simp add: sample_Suc)
next
  assume "\<forall>x. \<exists>p. predict lib (layers model) (weights model) x = Inr p"
  then show "\<exists>pattern outp. sample lib model n_vocab 250 seed = Inr (pattern, outp)"
    by (rule sample_total)
qed

theorem window_length_constant_witness:
  "sample toy_lib \<lparr>layers = [], weights = 1, compiled = None\<rparr> 7 1 [4, 5, 6] = Inr ([5, 6, 3], [3]) \<and>
   (\<exists>pattern outp. sample toy_lib \<lparr>layers = [], weights = 1, compiled = None\<rparr> 7 250 [4, 5, 6] = Inr (pattern, outp)
       \<and> length pattern = 3 \<and> length outp = 250)"
proof -
  let ?m = "\<lparr>layers = [], weights = 1::nat, compiled = None\<rparr>"
  note w = window_length_constant[of toy_lib ?m 7 "[4, 5, 6]"]
  have s0: "sample toy_lib ?m 7 0 [4, 5, 6] = Inr ([4, 5, 6], [])" by (simp add: sample_def)
  have p0: "predict toy_lib (layers ?m) (weights ?m) (np_divide toy_lib [[4, 5, 6]] 7) = Inr [5, 6, 7]"
    by (simp add: toy_lib_def)
  have "sample toy_lib ?m 7 (Suc 0) [4, 5, 6] =
      Inr (drop 1 ([4, 5, 6] @ [np_argmax toy_lib [5, 6, 7]]), [] @ [np_argmax toy_lib [5, 6, 7]])"
    using w s0 p0 by (metis (no_types, lifting) le0 zero_less_numeral)
  then have 1: "sample toy_lib ?m 7 1 [4, 5, 6] = Inr ([5, 6, 3], [3])"
    by (simp add: toy_lib_def)
  have tot: "\<forall>x. \<exists>p. predict toy_lib (layers ?m) (weights ?m) x = Inr p"
    by (simp add: toy_lib_def)
  with w obtain pattern outp where 2: "sample toy_lib ?m 7 250 [4, 5, 6] = Inr (pattern, outp)"
    by blast
  with w have "length pattern = length [4, 5, 6::nat] \<and> length outp = 250"
    by (metis (no_types, lifting) order_refl)
  with 1 2 show ?thesis by simp
qed

section \<open>Properties of training and of the checkpoints\<close>

lemma np_less_trans: "np_less x y \<Longrightarrow> np_less y z \<Longrightarrow> np_less x z"
  by (cases x; cases y; cases z) simp_all

lemma np_less_not_NaN: "np_less x y \<Longrightarrow> x \<noteq> NaN \<and> y \<noteq> NaN"
  by (cases x; cases y) simp_all

lemma np_less_PosInf: "np_less x y \<Longrightarrow> np_less x PosInf"
  by (cases x; cases y) simp_all

lemma np_less_below: "\<not> np_less l b \<Longrightarrow> l \<noteq> NaN \<Longrightarrow> np_less x b \<Longrightarrow> np_less x l"
  by (cases x; cases l; cases b) simp_all

lemma for_each_st_append:
  "for_each_st body (xs @ ys) s =
     (case for_each_st body xs s of
        (s', None) \<Rightarrow> for_each_st body ys s'
      | (s', Some e) \<Rightarrow> (s', Some e))"
  by (induction xs arbitrary: s) (simp_all split: prod.splits option.splits)

lemma fit_Suc:
  "fit lib model X Y (Suc n) b_size cb fs g =
     (case fit lib model X Y n b_size cb fs g of
        (st, None) \<Rightarrow> fit_step lib model X Y b_size st n
      | (st, Some e) \<Rightarrow> (st, Some e))"
  by (simp add: fit_def for_each_st_append split: prod.splits option.splits)

lemma fit_0:
  "fit lib model X Y 0 b_size cb fs g =
     (\<lparr>st_weights = weights model, st_history = [], st_fs = fs, st_events = [], st_checkpoint = cb, st_generator = g\<rparr>, None)"
  by (simp add: fit_def)

text \<open>An epoch that ends without exception, under the checkpoint of \<open>train\<close>.\<close>

lemma fit_step_ok:
  assumes cb: "cp_filepath (st_checkpoint st) = format_filepath lib" "cp_monitor (st_checkpoint st) = ''loss''"
      "cp_save_best_only (st_checkpoint st)" "\<not> cp_greater (st_checkpoint st)"
    and step: "fit_step lib model X Y b_size st n = (st', None)"
  shows "\<exists>w l g loss opt. compiled model = Some (loss, opt) \<and>
           fit_epoch lib (layers model) loss opt (st_weights st) X Y b_size (st_generator st) = Inr (w, l, g) \<and>
           st_generator st' = g \<and>
           st_weights st' = w \<and> st_history st' = st_history st @ [l] \<and>
           (if np_less l (cp_best (st_checkpoint st))
            then writable (st_fs st) (filepath lib (Suc n) l) \<and>
                 st_fs st' = (st_fs st)\<lparr>files := (files (st_fs st))(filepath lib (Suc n) l \<mapsto> WeightsFile w)\<rparr> \<and>
                 st_events st' = st_events st @ [Saved (Suc n) (filepath lib (Suc n) l)] \<and>
                 st_checkpoint st' = (st_checkpoint st)\<lparr>cp_best := l\<rparr>
            else st_fs st' = st_fs st \<and>
                 st_events st' = st_events st @ [NotImproved (Suc n)] \<and>
                 st_checkpoint st' = st_checkpoint st)"
proof -
  from step obtain loss opt where c: "compiled model = Some (loss, opt)"
    by (auto simp: fit_step_def split: option.splits)
  from step c obtain w l g where
    f: "fit_epoch lib (layers model) loss opt (st_weights st) X Y b_size (st_generator st) = Inr (w, l, g)"
    by (auto simp: fit_step_def split: sum.splits)
  let ?st1 = "st\<lparr>st_weights := w, st_history := st_history st @ [l], st_generator := g\<rparr>"
  from step c f have e: "on_epoch_end ?st1 n [(''loss'', l)] = Inr st'"
    by (auto simp: fit_step_def Let_def split: sum.splits)
  show ?thesis
  proof (cases "np_less l (cp_best (st_checkpoint st))")
    case True
    with e cb have "writable (st_fs st) (filepath lib (Suc n) l)"
      by (auto simp: on_epoch_end_def Let_def format_filepath_def monitor_op_def write_file_def
          split: sum.splits if_splits)
    with e cb True c f show ?thesis
      by (auto simp: on_epoch_end_def Let_def format_filepath_def monitor_op_def write_file_def)
  next
    case False
    with e cb c f show ?thesis
      by (auto simp: on_epoch_end_def Let_def format_filepath_def monitor_op_def)
  qed
qed

text \<open>An epoch that ends with an exception writes no file and reports nothing.\<close>

lemma fit_step_raises:
  assumes "fit_step lib model X Y b_size st n = (st', Some e)"
  shows "st_fs st' = st_fs st \<and> st_events st' = st_events st \<and>
         st_checkpoint st' = st_checkpoint st \<and>
         (st_history st' = st_history st \<or> (\<exists>l. st_history st' = st_history st @ [l]))"
  using assms
  by (auto simp: fit_step_def Let_def split: option.splits sum.splits prod.splits)

lemma fit_inv_init:
  "fit_inv lib fs w_of 0
     \<lparr>st_weights = w_of 0, st_history = [], st_fs = fs, st_events = [],
      st_checkpoint = ModelCheckpoint (format_filepath lib) ''loss'' True ''min'', st_generator = g\<rparr>"
  by (simp add: fit_inv_def ModelCheckpoint_def)

lemma fit_inv_step:
  assumes inv: "fit_inv lib fs w_of n st"
    and step: "fit_step lib model X Y b_size st n = (st', None)"
    and w: "w_of (Suc n) = st_weights st'"
  shows "fit_inv lib fs w_of (Suc n) st'"
proof -
  let ?cb = "st_checkpoint st"
  let ?h = "st_history st"
  let ?ev = "st_events st"
  from inv have cb: "cp_filepath ?cb = format_filepath lib" "cp_monitor ?cb = ''loss''"
      "cp_save_best_only ?cb" "\<not> cp_greater ?cb"
    and len: "length ?h = n" "length ?ev = n"
    and wr: "writable (st_fs st) = writable fs"
    and nan: "cp_best ?cb \<noteq> NaN"
    and best: "\<forall>x. np_less x (cp_best ?cb) \<longleftrightarrow>
          np_less x PosInf \<and> (\<forall>j<n. ?h ! j = NaN \<or> np_less x (?h ! j))"
    and evs: "\<forall>i<n. if np_less (?h ! i) PosInf \<and> (\<forall>j<i. ?h ! j = NaN \<or> np_less (?h ! i) (?h ! j))
             then ?ev ! i = Saved (Suc i) (filepath lib (Suc i) (?h ! i)) \<and>
                  writable fs (filepath lib (Suc i) (?h ! i))
             else ?ev ! i = NotImproved (Suc i)"
    and frame: "\<forall>p. (\<forall>i<n. ?ev ! i \<noteq> Saved (Suc i) p) \<longrightarrow> files (st_fs st) p = files fs p"
    and lastw: "\<forall>p i. i < n \<and> ?ev ! i = Saved (Suc i) p \<and>
            (\<forall>j. i < j \<and> j < n \<longrightarrow> ?ev ! j \<noteq> Saved (Suc j) p) \<longrightarrow>
            files (st_fs st) p = Some (WeightsFile (w_of (Suc i)))"
    unfolding fit_inv_def by blast+
  from fit_step_ok[OF cb step] obtain w' l where
    h': "st_history st' = ?h @ [l]" and w': "st_weights st' = w'"
    and eff: "if np_less l (cp_best ?cb)
            then writable (st_fs st) (filepath lib (Suc n) l) \<and>
                 st_fs st' = (st_fs st)\<lparr>files := (files (st_fs st))(filepath lib (Suc n) l \<mapsto> WeightsFile w')\<rparr> \<and>
                 st_events st' = ?ev @ [Saved (Suc n) (filepath lib (Suc n) l)] \<and>
                 st_checkpoint st' = ?cb\<lparr>cp_best := l\<rparr>
            else st_fs st' = st_fs st \<and>
                 st_events st' = ?ev @ [NotImproved (Suc n)] \<and>
                 st_checkpoint st' = ?cb"
    by blast
  let ?h' = "st_history st'"
  let ?ev' = "st_events st'"
  let ?path = "filepath lib (Suc n) l"
  have hn: "?h' ! n = l" and hi: "\<And>i. i < n \<Longrightarrow> ?h' ! i = ?h ! i"
    using len by (simp_all add: h' nth_append)
  have imp_iff: "np_less l (cp_best ?cb) \<longleftrightarrow>
      np_less (?h' ! n) PosInf \<and> (\<forall>j<n. ?h' ! j = NaN \<or> np_less (?h' ! n) (?h' ! j))"
    using best hn hi by simp
  have ev_len: "length ?ev' = Suc n"
    using eff len by (auto split: if_splits)
  have evi: "\<And>i. i < n \<Longrightarrow> ?ev' ! i = ?ev ! i"
    using eff len by (auto simp: nth_append split: if_splits)
  have evn: "?ev' ! n = (if np_less l (cp_best ?cb) then Saved (Suc n) ?path else NotImproved (Suc n))"
    using eff len by (auto simp: nth_append split: if_splits)
  have c1: "cp_filepath (st_checkpoint st') = format_filepath lib" "cp_monitor (st_checkpoint st') = ''loss''"
      "cp_save_best_only (st_checkpoint st')" "\<not> cp_greater (st_checkpoint st')"
    using eff cb by (auto split: if_splits)
  have c5: "length ?h' = Suc n" using len by (simp add: h')
  have c8: "writable (st_fs st') = writable fs"
    using eff wr by (auto split: if_splits)
  have c9: "cp_best (st_checkpoint st') \<noteq> NaN"
    using eff nan np_less_not_NaN[of l "cp_best ?cb"] by (auto split: if_splits)
  have c10: "\<forall>x. np_less x (cp_best (st_checkpoint st')) \<longleftrightarrow>
          np_less x PosInf \<and> (\<forall>j<Suc n. ?h' ! j = NaN \<or> np_less x (?h' ! j))"
  proof
    fix x
    have split: "(\<forall>j<Suc n. ?h' ! j = NaN \<or> np_less x (?h' ! j)) \<longleftrightarrow>
        (\<forall>j<n. ?h ! j = NaN \<or> np_less x (?h ! j)) \<and> (l = NaN \<or> np_less x l)"
      using hn hi by (auto simp: less_Suc_eq)
    show "np_less x (cp_best (st_checkpoint st')) \<longleftrightarrow>
          np_less x PosInf \<and> (\<forall>j<Suc n. ?h' ! j = NaN \<or> np_less x (?h' ! j))"
    proof (cases "np_less l (cp_best ?cb)")
      case True
      then have b': "cp_best (st_checkpoint st') = l" using eff by simp
      have "np_less x l \<longleftrightarrow> np_less x PosInf \<and> (\<forall>j<n. ?h ! j = NaN \<or> np_less x (?h ! j)) \<and> (l = NaN \<or> np_less x l)"
        using True best np_less_trans[of x l "cp_best ?cb"] np_less_not_NaN[of l "cp_best ?cb"] by blast
      then show ?thesis unfolding b' split by blast
    next
      case False
      then have b': "cp_best (st_checkpoint st') = cp_best ?cb" using eff by simp
      have "np_less x (cp_best ?cb) \<Longrightarrow> l = NaN \<or> np_less x l"
        using False np_less_below[of l "cp_best ?cb" x] by blast
      then show ?thesis unfolding b' split using best by blast
    qed
  qed
  have c11: "\<forall>i<Suc n. if np_less (?h' ! i) PosInf \<and> (\<forall>j<i. ?h' ! j = NaN \<or> np_less (?h' ! i) (?h' ! j))
             then ?ev' ! i = Saved (Suc i) (filepath lib (Suc i) (?h' ! i)) \<and>
                  writable fs (filepath lib (Suc i) (?h' ! i))
             else ?ev' ! i = NotImproved (Suc i)"
  proof (intro allI impI)
    fix i assume "i < Suc n"
    then consider "i < n" | "i = n" by linarith
    then show "if np_less (?h' ! i) PosInf \<and> (\<forall>j<i. ?h' ! j = NaN \<or> np_less (?h' ! i) (?h' ! j))
             then ?ev' ! i = Saved (Suc i) (filepath lib (Suc i) (?h' ! i)) \<and>
                  writable fs (filepath lib (Suc i) (?h' ! i))
             else ?ev' ! i = NotImproved (Suc i)"
    proof cases
      case 1
      then have "\<And>j. j < i \<Longrightarrow> ?h' ! j = ?h ! j" using hi by simp
      with 1 evs hi[OF 1] evi[OF 1] show ?thesis by simp
    next
      case 2
      have "writable fs ?path" if "np_less l (cp_best ?cb)"
        using that eff wr by simp
      then show ?thesis unfolding 2 using imp_iff evn hn by auto
    qed
  qed
  have c12: "\<forall>p. (\<forall>i<Suc n. ?ev' ! i \<noteq> Saved (Suc i) p) \<longrightarrow> files (st_fs st') p = files fs p"
  proof (intro allI impI)
    fix p assume a: "\<forall>i<Suc n. ?ev' ! i \<noteq> Saved (Suc i) p"
    then have "\<forall>i<n. ?ev ! i \<noteq> Saved (Suc i) p" using evi by (metis less_Suc_eq)
    with frame have f: "files (st_fs st) p = files fs p" by blast
    from a have n: "?ev' ! n \<noteq> Saved (Suc n) p" by blast
    show "files (st_fs st') p = files fs p"
    proof (cases "np_less l (cp_best ?cb)")
      case True
      with n evn have "p \<noteq> ?path" by auto
      with True eff f show ?thesis by simp
    next
      case False
      with eff f show ?thesis by simp
    qed
  qed
  have c13: "\<forall>p i. i < Suc n \<and> ?ev' ! i = Saved (Suc i) p \<and>
            (\<forall>j. i < j \<and> j < Suc n \<longrightarrow> ?ev' ! j \<noteq> Saved (Suc j) p) \<longrightarrow>
            files (st_fs st') p = Some (WeightsFile (w_of (Suc i)))"
  proof (intro allI impI)
    fix p i
    assume a: "i < Suc n \<and> ?ev' ! i = Saved (Suc i) p \<and>
            (\<forall>j. i < j \<and> j < Suc n \<longrightarrow> ?ev' ! j \<noteq> Saved (Suc j) p)"
    then consider "i < n" | "i = n" by linarith
    then show "files (st_fs st') p = Some (WeightsFile (w_of (Suc i)))"
    proof cases
      case 1
      from a 1 have s: "?ev ! i = Saved (Suc i) p" using evi by simp
      from a 1 have later: "\<forall>j. i < j \<and> j < n \<longrightarrow> ?ev ! j \<noteq> Saved (Suc j) p"
        using evi by (metis less_Suc_eq)
      from lastw 1 s later have f: "files (st_fs st) p = Some (WeightsFile (w_of (Suc i)))" by blast
      from a 1 have n: "?ev' ! n \<noteq> Saved (Suc n) p" by blast
      show ?thesis
      proof (cases "np_less l (cp_best ?cb)")
        case True
        with n evn have "p \<noteq> ?path" by auto
        with True eff f show ?thesis by simp
      next
        case False
        with eff f show ?thesis by simp
      qed
    next
      case 2
      with a have s: "?ev' ! n = Saved (Suc n) p" by simp
      with evn have t: "np_less l (cp_best ?cb)" and p: "p = ?path"
        by (auto split: if_splits)
      with eff have "files (st_fs st') p = Some (WeightsFile w')" by simp
      with w w' 2 show ?thesis by simp
    qed
  qed
  show ?thesis
    unfolding fit_inv_def
    by (rule conjI[OF c1(1) conjI[OF c1(2) conjI[OF c1(3) conjI[OF c1(4) conjI[OF c5 conjI[OF ev_len
          conjI[OF w[symmetric] conjI[OF c8 conjI[OF c9 conjI[OF c10 conjI[OF c11 conjI[OF c12 c13]]]]]]]]]]]])
qed

lemma fit_inv_run:
  assumes "snd (fit lib model X Y n b_size (ModelCheckpoint (format_filepath lib) ''loss'' True ''min'') fs g) = None"
  shows "fit_inv lib fs
           (\<lambda>k. st_weights (fst (fit lib model X Y k b_size (ModelCheckpoint (format_filepath lib) ''loss'' True ''min'') fs g)))
           n (fst (fit lib model X Y n b_size (ModelCheckpoint (format_filepath lib) ''loss'' True ''min'') fs g))"
  using assms
proof (induction n)
  case 0
  show ?case
    using fit_inv_init[of lib fs "\<lambda>k. st_weights (fst (fit lib model X Y k b_size (ModelCheckpoint (format_filepath lib) ''loss'' True ''min'') fs g))"]
    by (simp add: fit_0)
next
  case (Suc n)
  let ?cb = "ModelCheckpoint (format_filepath lib) ''loss'' True ''min''"
  obtain st err where r: "fit lib model X Y n b_size ?cb fs g = (st, err)"
    by (cases "fit lib model X Y n b_size ?cb fs g")
  with Suc.prems have err: "err = None" by (cases err) (simp_all add: fit_Suc)
  with r Suc.IH have inv: "fit_inv lib fs (\<lambda>k. st_weights (fst (fit lib model X Y k b_size ?cb fs g))) n st"
    by simp
  obtain st' where step: "fit_step lib model X Y b_size st n = (st', None)"
    and r': "fit lib model X Y (Suc n) b_size ?cb fs g = (st', None)"
    using Suc.prems r err by (cases "fit_step lib model X Y b_size st n") (simp add: fit_Suc)
  have "fit_inv lib fs (\<lambda>k. st_weights (fst (fit lib model X Y k b_size ?cb fs g))) (Suc n) st'"
    using inv step by (rule fit_inv_step) (simp add: r')
  then show ?case by (simp add: r')
qed


lemma fit_raised:
  assumes "snd (fit lib model X Y n b_size cb fs g) = Some e"
  shows "\<exists>k<n. snd (fit lib model X Y k b_size cb fs g) = None \<and>
           fit_step lib model X Y b_size (fst (fit lib model X Y k b_size cb fs g)) k =
             (fst (fit lib model X Y n b_size cb fs g), Some e)"
  using assms
proof (induction n)
  case 0
  then show ?case by (simp add: fit_0)
next
  case (Suc n)
  obtain st err where r: "fit lib model X Y n b_size cb fs g = (st, err)"
    by (cases "fit lib model X Y n b_size cb fs g")
  show ?case
  proof (cases err)
    case None
    with r Suc.prems have "fit_step lib model X Y b_size st n = (fst (fit lib model X Y (Suc n) b_size cb fs g), Some e)"
      by (cases "fit_step lib model X Y b_size st n") (simp add: fit_Suc)
    with r None show ?thesis by (intro exI[of _ n]) simp
  next
    case (Some e')
    with r have same: "fit lib model X Y (Suc n) b_size cb fs g = (st, Some e')" by (simp add: fit_Suc)
    with Suc.prems have "e' = e" by simp
    with r Some Suc.IH obtain k where "k < n" "snd (fit lib model X Y k b_size cb fs g) = None"
      "fit_step lib model X Y b_size (fst (fit lib model X Y k b_size cb fs g)) k = (st, Some e)"
      by auto
    with same show ?thesis by (intro exI[of _ k]) simp
  qed
qed

text \<open>What \<open>train\<close> returns, in terms of the fit it runs.\<close>

lemma train_fit:
  "train lib fs model X Y n b_size n_vocab kwargs g =
     (let r = fit lib (compile (kwargs_get (kw_loss kwargs) ''categorical_crossentropy'')
                         (kwargs_get (kw_optimizer kwargs) ''adam'') model)
                (np_divide lib X n_vocab) Y n b_size
                (ModelCheckpoint (format_filepath lib) ''loss'' True ''min'') fs g
      in \<lparr>tr_model = (compile (kwargs_get (kw_loss kwargs) ''categorical_crossentropy'')
                         (kwargs_get (kw_optimizer kwargs) ''adam'') model)\<lparr>weights := st_weights (fst r)\<rparr>,
          tr_fs = st_fs (fst r), tr_history = st_history (fst r), tr_events = st_events (fst r),
          tr_error = snd r, tr_generator = st_generator (fst r)\<rparr>)"
  by (simp add: train_def Let_def)

lemma filepath_under_Weights: "\<exists>rest. filepath lib epoch loss = ''Weights/'' @ rest"
  by (simp add: filepath_def)

lemma fit_inv_files_ok:
  assumes inv: "fit_inv lib fs w_of n st"
  shows "files_ok lib fs w_of st"
proof -
  let ?h = "st_history st"
  let ?ev = "st_events st"
  from inv have len: "length ?h = n" "length ?ev = n"
    and wr: "writable (st_fs st) = writable fs"
    and evs: "\<forall>i<n. if np_less (?h ! i) PosInf \<and> (\<forall>j<i. ?h ! j = NaN \<or> np_less (?h ! i) (?h ! j))
             then ?ev ! i = Saved (Suc i) (filepath lib (Suc i) (?h ! i)) \<and>
                  writable fs (filepath lib (Suc i) (?h ! i))
             else ?ev ! i = NotImproved (Suc i)"
    and frame: "\<forall>p. (\<forall>i<n. ?ev ! i \<noteq> Saved (Suc i) p) \<longrightarrow> files (st_fs st) p = files fs p"
    and lastw: "\<forall>p i. i < n \<and> ?ev ! i = Saved (Suc i) p \<and>
            (\<forall>j. i < j \<and> j < n \<longrightarrow> ?ev ! j \<noteq> Saved (Suc j) p) \<longrightarrow>
            files (st_fs st) p = Some (WeightsFile (w_of (Suc i)))"
    unfolding fit_inv_def by blast+
  have saved: "epoch = Suc i \<and> p = filepath lib (Suc i) (?h ! i) \<and> writable fs p \<and>
          np_less (?h ! i) PosInf \<and> (\<forall>j<i. ?h ! j = NaN \<or> np_less (?h ! i) (?h ! j))"
    if "i < n" "?ev ! i = Saved epoch p" for i epoch p
  proof (cases "np_less (?h ! i) PosInf \<and> (\<forall>j<i. ?h ! j = NaN \<or> np_less (?h ! i) (?h ! j))")
    case True
    with evs that(1) have e: "?ev ! i = Saved (Suc i) (filepath lib (Suc i) (?h ! i))"
      and wp: "writable fs (filepath lib (Suc i) (?h ! i))" by auto
    from that(2)[symmetric] e have "Saved epoch p = Saved (Suc i) (filepath lib (Suc i) (?h ! i))"
      by (rule trans)
    then have "epoch = Suc i" "p = filepath lib (Suc i) (?h ! i)" by auto
    with wp True show ?thesis by blast
  next
    case False
    with evs that(1) have "?ev ! i = NotImproved (Suc i)" by auto
    with that(2) show ?thesis by simp
  qed
  have c1: "n \<le> n" by simp
  have c2: "\<forall>p. files (st_fs st) p \<noteq> files fs p \<longrightarrow>
          (\<exists>rest. p = ''Weights/'' @ rest) \<and> (\<exists>i<n. ?ev ! i = Saved (Suc i) p)"
  proof (intro allI impI)
    fix p assume "files (st_fs st) p \<noteq> files fs p"
    with frame obtain i where i: "i < n" "?ev ! i = Saved (Suc i) p" by blast
    with saved have "p = filepath lib (Suc i) (?h ! i)" by blast
    with filepath_under_Weights[of lib "Suc i" "?h ! i"] have "\<exists>rest. p = ''Weights/'' @ rest" by simp
    with i show "(\<exists>rest. p = ''Weights/'' @ rest) \<and> (\<exists>i<n. ?ev ! i = Saved (Suc i) p)" by blast
  qed
  have c3: "\<forall>i<n. \<forall>epoch p. ?ev ! i = Saved epoch p \<longrightarrow>
          epoch = Suc i \<and> p = filepath lib (Suc i) (?h ! i) \<and> writable fs p \<and>
          np_less (?h ! i) PosInf \<and> (\<forall>j<i. ?h ! j = NaN \<or> np_less (?h ! i) (?h ! j))"
    using saved by blast
  have c4: "\<forall>i<n. \<forall>p. ?ev ! i = Saved (Suc i) p \<and>
          (\<forall>j. i < j \<and> j < n \<longrightarrow> ?ev ! j \<noteq> Saved (Suc j) p) \<longrightarrow>
          files (st_fs st) p = Some (WeightsFile (w_of (Suc i)))"
    using lastw by blast
  show ?thesis
    unfolding files_ok_def len
    by (rule conjI[OF wr conjI[OF c1 conjI[OF c2 conjI[OF c3 c4]]]])
qed

lemma files_ok_raised:
  assumes ok: "files_ok lib fs w_of st"
    and step: "fit_step lib model X Y b_size st n = (st', Some e)"
  shows "files_ok lib fs w_of st'"
proof -
  from fit_step_raises[OF step] have fs: "st_fs st' = st_fs st" and ev: "st_events st' = st_events st"
    and h: "st_history st' = st_history st \<or> (\<exists>l. st_history st' = st_history st @ [l])"
    by blast+
  from ok have le: "length (st_events st) \<le> length (st_history st)" by (simp add: files_ok_def)
  have hi: "st_history st' ! i = st_history st ! i" if "i < length (st_events st)" for i
    using h that le by (auto simp: nth_append)
  have hl: "length (st_events st) \<le> length (st_history st')" using h le by auto
  have hj: "st_history st' ! j = st_history st ! j" if "j < i" "i < length (st_events st)" for i j
    using hi[of j] that by simp
  from ok have wr: "writable (st_fs st) = writable fs"
    and c2: "\<forall>p. files (st_fs st) p \<noteq> files fs p \<longrightarrow>
          (\<exists>rest. p = ''Weights/'' @ rest) \<and> (\<exists>i<length (st_events st). st_events st ! i = Saved (Suc i) p)"
    and c3: "\<forall>i<length (st_events st). \<forall>epoch p. st_events st ! i = Saved epoch p \<longrightarrow>
          epoch = Suc i \<and> p = filepath lib (Suc i) (st_history st ! i) \<and> writable fs p \<and>
          np_less (st_history st ! i) PosInf \<and>
          (\<forall>j<i. st_history st ! j = NaN \<or> np_less (st_history st ! i) (st_history st ! j))"
    and c4: "\<forall>i<length (st_events st). \<forall>p. st_events st ! i = Saved (Suc i) p \<and>
          (\<forall>j. i < j \<and> j < length (st_events st) \<longrightarrow> st_events st ! j \<noteq> Saved (Suc j) p) \<longrightarrow>
          files (st_fs st) p = Some (WeightsFile (w_of (Suc i)))"
    unfolding files_ok_def by blast+
  have c3': "\<forall>i<length (st_events st). \<forall>epoch p. st_events st ! i = Saved epoch p \<longrightarrow>
          epoch = Suc i \<and> p = filepath lib (Suc i) (st_history st' ! i) \<and> writable fs p \<and>
          np_less (st_history st' ! i) PosInf \<and>
          (\<forall>j<i. st_history st' ! j = NaN \<or> np_less (st_history st' ! i) (st_history st' ! j))"
  proof (intro allI impI)
    fix i epoch p assume i: "i < length (st_events st)" and s: "st_events st ! i = Saved epoch p"
    with c3 have a: "epoch = Suc i \<and> p = filepath lib (Suc i) (st_history st ! i) \<and> writable fs p \<and>
          np_less (st_history st ! i) PosInf \<and>
          (\<forall>j<i. st_history st ! j = NaN \<or> np_less (st_history st ! i) (st_history st ! j))" by blast
    have "\<forall>j<i. st_history st' ! j = st_history st ! j" using hj i by blast
    with a hi[OF i] show "epoch = Suc i \<and> p = filepath lib (Suc i) (st_history st' ! i) \<and> writable fs p \<and>
          np_less (st_history st' ! i) PosInf \<and>
          (\<forall>j<i. st_history st' ! j = NaN \<or> np_less (st_history st' ! i) (st_history st' ! j))"
      by auto
  qed
  show ?thesis
    unfolding files_ok_def fs ev
    by (rule conjI[OF wr conjI[OF hl conjI[OF c2 conjI[OF c3' c4]]]])
qed

lemma fit_files_ok:
  "files_ok lib fs
     (\<lambda>k. st_weights (fst (fit lib model X Y k b_size (ModelCheckpoint (format_filepath lib) ''loss'' True ''min'') fs g)))
     (fst (fit lib model X Y n b_size (ModelCheckpoint (format_filepath lib) ''loss'' True ''min'') fs g))"
proof (cases "snd (fit lib model X Y n b_size (ModelCheckpoint (format_filepath lib) ''loss'' True ''min'') fs g)")
  case None
  then have "fit_inv lib fs
     (\<lambda>k. st_weights (fst (fit lib model X Y k b_size (ModelCheckpoint (format_filepath lib) ''loss'' True ''min'') fs g)))
     n (fst (fit lib model X Y n b_size (ModelCheckpoint (format_filepath lib) ''loss'' True ''min'') fs g))"
    by (rule fit_inv_run)
  then show ?thesis by (rule fit_inv_files_ok)
next
  case (Some e)
  let ?cb = "ModelCheckpoint (format_filepath lib) ''loss'' True ''min''"
  from fit_raised[OF Some] obtain k where k: "snd (fit lib model X Y k b_size ?cb fs g) = None"
    and step: "fit_step lib model X Y b_size (fst (fit lib model X Y k b_size ?cb fs g)) k =
                 (fst (fit lib model X Y n b_size ?cb fs g), Some e)"
    by blast
  from k have "fit_inv lib fs (\<lambda>k. st_weights (fst (fit lib model X Y k b_size ?cb fs g)))
     k (fst (fit lib model X Y k b_size ?cb fs g))"
    by (rule fit_inv_run)
  then have "files_ok lib fs (\<lambda>k. st_weights (fst (fit lib model X Y k b_size ?cb fs g)))
     (fst (fit lib model X Y k b_size ?cb fs g))"
    by (rule fit_inv_files_ok)
  then show ?thesis using step by (rule files_ok_raised)
qed

lemma train_complete:
  assumes "tr_error (train lib fs model X Y n b_size n_vocab kwargs g) = None"
  shows "length (tr_history (train lib fs model X Y n b_size n_vocab kwargs g)) = n \<and>
         length (tr_events (train lib fs model X Y n b_size n_vocab kwargs g)) = n"
proof -
  let ?m = "compile (kwargs_get (kw_loss kwargs) ''categorical_crossentropy'')
              (kwargs_get (kw_optimizer kwargs) ''adam'') model"
  let ?cb = "ModelCheckpoint (format_filepath lib) ''loss'' True ''min''"
  let ?fit = "\<lambda>k. fit lib ?m (np_divide lib X n_vocab) Y k b_size ?cb fs g"
  from assms have "snd (?fit n) = None" by (simp add: train_fit Let_def)
  from fit_inv_run[OF this] show ?thesis
    by (simp add: fit_inv_def train_fit Let_def)
qed

lemma generate_text_no_file:
  "files fs filename = None \<Longrightarrow>
   generate_text lib fs rnd model X filename i2c n_vocab = Inl (OSError filename)"
  by (simp add: generate_text_def load_weights_def)

lemma generate_text_loaded:
  "files fs filename = Some (WeightsFile w) \<Longrightarrow>
   generate_text lib fs rnd model X filename i2c n_vocab =
     (if length X \<le> 1 then Inl ValueError
      else case lookup_all i2c (X ! (rnd mod (length X - 1))) of
             Inl e \<Rightarrow> Inl e
           | Inr seed \<Rightarrow>
               (case sample lib (compile ''categorical_crossentropy'' ''adam'' (model\<lparr>weights := w\<rparr>))
                       n_vocab 250 (X ! (rnd mod (length X - 1))) of
                  Inl e \<Rightarrow> Inl e
                | Inr (pattern, outp) \<Rightarrow>
                    (case lookup_all i2c outp of
                       Inl e \<Rightarrow> Inl e
                     | Inr predicted \<Rightarrow>
                         Inr [''Seed:'', print_quoted seed, ''Predictions'', print_quoted predicted])))"
  unfolding generate_text_def load_weights_def Let_def
  by (simp only: option.case file_content.case sum.case)

text \<open>
  C7. What \<open>train\<close> does to the file system, and what \<open>generate_text\<close> reads from it.
  \<^item> \<open>train\<close> changes no permission, and a training that ends without exception has
    one report of the callback for every epoch.
  \<^item> Every path whose content differs after \<open>train\<close> lies under \<^verbatim>\<open>Weights/\<close> and was
    reported as saved by the callback.
  \<^item> A checkpoint is saved at the end of an epoch only under the path formatted with the
    number and the loss of that epoch, and only when that loss is finite or minus
    infinity and less than the loss of every earlier epoch that is not NaN: when the
    monitored loss improves.
  \<^item> After \<open>train\<close>, a checkpoint path holds the weights that the model had at the end
    of the last epoch that saved it.
  \<^item> \<open>generate_text\<close> raises on a missing weights file before anything else, and on a
    weights file everything it predicts is predicted with the weights of that file,
    whatever weights the model had before.
\<close>

theorem checkpoint_files:
  assumes r: "r = train lib fs model X Y n_epochs b_size n_vocab kwargs g"
  shows "writable (tr_fs r) = writable fs \<and>
         (tr_error r = None \<longrightarrow> length (tr_events r) = n_epochs) \<and>
         (\<forall>p. files (tr_fs r) p \<noteq> files fs p \<longrightarrow>
            (\<exists>rest. p = ''Weights/'' @ rest) \<and>
            (\<exists>i<length (tr_events r). tr_events r ! i = Saved (Suc i) p)) \<and>
         (\<forall>i<length (tr_events r). \<forall>epoch p. tr_events r ! i = Saved epoch p \<longrightarrow>
            epoch = Suc i \<and> i < length (tr_history r) \<and>
            p = filepath lib (Suc i) (tr_history r ! i) \<and>
            np_less (tr_history r ! i) PosInf \<and>
            (\<forall>j<i. tr_history r ! j = NaN \<or> np_less (tr_history r ! i) (tr_history r ! j))) \<and>
         (\<forall>i<length (tr_events r). \<forall>p. tr_events r ! i = Saved (Suc i) p \<and>
            (\<forall>j. i < j \<and> j < length (tr_events r) \<longrightarrow> tr_events r ! j \<noteq> Saved (Suc j) p) \<longrightarrow>
            files (tr_fs r) p =
              Some (WeightsFile (weights (tr_model (train lib fs model X Y (Suc i) b_size n_vocab kwargs g))))) \<and>
         (\<forall>fs2 rnd m X2 filename i2c.
            files fs2 filename = None \<longrightarrow>
            generate_text lib fs2 rnd m X2 filename i2c n_vocab = Inl (OSError filename)) \<and>
         (\<forall>fs2 rnd m X2 filename i2c w.
            files fs2 filename = Some (WeightsFile w) \<longrightarrow>
            generate_text lib fs2 rnd m X2 filename i2c n_vocab =
              (if length X2 \<le> 1 then Inl ValueError
               else case lookup_all i2c (X2 ! (rnd mod (length X2 - 1))) of
                      Inl e \<Rightarrow> Inl e
                    | Inr seed \<Rightarrow>
                        (case sample lib (compile ''categorical_crossentropy'' ''adam'' (m\<lparr>weights := w\<rparr>))
                                n_vocab 250 (X2 ! (rnd mod (length X2 - 1))) of
                           Inl e \<Rightarrow> Inl e
                         | Inr (pattern, outp) \<Rightarrow>
                             (case lookup_all i2c outp of
                                Inl e \<Rightarrow> Inl e
                              | Inr predicted \<Rightarrow>
                                  Inr [''Seed:'', print_quoted seed, ''Predictions'', print_quoted predicted]))))"
proof -
  let ?m = "compile (kwargs_get (kw_loss kwargs) ''categorical_crossentropy'')
              (kwargs_get (kw_optimizer kwargs) ''adam'') model"
  let ?cb = "ModelCheckpoint (format_filepath lib) ''loss'' True ''min''"
  let ?fit = "\<lambda>k. fit lib ?m (np_divide lib X n_vocab) Y k b_size ?cb fs g"
  have e: "st_fs (fst (?fit n_epochs)) = tr_fs r" "st_events (fst (?fit n_epochs)) = tr_events r"
    "st_history (fst (?fit n_epochs)) = tr_history r"
    by (simp_all add: r train_fit Let_def)
  have wk: "st_weights (fst (?fit k)) = weights (tr_model (train lib fs model X Y k b_size n_vocab kwargs g))" for k
    by (simp add: train_fit Let_def)
  note ok = fit_files_ok[of lib fs ?m "np_divide lib X n_vocab" Y b_size g n_epochs, unfolded files_ok_def e wk]
  note c1 = ok[THEN conjunct1]
  note le = ok[THEN conjunct2, THEN conjunct1]
  note c3 = ok[THEN conjunct2, THEN conjunct2, THEN conjunct1]
  note s = ok[THEN conjunct2, THEN conjunct2, THEN conjunct2, THEN conjunct1]
  note c5 = ok[THEN conjunct2, THEN conjunct2, THEN conjunct2, THEN conjunct2]
  have c2: "tr_error r = None \<longrightarrow> length (tr_events r) = n_epochs"
    using train_complete[of lib fs model X Y n_epochs b_size n_vocab kwargs g] r by simp
  have c4: "\<forall>i<length (tr_events r). \<forall>epoch p. tr_events r ! i = Saved epoch p \<longrightarrow>
            epoch = Suc i \<and> i < length (tr_history r) \<and>
            p = filepath lib (Suc i) (tr_history r ! i) \<and>
            np_less (tr_history r ! i) PosInf \<and>
            (\<forall>j<i. tr_history r ! j = NaN \<or> np_less (tr_history r ! i) (tr_history r ! j))"
  proof (intro allI impI)
    fix i epoch p assume i: "i < length (tr_events r)" and e: "tr_events r ! i = Saved epoch p"
    with s have "epoch = Suc i \<and> p = filepath lib (Suc i) (tr_history r ! i) \<and> writable fs p \<and>
          np_less (tr_history r ! i) PosInf \<and>
          (\<forall>j<i. tr_history r ! j = NaN \<or> np_less (tr_history r ! i) (tr_history r ! j))" by blast
    moreover from i le have "i < length (tr_history r)" by simp
    ultimately show "epoch = Suc i \<and> i < length (tr_history r) \<and>
            p = filepath lib (Suc i) (tr_history r ! i) \<and>
            np_less (tr_history r ! i) PosInf \<and>
            (\<forall>j<i. tr_history r ! j = NaN \<or> np_less (tr_history r ! i) (tr_history r ! j))" by blast
  qed
  have c6: "\<forall>fs2 rnd m X2 filename i2c.
            files fs2 filename = None \<longrightarrow>
            generate_text lib fs2 rnd m X2 filename i2c n_vocab = Inl (OSError filename)"
    by (intro allI impI) (rule generate_text_no_file)
  have c7: "\<forall>fs2 rnd m X2 filename i2c w.
            files fs2 filename = Some (WeightsFile w) \<longrightarrow>
            generate_text lib fs2 rnd m X2 filename i2c n_vocab =
              (if length X2 \<le> 1 then Inl ValueError
               else case lookup_all i2c (X2 ! (rnd mod (length X2 - 1))) of
                      Inl e \<Rightarrow> Inl e
                    | Inr seed \<Rightarrow>
                        (case sample lib (compile ''categorical_crossentropy'' ''adam'' (m\<lparr>weights := w\<rparr>))
                                n_vocab 250 (X2 ! (rnd mod (length X2 - 1))) of
                           Inl e \<Rightarrow> Inl e
                         | Inr (pattern, outp) \<Rightarrow>
                             (case lookup_all i2c outp of
                                Inl e \<Rightarrow> Inl e
                              | Inr predicted \<Rightarrow>
                                  Inr [''Seed:'', print_quoted seed, ''Predictions'', print_quoted predicted])))"
    by (intro allI impI) (rule generate_text_loaded)
  show ?thesis
    by (rule conjI[OF c1 conjI[OF c2 conjI[OF c3 conjI[OF c4 conjI[OF c5 conjI[OF c6 c7]]]]]])
qed

lemma lookup_all_replicate:
  "m k = Some v \<Longrightarrow> lookup_all m (replicate n k) = Inr (replicate n v)"
  by (induction n) simp_all

lemma toy_sample:
  assumes "weights model \<noteq> 0" "length seed = 3"
  shows "\<exists>pattern. sample toy_lib model n_vocab k seed = Inr (pattern, replicate k 3)"
proof (induction k)
  case 0
  then show ?case by (simp add: sample_0)
next
  case (Suc k)
  then obtain pattern where s: "sample toy_lib model n_vocab k seed = Inr (pattern, replicate k 3)"
    by blast
  then have "length pattern = 3" using sample_lengths assms(2) by fastforce
  then have "predict toy_lib (layers model) (weights model) (np_divide toy_lib [pattern] n_vocab) =
      Inr (map (\<lambda>v. v + weights model) pattern)"
    using assms(1) by (simp add: toy_lib_def)
  from predict_step_Inr[OF this, of "replicate k 3" k] \<open>length pattern = 3\<close>
  have "predict_step toy_lib model n_vocab (pattern, replicate k 3) k =
      Inr (drop 1 (pattern @ [3]), replicate (Suc k) 3)"
    by (simp add: toy_lib_def replicate_append_same)
  with s show ?case by (simp add: sample_Suc)
qed

text \<open>
  Four epochs of training on the small library, from weights \<open>0\<close>: the losses are
  \<open>1, 5, 1/3, 1\<close>, the first and the third epoch save a checkpoint, and the model ends
  on weights \<open>0\<close>, on which prediction raises. \<open>generate_text\<close> on the checkpoint of the
  third epoch predicts with the weights \<open>3\<close> of that file and prints its lines; on a
  path that was not written it raises.
\<close>

theorem checkpoint_files_witness:
  "train toy_lib toy_fs toy_model [[1, 2, 3], [2, 3, 1]] [[0, 1, 0], [0, 0, 1]] 4 1 7
       \<lparr>kw_loss = None, kw_optimizer = None\<rparr> 0 =
     \<lparr>tr_model = toy_model\<lparr>weights := 0, compiled := Some (''categorical_crossentropy'', ''adam'')\<rparr>,
      tr_fs = toy_fs\<lparr>files := [''Weights/weights-improvement-I-high.hdf5'' \<mapsto> WeightsFile 1,
                              ''Weights/weights-improvement-III-low.hdf5'' \<mapsto> WeightsFile 3]\<rparr>,
      tr_history = [Num 1, Num 5, Num (1 / 3), Num 1],
      tr_events = [Saved 1 ''Weights/weights-improvement-I-high.hdf5'', NotImproved 2,
                   Saved 3 ''Weights/weights-improvement-III-low.hdf5'', NotImproved 4],
      tr_error = None, tr_generator = 4\<rparr> \<and>
   generate_text toy_lib
       (tr_fs (train toy_lib toy_fs toy_model [[1, 2, 3], [2, 3, 1]] [[0, 1, 0], [0, 0, 1]] 4 1 7
                 \<lparr>kw_loss = None, kw_optimizer = None\<rparr> 0))
       0
       (tr_model (train toy_lib toy_fs toy_model [[1, 2, 3], [2, 3, 1]] [[0, 1, 0], [0, 0, 1]] 4 1 7
                 \<lparr>kw_loss = None, kw_optimizer = None\<rparr> 0))
       [[1, 2, 3], [2, 3, 1]] ''Weights/weights-improvement-III-low.hdf5''
       [1 \<mapsto> CHR ''a'', 2 \<mapsto> CHR ''b'', 3 \<mapsto> CHR ''c''] 7 =
     Inr [''Seed:'', print_quoted ''abc'', ''Predictions'', print_quoted (replicate 250 (CHR ''c''))] \<and>
   generate_text toy_lib
       (tr_fs (train toy_lib toy_fs toy_model [[1, 2, 3], [2, 3, 1]] [[0, 1, 0], [0, 0, 1]] 4 1 7
                 \<lparr>kw_loss = None, kw_optimizer = None\<rparr> 0))
       0
       (tr_model (train toy_lib toy_fs toy_model [[1, 2, 3], [2, 3, 1]] [[0, 1, 0], [0, 0, 1]] 4 1 7
                 \<lparr>kw_loss = None, kw_optimizer = None\<rparr> 0))
       [[1, 2, 3], [2, 3, 1]] ''Weights/weights-improvement-01-4.3050.hdf5''
       [1 \<mapsto> CHR ''a'', 2 \<mapsto> CHR ''b'', 3 \<mapsto> CHR ''c''] 7 =
     Inl (OSError ''Weights/weights-improvement-01-4.3050.hdf5'')"
proof -
  let ?X = "[[1, 2, 3], [2, 3, 1::nat]]"
  let ?Y = "[[0, 1, 0], [0, 0, 1::nat]]"
  let ?kw = "\<lparr>kw_loss = None, kw_optimizer = None\<rparr>"
  let ?i2c = "[1 \<mapsto> CHR ''a'', 2 \<mapsto> CHR ''b'', 3 \<mapsto> CHR ''c'']"
  let ?p3 = "''Weights/weights-improvement-III-low.hdf5''"
  let ?r = "train toy_lib toy_fs toy_model ?X ?Y 4 1 7 ?kw 0"
  have u4: "[0..<4] = [0, 1, 2, 3::nat]" and u3: "[0..<3] = [0, 1, 2::nat]"
    by (simp_all add: upt_rec)
  have r3: "\<And>c :: char. replicate 3 c = [c, c, c]" by (simp add: numeral_3_eq_3)
  have run: "?r =
     \<lparr>tr_model = toy_model\<lparr>weights := 0, compiled := Some (''categorical_crossentropy'', ''adam'')\<rparr>,
      tr_fs = toy_fs\<lparr>files := [''Weights/weights-improvement-I-high.hdf5'' \<mapsto> WeightsFile 1,
                              ?p3 \<mapsto> WeightsFile 3]\<rparr>,
      tr_history = [Num 1, Num 5, Num (1 / 3), Num 1],
      tr_events = [Saved 1 ''Weights/weights-improvement-I-high.hdf5'', NotImproved 2,
                   Saved 3 ?p3, NotImproved 4],
      tr_error = None, tr_generator = 4\<rparr>"
    by (simp add: train_def fit_def toy_model_def toy_lib_def toy_fs_def compile_def kwargs_get_def
       u4 r3 fit_step_def on_epoch_end_def filepath_def
       format_filepath_def ModelCheckpoint_def monitor_op_def write_file_def)
  have w3: "weights (tr_model (train toy_lib toy_fs toy_model ?X ?Y (Suc 2) 1 7 ?kw 0)) = 3"
    by (simp add: train_def fit_def toy_model_def toy_lib_def toy_fs_def compile_def kwargs_get_def
       u3 fit_step_def on_epoch_end_def filepath_def
       format_filepath_def ModelCheckpoint_def monitor_op_def write_file_def)
  note c = checkpoint_files[OF refl, of toy_lib toy_fs toy_model ?X ?Y 4 1 7 ?kw 0]
  note c5 = c[THEN conjunct2, THEN conjunct2, THEN conjunct2, THEN conjunct2, THEN conjunct1]
  note c6 = c[THEN conjunct2, THEN conjunct2, THEN conjunct2, THEN conjunct2, THEN conjunct2, THEN conjunct1]
  note c7 = c[THEN conjunct2, THEN conjunct2, THEN conjunct2, THEN conjunct2, THEN conjunct2, THEN conjunct2]
  have "2 < length (tr_events ?r)" and "tr_events ?r ! 2 = Saved (Suc 2) ?p3"
    and "\<forall>j. 2 < j \<and> j < length (tr_events ?r) \<longrightarrow> tr_events ?r ! j \<noteq> Saved (Suc j) ?p3"
    unfolding run by (simp, simp, auto simp: nth_Cons' split: if_splits)
  with c5 have "files (tr_fs ?r) ?p3 =
      Some (WeightsFile (weights (tr_model (train toy_lib toy_fs toy_model ?X ?Y (Suc 2) 1 7 ?kw 0))))"
    by blast
  then have fl: "files (tr_fs ?r) ?p3 = Some (WeightsFile 3)" by (simp only: w3)
  let ?m = "compile ''categorical_crossentropy'' ''adam'' ((tr_model ?r)\<lparr>weights := 3\<rparr>)"
  have "weights ?m \<noteq> 0" "length [1, 2, 3::nat] = 3" by (simp_all add: compile_def)
  from toy_sample[OF this, of 7 250] obtain pattern where
    smp: "sample toy_lib ?m 7 250 [1, 2, 3] = Inr (pattern, replicate 250 3)" by blast
  have seed: "lookup_all ?i2c [1, 2, 3::nat] = Inr ''abc''" by simp
  have out: "lookup_all ?i2c (replicate 250 3) = Inr (replicate 250 (CHR ''c''))"
    by (rule lookup_all_replicate) simp
  have x0: "?X ! (0 mod (length ?X - 1)) = [1, 2, 3]" by simp
  have len: "\<not> length ?X \<le> 1" by simp
  from c7 fl have "generate_text toy_lib (tr_fs ?r) 0 (tr_model ?r) ?X ?p3 ?i2c 7 =
      (if length ?X \<le> 1 then Inl ValueError
       else case lookup_all ?i2c (?X ! (0 mod (length ?X - 1))) of
              Inl e \<Rightarrow> Inl e
            | Inr seed \<Rightarrow>
                (case sample toy_lib ?m 7 250 (?X ! (0 mod (length ?X - 1))) of
                   Inl e \<Rightarrow> Inl e
                 | Inr (pattern, outp) \<Rightarrow>
                     (case lookup_all ?i2c outp of
                        Inl e \<Rightarrow> Inl e
                      | Inr predicted \<Rightarrow>
                          Inr [''Seed:'', print_quoted seed, ''Predictions'', print_quoted predicted])))"
    by blast
  also have "\<dots> = Inr [''Seed:'', print_quoted ''abc'', ''Predictions'', print_quoted (replicate 250 (CHR ''c''))]"
    unfolding x0 seed smp by (simp only: len if_False sum.case prod.case out)
  finally have g1: "generate_text toy_lib (tr_fs ?r) 0 (tr_model ?r) ?X ?p3 ?i2c 7 =
      Inr [''Seed:'', print_quoted ''abc'', ''Predictions'', print_quoted (replicate 250 (CHR ''c''))]" .
  have "files (tr_fs ?r) ''Weights/weights-improvement-01-4.3050.hdf5'' = None"
    unfolding run by (simp add: toy_fs_def)
  with c6 have g2: "generate_text toy_lib (tr_fs ?r) 0 (tr_model ?r) ?X ''Weights/weights-improvement-01-4.3050.hdf5'' ?i2c 7 =
      Inl (OSError ''Weights/weights-improvement-01-4.3050.hdf5'')"
    by blast
  from run g1 g2 show ?thesis by (rule conjI[OF _ conjI])
qed
section \<open>Runs of statements, and a small run of the topic-modelling cells\<close>

lemma run_steps_Nil: "run_steps [] s = (s, None)"
  by (simp add: run_steps_def)

lemma run_steps_Cons:
  "run_steps (step # steps) s =
     (case step s of (s', Some e) \<Rightarrow> (s', Some e) | (s', None) \<Rightarrow> run_steps steps s')"
  by (simp add: run_steps_def split: prod.splits option.splits)

lemma run_steps_append:
  "run_steps (steps1 @ steps2) s =
     (case run_steps steps1 s of
        (s', None) \<Rightarrow> run_steps steps2 s'
      | (s', Some e) \<Rightarrow> (s', Some e))"
  by (simp add: run_steps_def for_each_st_append split: prod.splits option.splits)


lemma statement_read_raises: "read s = Inl e \<Longrightarrow> statement read call store s = (s, Some e)"
  by (simp add: statement_def)

lemma statement_call_raises:
  "read s = Inr args \<Longrightarrow> call args = Inl e \<Longrightarrow> statement read call store s = (s, Some e)"
  by (simp add: statement_def)

lemma statement_returns:
  "read s = Inr args \<Longrightarrow> call args = Inr result \<Longrightarrow> statement read call store s = (store result s, None)"
  by (simp add: statement_def)

lemma for_each_map_acc:
  "for_each (\<lambda>acc x. case Inr (f x) of Inl e \<Rightarrow> Inl e | Inr y \<Rightarrow> Inr (acc @ [y])) xs acc0 = Inr (acc0 @ map f xs)"
  by (induction xs arbitrary: acc0) simp_all

lemma map_each_Inr: "map_each (\<lambda>x. Inr (f x)) xs = Inr (map f xs)"
  using for_each_map_acc[of f xs "[]"] by (simp add: map_each_def)

lemma universal_newlines_id: "CHR 0x0D \<notin> set s \<Longrightarrow> universal_newlines s = s"
  by (induction s rule: universal_newlines.induct) auto

lemma texts_loop_newlines:
  assumes "w_text w = newline"
  shows "texts_loop (pre @ replicate (Suc n) w) = (texts_of pre @ article_of pre # replicate n [], [])"
proof (induction n)
  case 0
  show ?case
    using assms by (simp add: texts_loop_snoc texts_step_def texts_of_def article_of_def split: prod.splits)
next
  case (Suc n)
  have "pre @ replicate (Suc (Suc n)) w = (pre @ replicate (Suc n) w) @ [w]"
    using replicate_append_same[of "Suc n" w] by simp
  then have "texts_loop (pre @ replicate (Suc (Suc n)) w) = texts_step (texts_loop (pre @ replicate (Suc n) w)) w"
    by (simp only: texts_loop_snoc)
  also have "\<dots> = (texts_of pre @ article_of pre # replicate (Suc n) [], [])"
    unfolding Suc using assms replicate_append_same[of n "[]::string list"] by (simp add: texts_step_def)
  finally show ?case .
qed

lemma toy_texts_newlines:
  "texts_loop (map (toy_token stops) (replicate (Suc n) (CHR 0x0A))) = (replicate (Suc n) [], [])"
proof -
  have "w_text (toy_token stops (CHR 0x0A)) = newline" by (simp add: toy_token_def newline_def)
  from texts_loop_newlines[OF this, of "[]" n] show ?thesis
    by (simp add: texts_of_def article_of_def texts_loop_def)
qed

lemma toy_texts_letter:
  "texts_loop (map (toy_token my_stop_words) (CHR ''a'' # replicate (Suc n) (CHR 0x0A))) =
     ([''a''] # replicate n [], [])"
proof -
  have "w_text (toy_token my_stop_words (CHR 0x0A)) = newline" by (simp add: toy_token_def newline_def)
  from texts_loop_newlines[OF this, of "[toy_token my_stop_words (CHR ''a'')]" n] show ?thesis
    by (simp add: texts_of_def article_of_def texts_loop_def texts_step_def toy_token_def newline_def
        my_stop_words_def)
qed

lemma toy_topic_run:
  assumes c: "CHR 0x0D \<notin> set c" and len: "100 < length (texts_of (map (toy_token my_stop_words) c))"
  shows "run_steps (topic_steps toy_text (toy_env c)) (topic_init g) =
     (\<lparr>t_test_data_dir = Some ''/gensim/test/test_data'',
       t_lee_train_file = Some ''/gensim/test/test_data/lee_background.cor'',
       t_text = Some c, t_nlp = Some my_stop_words, t_doc = Some (map (toy_token my_stop_words) c),
       t_sent = Some (map (toy_token my_stop_words) ''Tom ran to the repair shop to fix his bicycle.''),
       t_texts = Some (texts_of (map (toy_token my_stop_words) c)),
       t_article = Some (article_of (map (toy_token my_stop_words) c)),
       t_bigram = Some (), t_dictionary = Some (),
       t_corpus = Some (map (\<lambda>line. [(0, length line)]) (texts_of (map (toy_token my_stop_words) c))),
       t_ldamodel = (if g = 13 then None else Some (length (texts_of (map (toy_token my_stop_words) c)))),
       t_printed = [],
       t_generator = (if g = 13 then 13
                      else g + sum_list (map length (texts_of (map (toy_token my_stop_words) c))))\<rparr>,
      if g = 13 then Some (LibraryError ''LdaModel'') else None)"
proof -
  have pair: "texts_loop d = (texts_of d, article_of d)" for d
    by (simp add: texts_of_def article_of_def)
  from len have len10: "\<not> length (texts_of (map (toy_token my_stop_words) c)) \<le> 10"
    "\<not> length (texts_of (map (toy_token my_stop_words) c)) \<le> 100"
    by simp_all
  have stop: "stop_words_cell toy_text s = (s\<lparr>t_nlp := Some (n @ my_stop_words)\<rparr>, None)" if "t_nlp s = Some n"
    for s :: "(string list, unit, unit, nat, nat) topic_state" and n
    using that by (simp add: stop_words_cell_def my_stop_words_def statement_def name_lookup_def toy_text_def)
  have sel: "spacy_load toy_text = (\<lambda>name. if name = ''en'' then Inr [] else Inl (OSError name))"
    "nlp_call toy_text = (\<lambda>nlp text. Inr (map (toy_token nlp) text))"
    "render_annotations toy_text = (\<lambda>sent. Inr [])"
    "phrases toy_text = (\<lambda>texts. Inr ())"
    "apply_phrases toy_text = (\<lambda>bigram line. Inr line)"
    "dictionary toy_text = (\<lambda>texts. Inr ())"
    "doc2bow toy_text = (\<lambda>d line. Inr [(0, length line)])"
    "lda_model toy_text = (\<lambda>corpus k d g.
         if g = 13 then Inl (LibraryError ''LdaModel'')
         else Inr (length corpus, g + sum_list (map (\<lambda>bow. sum_list (map snd bow)) corpus)))"
    "show_topics toy_text = (\<lambda>lda. Inr [])"
    by (simp_all add: toy_text_def)
  show ?thesis
    by (simp add: topic_steps_def run_steps_Cons run_steps_Nil statement_def both_def name_lookup_def
        topic_init_def toy_env_def open_read_def test_data_dir_def universal_newlines_id[OF c]
        stop sel map_each_Inr pair len10 comp_def)
qed

section \<open>The test features of the classification demo\<close>

text \<open>
  What the demo computes as test features: the vectorizer fitted on the training documents
  is applied to the test documents, and the SVD is fitted again, on these test features.
\<close>

lemma demo_X_test:
  "c_X_test (classification_demo lib data_train data_test) =
     (let vectorizer = tfidf_fit lib (bunch_data data_train);
          X_test0 = tfidf_transform lib vectorizer (bunch_data data_test)
      in normalize lib (svd_transform lib (svd_fit lib 5 X_test0) X_test0))"
  by (simp add: classification_demo_def Let_def lsa_fit_transform_def vectorizer_transform_def
        vectorizer_fit_transform_def)

text \<open>
  C1. On two training documents and one test document the test features of the demo are
  those of an SVD fitted on the test features, not those of the SVD fitted on the
  training features that the specification describes, and the prediction of the
  classifier on them differs.
\<close>

theorem test_features_refitted:
  "c_X_test (classification_demo toy_sklearn toy_train toy_test) = [[0, - 3]] \<and>
   spec_X_test toy_sklearn toy_train toy_test = [[- 3, - 6]] \<and>
   c_y_pred_NB (classification_demo toy_sklearn toy_train toy_test) = [1] \<and>
   gnb_predict toy_sklearn (gnb_fit toy_sklearn (c_X_train (classification_demo toy_sklearn toy_train toy_test)) [0, 1])
     (spec_X_test toy_sklearn toy_train toy_test) = [0]"
  by (simp add: classification_demo_def Let_def lsa_fit_transform_def vectorizer_transform_def
        vectorizer_fit_transform_def spec_X_test_def toy_sklearn_def toy_train_def toy_test_def)


section \<open>Exceptions are not caught\<close>



















section \<open>What the groups of cells share\<close>

lemma r_topics_notebook:
  "r_topics (notebook tx sk kl env g) = fst (run_steps (topic_steps tx env) (topic_init g))"
  by (simp add: notebook_def split: prod.splits option.splits)

lemma r_classification_notebook:
  "r_classification (notebook tx sk kl env g) =
     (case run_steps (topic_steps tx env) (topic_init g) of
        (t, Some e) \<Rightarrow> None
      | (t, None) \<Rightarrow>
          Some (fst (run_steps (classification_steps sk env) (classification_init (t_generator t)))))"
  by (simp add: notebook_def split: prod.splits option.splits)

lemma r_generation_notebook:
  assumes "r_generation (notebook tx sk kl env g) = Some gen"
  shows "\<exists>g1 d p. gen = fst (run_steps (generation_steps kl env) (generation_init (e_fs env) g1 d p))"
  using assms by (auto simp: notebook_def split: prod.splits option.splits) (metis fst_conv)

text \<open>The topic-modelling cells read the outside only through the corpus file.\<close>

lemma topic_steps_split:
  "topic_steps tx env =
     statement (\<lambda>s. Inr ()) (\<lambda>u. Inr (test_data_dir (e_gensim_path env) (e_sep env)))
        (\<lambda>d s. s\<lparr>t_test_data_dir := Some d\<rparr>) #
     statement (\<lambda>s. name_lookup (t_test_data_dir s)) (\<lambda>d. Inr (d @ e_sep env @ ''lee_background.cor''))
        (\<lambda>path s. s\<lparr>t_lee_train_file := Some path\<rparr>) #
     statement (\<lambda>s. name_lookup (t_lee_train_file s)) (open_read (e_fs env))
        (\<lambda>text s. s\<lparr>t_text := Some text\<rparr>) #
     tl (tl (tl (topic_steps tx env)))"
  by (simp add: topic_steps_def)

lemma topic_steps_rest: "tl (tl (tl (topic_steps tx env'))) = tl (tl (tl (topic_steps tx env)))"
  by (simp add: topic_steps_def)

lemma topic_steps_corpus:
  assumes "e_gensim_path env' = e_gensim_path env" "e_sep env' = e_sep env"
    and "files (e_fs env') (lee_train_file (e_gensim_path env) (e_sep env)) =
         files (e_fs env) (lee_train_file (e_gensim_path env) (e_sep env))"
  shows "run_steps (topic_steps tx env') (topic_init g) = run_steps (topic_steps tx env) (topic_init g)"
proof -
  have "open_read (e_fs env') (lee_train_file (e_gensim_path env) (e_sep env)) =
        open_read (e_fs env) (lee_train_file (e_gensim_path env) (e_sep env))"
    using assms(3) by (simp add: open_read_def)
  then show ?thesis
    using assms(1,2)
    by (subst topic_steps_split, subst (2) topic_steps_split)
      (simp add: topic_steps_rest[of tx env' env] run_steps_Cons statement_def name_lookup_def
        lee_train_file_def topic_init_def)
qed

text \<open>The classification cells read the outside only through the newsgroups collections.\<close>

lemma classification_steps_newsgroups:
  "e_newsgroups env' = e_newsgroups env \<Longrightarrow> classification_steps sk env' = classification_steps sk env"
  by (simp add: classification_steps_def)

text \<open>
  The generation cells bind \<^verbatim>\<open>test_data_dir\<close> and \<^verbatim>\<open>lee_train_file\<close> before they read
  them.
\<close>

lemma generation_steps_split:
  "generation_steps kl env =
     statement (\<lambda>s. Inr ()) Inr (\<lambda>u s. s\<lparr>g_test_x := Some [1, 2, 0, 4, 3, 7, 10]\<rparr>) #
     statement (\<lambda>s. name_lookup (g_test_x s)) to_categorical (\<lambda>y s. s\<lparr>g_test_y := Some y\<rparr>) #
     statement (\<lambda>s. Inr ()) (\<lambda>u. Inr (test_data_dir (e_gensim_path env) (e_sep env)))
        (\<lambda>d s. s\<lparr>g_test_data_dir := Some d\<rparr>) #
     statement (\<lambda>s. name_lookup (g_test_data_dir s)) (\<lambda>d. Inr (d @ e_sep env @ ''lee_background.cor''))
        (\<lambda>path s. s\<lparr>g_lee_train_file := Some path\<rparr>) #
     tl (tl (tl (tl (generation_steps kl env))))"
  by (simp add: generation_steps_def)

lemma to_categorical_Cons: "\<exists>y. to_categorical (x # xs) = Inr y"
  by (simp add: to_categorical_def)

lemma generation_steps_vars:
  "run_steps (generation_steps kl env) (generation_init fs g d p) =
   run_steps (generation_steps kl env) (generation_init fs g d' p')"
proof -
  obtain y where y: "to_categorical [Suc 0, 2, 0, 4, 3, 7, 10] = Inr y"
    using to_categorical_Cons by blast
  show ?thesis
    by (subst generation_steps_split, subst (2) generation_steps_split)
      (simp add: run_steps_Cons statement_def name_lookup_def generation_init_def y)
qed

lemma run_steps_preserves:
  assumes "\<And>step s. step \<in> set steps \<Longrightarrow> f (fst (step s)) = f s"
  shows "f (fst (run_steps steps s)) = f s"
  using assms
proof (induction steps arbitrary: s)
  case Nil
  show ?case by (simp add: run_steps_Nil)
next
  case (Cons step steps)
  obtain s' err where st: "step s = (s', err)" by (cases "step s")
  have "f s' = f s" using Cons.prems[of step s] st by simp
  moreover have "f (fst (run_steps steps s')) = f s'"
    by (rule Cons.IH) (simp add: Cons.prems)
  ultimately show ?case
    using st by (cases err) (simp_all add: run_steps_Cons)
qed

lemma build_examples_returns:
  "\<exists>lx ly. build_examples data = Inr (lx, ly) \<and> (\<forall>x\<in>set lx. length x = SEQ_LENGTH) \<and>
     length lx = length data - SEQ_LENGTH \<and> length ly = length data - SEQ_LENGTH"
proof (cases "SEQ_LENGTH \<le> length data")
  case True
  have "set data \<subseteq> dom (char_to_int data)" by (simp add: dom_char_to_int)
  moreover from True have "(length data - SEQ_LENGTH) + SEQ_LENGTH \<le> length data" by simp
  ultimately have "for_each (example_step (char_to_int data) data) [0..<length data - SEQ_LENGTH] ([], []) =
      Inr (map (\<lambda>i. map (\<lambda>c. the (char_to_int data c)) (take SEQ_LENGTH (drop i data))) [0..<length data - SEQ_LENGTH],
           map (\<lambda>i. the (char_to_int data (data ! (i + SEQ_LENGTH)))) [0..<length data - SEQ_LENGTH])"
    by (rule examples_prefix)
  then show ?thesis
    unfolding build_examples_def by auto
next
  case False
  then show ?thesis by (simp add: build_examples_def)
qed

text \<open>
  The last four steps of the generation cells, which build and train the model and
  generate text, bind none of the names that the steps before them have bound.
\<close>

lemma generation_steps_drop:
  "drop 14 (generation_steps kl env) =
     [statement (\<lambda>s. both (name_lookup (g_X s)) (name_lookup (g_Y s)))
        (\<lambda>(X, Y). case Y of
                     [] \<Rightarrow> Inl IndexError
                   | row # rows \<Rightarrow>
                       Inr (create_model 1 (int (length X), int SEQ_LENGTH, 1) 256 (int (length row))
                              \<lparr>kw_drop_rate = None, kw_activation = None, kw_mode = Some ''train''\<rparr>))
        (\<lambda>ls s. s\<lparr>g_model := Some \<lparr>layers = ls, weights = fst (initial_weights kl ls (g_generator s)),
                                     compiled = None\<rparr>,
                    g_generator := snd (initial_weights kl ls (g_generator s))\<rparr>),
      train_cell kl,
      generate_cell kl ''Weights/weights-improvement-01-4.3050.hdf5'',
      generate_cell kl ''Weights/weights-improvement-02-4.0229.hdf5'']"
  by (simp add: generation_steps_def)

lemma generation_steps_frame:
  assumes "step \<in> set (drop 14 (generation_steps kl env))"
  shows "(\<lambda>s. (g_data s, g_chars s, g_char_to_int s, g_ix_to_char s, g_vocab_size s, g_list_X s,
               g_list_Y s, g_n_patterns s, g_X s, g_Y s)) (fst (step s)) =
         (\<lambda>s. (g_data s, g_chars s, g_char_to_int s, g_ix_to_char s, g_vocab_size s, g_list_X s,
               g_list_Y s, g_n_patterns s, g_X s, g_Y s)) s"
  using assms unfolding generation_steps_drop
  by (auto simp: statement_def train_cell_def generate_cell_def Let_def
      split: sum.splits prod.splits list.splits)

lemma generation_steps_take_drop:
  "run_steps (generation_steps kl env) s =
     (case run_steps (take 14 (generation_steps kl env)) s of
        (s', None) \<Rightarrow> run_steps (drop 14 (generation_steps kl env)) s'
      | (s', Some e) \<Rightarrow> (s', Some e))"
  using run_steps_append[of "take 14 (generation_steps kl env)" "drop 14 (generation_steps kl env)" s]
  by simp

lemma generation_fields_prefix:
  "(\<lambda>s. (g_data s, g_chars s, g_char_to_int s, g_ix_to_char s, g_vocab_size s, g_list_X s,
         g_list_Y s, g_n_patterns s, g_X s, g_Y s)) (fst (run_steps (generation_steps kl env) s)) =
   (\<lambda>s. (g_data s, g_chars s, g_char_to_int s, g_ix_to_char s, g_vocab_size s, g_list_X s,
         g_list_Y s, g_n_patterns s, g_X s, g_Y s)) (fst (run_steps (take 14 (generation_steps kl env)) s))"
  (is "?F (fst (run_steps (generation_steps kl env) s)) = _")
proof -
  obtain s' err where r: "run_steps (take 14 (generation_steps kl env)) s = (s', err)"
    by (cases "run_steps (take 14 (generation_steps kl env)) s")
  show ?thesis
  proof (cases err)
    case None
    with r have "run_steps (generation_steps kl env) s = run_steps (drop 14 (generation_steps kl env)) s'"
      by (simp add: generation_steps_take_drop)
    moreover have "?F (fst (run_steps (drop 14 (generation_steps kl env)) s')) = ?F s'"
      by (rule run_steps_preserves[where f = ?F]) (rule generation_steps_frame)
    ultimately show ?thesis using r by simp
  next
    case (Some e)
    with r show ?thesis by (simp add: generation_steps_take_drop)
  qed
qed

text \<open>
  What the generation cells have bound when the run is over, as far as the names bound
  before the model is built go: it is determined by the corpus file.
\<close>

lemma generation_fields_missing:
  assumes "open_read fs (lee_train_file (e_gensim_path env) (e_sep env)) = Inl e"
  shows "(\<lambda>s. (g_data s, g_chars s, g_char_to_int s, g_ix_to_char s, g_vocab_size s, g_list_X s,
         g_list_Y s, g_n_patterns s, g_X s, g_Y s))
           (fst (run_steps (generation_steps kl env) (generation_init fs g d p))) =
         (None, None, None, None, None, None, None, None, None, None)"
proof -
  obtain y where y: "to_categorical [Suc 0, 2, 0, 4, 3, 7, 10] = Inr y"
    using to_categorical_Cons by blast
  from assms have o: "open_read fs (test_data_dir (e_gensim_path env) (e_sep env) @ e_sep env @ ''lee_background.cor'') = Inl e"
    by (simp add: lee_train_file_def)
  show ?thesis
    unfolding generation_fields_prefix
    by (simp add: generation_steps_def run_steps_Cons run_steps_Nil statement_def both_def
        name_lookup_def generation_init_def y o)
qed

lemma generation_fields_read:
  assumes "open_read fs (lee_train_file (e_gensim_path env) (e_sep env)) = Inr data"
    and "build_examples data = Inr (lx, ly)"
  shows "(\<lambda>s. (g_data s, g_chars s, g_char_to_int s, g_ix_to_char s, g_vocab_size s, g_list_X s,
         g_list_Y s, g_n_patterns s, g_X s, g_Y s))
           (fst (run_steps (generation_steps kl env) (generation_init fs g d p))) =
         (Some data, Some (chars data), Some (char_to_int data), Some (ix_to_char data),
          Some (vocab_size data), Some lx, Some ly, Some (length lx), Some lx,
          case to_categorical ly of Inl e \<Rightarrow> None | Inr Y \<Rightarrow> Some Y)"
proof -
  obtain y where y: "to_categorical [Suc 0, 2, 0, 4, 3, 7, 10] = Inr y"
    using to_categorical_Cons by blast
  from assms(1) have o: "open_read fs (test_data_dir (e_gensim_path env) (e_sep env) @ e_sep env @ ''lee_background.cor'') = Inr data"
    by (simp add: lee_train_file_def)
  from assms(2) have loop: "for_each (example_step (char_to_int data) data)
      [0..<length data - SEQ_LENGTH] ([], []) = Inr (lx, ly)"
    by (simp add: build_examples_def)
  from build_examples_returns[of data] assms(2) have all: "\<forall>x\<in>set lx. length x = SEQ_LENGTH"
    by simp
  have names: "dict (map (\<lambda>ic. (snd ic, fst ic)) (enumerate 0 (chars data))) = char_to_int data"
    "dict (enumerate 0 (chars data)) = ix_to_char data" "length (chars data) = vocab_size data"
    by (simp_all add: char_to_int_def ix_to_char_def vocab_size_def)
  show ?thesis
    unfolding generation_fields_prefix
    by (cases "to_categorical ly")
      (simp_all add: generation_steps_def run_steps_Cons run_steps_Nil statement_def both_def
        name_lookup_def generation_init_def y o loop all names)
qed

text \<open>So two runs of the generation cells on the same corpus file bind the same.\<close>

lemma generation_fields_corpus:
  assumes "e_gensim_path env' = e_gensim_path env" "e_sep env' = e_sep env"
    and "files fs' (lee_train_file (e_gensim_path env) (e_sep env)) =
         files fs (lee_train_file (e_gensim_path env) (e_sep env))"
  shows "(\<lambda>s. (g_data s, g_chars s, g_char_to_int s, g_ix_to_char s, g_vocab_size s, g_list_X s,
         g_list_Y s, g_n_patterns s, g_X s, g_Y s))
           (fst (run_steps (generation_steps kl' env') (generation_init fs' g' d' p'))) =
         (\<lambda>s. (g_data s, g_chars s, g_char_to_int s, g_ix_to_char s, g_vocab_size s, g_list_X s,
         g_list_Y s, g_n_patterns s, g_X s, g_Y s))
           (fst (run_steps (generation_steps kl env) (generation_init fs g d p)))"
proof -
  let ?P = "lee_train_file (e_gensim_path env) (e_sep env)"
  have same: "open_read fs' ?P = open_read fs ?P"
    using assms(3) by (simp add: open_read_def)
  have P': "lee_train_file (e_gensim_path env') (e_sep env') = ?P"
    using assms(1,2) by simp
  show ?thesis
  proof (cases "open_read fs ?P")
    case (Inl e)
    with same have "open_read fs' (lee_train_file (e_gensim_path env') (e_sep env')) = Inl e"
      by (simp add: P')
    from generation_fields_missing[OF this, of kl' g' d' p']
      generation_fields_missing[OF Inl, of kl g d p, symmetric]
    show ?thesis by (rule trans)
  next
    case (Inr data)
    obtain lx ly where b: "build_examples data = Inr (lx, ly)"
      using build_examples_returns[of data] by blast
    from Inr same have "open_read fs' (lee_train_file (e_gensim_path env') (e_sep env')) = Inr data"
      by (simp add: P')
    from generation_fields_read[OF this b, of kl' g' d' p']
      generation_fields_read[OF Inr b, of kl g d p, symmetric]
    show ?thesis by (rule trans)
  qed
qed

text \<open>
  C6, amended. No variable that one group of cells binds is read by another: the
  generation cells bind \<^verbatim>\<open>test_data_dir\<close> and \<^verbatim>\<open>lee_train_file\<close> again before they read
  them, so their run is the same whatever the topic-modelling cells left in these names.
  The groups are not independent of each other's data, since they read the same corpus
  file, draw from the same random generator one after the other, and are not run after
  an exception above them. What does hold of two runs from the same generator:
  \<^item> the results of the topic-modelling cells are the same when the runs agree on the
    corpus file and its place, whatever the newsgroups collections, the other files and
    the other libraries are;
  \<^item> the results of the classification cells are the same when the runs agree on the
    corpus file, its place and the newsgroups collections, whatever the other files are;
  \<^item> what the generation cells bind before they build the model (the data, the
    alphabet, the dictionaries, the examples and their one-hot labels) is the same in
    any two runs that reach these cells and agree on the corpus file and its place,
    whatever the generator, the libraries and the newsgroups collections are.
\<close>

theorem branches_independent:
  "(\<forall>fs g d p d' p'.
      run_steps (generation_steps kl env) (generation_init fs g d p) =
      run_steps (generation_steps kl env) (generation_init fs g d' p')) \<and>
   (\<forall>env' sk' kl'.
      e_gensim_path env' = e_gensim_path env \<and> e_sep env' = e_sep env \<and>
      files (e_fs env') (lee_train_file (e_gensim_path env) (e_sep env)) =
        files (e_fs env) (lee_train_file (e_gensim_path env) (e_sep env)) \<longrightarrow>
      r_topics (notebook tx sk' kl' env' gi) = r_topics (notebook tx sk kl env gi)) \<and>
   (\<forall>env' kl'.
      e_gensim_path env' = e_gensim_path env \<and> e_sep env' = e_sep env \<and>
      files (e_fs env') (lee_train_file (e_gensim_path env) (e_sep env)) =
        files (e_fs env) (lee_train_file (e_gensim_path env) (e_sep env)) \<and>
      e_newsgroups env' = e_newsgroups env \<longrightarrow>
      r_classification (notebook tx sk kl' env' gi) = r_classification (notebook tx sk kl env gi)) \<and>
   (\<forall>tx' sk' kl' env' gi' gen gen'.
      e_gensim_path env' = e_gensim_path env \<and> e_sep env' = e_sep env \<and>
      files (e_fs env') (lee_train_file (e_gensim_path env) (e_sep env)) =
        files (e_fs env) (lee_train_file (e_gensim_path env) (e_sep env)) \<and>
      r_generation (notebook tx sk kl env gi) = Some gen \<and>
      r_generation (notebook tx' sk' kl' env' gi') = Some gen' \<longrightarrow>
      g_data gen' = g_data gen \<and> g_chars gen' = g_chars gen \<and>
      g_char_to_int gen' = g_char_to_int gen \<and> g_ix_to_char gen' = g_ix_to_char gen \<and>
      g_vocab_size gen' = g_vocab_size gen \<and> g_list_X gen' = g_list_X gen \<and>
      g_list_Y gen' = g_list_Y gen \<and> g_n_patterns gen' = g_n_patterns gen \<and>
      g_X gen' = g_X gen \<and> g_Y gen' = g_Y gen)"
proof -
  have c1: "\<forall>fs g d p d' p'.
      run_steps (generation_steps kl env) (generation_init fs g d p) =
      run_steps (generation_steps kl env) (generation_init fs g d' p')"
    by (intro allI) (rule generation_steps_vars)
  have t: "run_steps (topic_steps tx env') (topic_init gi) = run_steps (topic_steps tx env) (topic_init gi)"
    if "e_gensim_path env' = e_gensim_path env \<and> e_sep env' = e_sep env \<and>
      files (e_fs env') (lee_train_file (e_gensim_path env) (e_sep env)) =
        files (e_fs env) (lee_train_file (e_gensim_path env) (e_sep env))"
    for env'
    using that by (intro topic_steps_corpus) blast+
  have c2': "r_topics (notebook tx sk' kl' env' gi) = r_topics (notebook tx sk kl env gi)"
    if a: "e_gensim_path env' = e_gensim_path env \<and> e_sep env' = e_sep env \<and>
      files (e_fs env') (lee_train_file (e_gensim_path env) (e_sep env)) =
        files (e_fs env) (lee_train_file (e_gensim_path env) (e_sep env))"
    for env' sk' kl'
    unfolding r_topics_notebook by (rule arg_cong[OF t[OF a]])
  have c3': "r_classification (notebook tx sk kl' env' gi) = r_classification (notebook tx sk kl env gi)"
    if a: "e_gensim_path env' = e_gensim_path env \<and> e_sep env' = e_sep env \<and>
      files (e_fs env') (lee_train_file (e_gensim_path env) (e_sep env)) =
        files (e_fs env) (lee_train_file (e_gensim_path env) (e_sep env)) \<and>
      e_newsgroups env' = e_newsgroups env"
    for env' kl'
  proof -
    from a have 1: "run_steps (topic_steps tx env') (topic_init gi) = run_steps (topic_steps tx env) (topic_init gi)"
      by (intro t) blast
    from a have 2: "classification_steps sk env' = classification_steps sk env"
      by (intro classification_steps_newsgroups) blast
    show ?thesis unfolding r_classification_notebook 1 2 ..
  qed
  have c2: "\<forall>env' sk' kl'.
      e_gensim_path env' = e_gensim_path env \<and> e_sep env' = e_sep env \<and>
      files (e_fs env') (lee_train_file (e_gensim_path env) (e_sep env)) =
        files (e_fs env) (lee_train_file (e_gensim_path env) (e_sep env)) \<longrightarrow>
      r_topics (notebook tx sk' kl' env' gi) = r_topics (notebook tx sk kl env gi)"
    by (intro allI impI) (rule c2')
  have c3: "\<forall>env' kl'.
      e_gensim_path env' = e_gensim_path env \<and> e_sep env' = e_sep env \<and>
      files (e_fs env') (lee_train_file (e_gensim_path env) (e_sep env)) =
        files (e_fs env) (lee_train_file (e_gensim_path env) (e_sep env)) \<and>
      e_newsgroups env' = e_newsgroups env \<longrightarrow>
      r_classification (notebook tx sk kl' env' gi) = r_classification (notebook tx sk kl env gi)"
    by (intro allI impI) (rule c3')
  have d: "g_data gen' = g_data gen \<and> g_chars gen' = g_chars gen \<and>
      g_char_to_int gen' = g_char_to_int gen \<and> g_ix_to_char gen' = g_ix_to_char gen \<and>
      g_vocab_size gen' = g_vocab_size gen \<and> g_list_X gen' = g_list_X gen \<and>
      g_list_Y gen' = g_list_Y gen \<and> g_n_patterns gen' = g_n_patterns gen \<and>
      g_X gen' = g_X gen \<and> g_Y gen' = g_Y gen"
    if a: "e_gensim_path env' = e_gensim_path env \<and> e_sep env' = e_sep env \<and>
      files (e_fs env') (lee_train_file (e_gensim_path env) (e_sep env)) =
        files (e_fs env) (lee_train_file (e_gensim_path env) (e_sep env)) \<and>
      r_generation (notebook tx sk kl env gi) = Some gen \<and>
      r_generation (notebook tx' sk' kl' env' gi') = Some gen'"
    for tx' sk' kl' env' gi' gen gen'
  proof -
    from a have gp: "e_gensim_path env' = e_gensim_path env" and sep: "e_sep env' = e_sep env"
      and f: "files (e_fs env') (lee_train_file (e_gensim_path env) (e_sep env)) =
        files (e_fs env) (lee_train_file (e_gensim_path env) (e_sep env))"
      and r: "r_generation (notebook tx sk kl env gi) = Some gen"
      and r': "r_generation (notebook tx' sk' kl' env' gi') = Some gen'"
      by blast+
    from r_generation_notebook[OF r] obtain g1 d p where
      gen: "gen = fst (run_steps (generation_steps kl env) (generation_init (e_fs env) g1 d p))"
      by blast
    from r_generation_notebook[OF r'] obtain g1' d' p' where
      gen': "gen' = fst (run_steps (generation_steps kl' env') (generation_init (e_fs env') g1' d' p'))"
      by blast
    from generation_fields_corpus[OF gp sep f, of kl' g1' d' p' kl g1 d p]
    show ?thesis unfolding gen gen' by simp
  qed
  have c4: "\<forall>tx' sk' kl' env' gi' gen gen'.
      e_gensim_path env' = e_gensim_path env \<and> e_sep env' = e_sep env \<and>
      files (e_fs env') (lee_train_file (e_gensim_path env) (e_sep env)) =
        files (e_fs env) (lee_train_file (e_gensim_path env) (e_sep env)) \<and>
      r_generation (notebook tx sk kl env gi) = Some gen \<and>
      r_generation (notebook tx' sk' kl' env' gi') = Some gen' \<longrightarrow>
      g_data gen' = g_data gen \<and> g_chars gen' = g_chars gen \<and>
      g_char_to_int gen' = g_char_to_int gen \<and> g_ix_to_char gen' = g_ix_to_char gen \<and>
      g_vocab_size gen' = g_vocab_size gen \<and> g_list_X gen' = g_list_X gen \<and>
      g_list_Y gen' = g_list_Y gen \<and> g_n_patterns gen' = g_n_patterns gen \<and>
      g_X gen' = g_X gen \<and> g_Y gen' = g_Y gen"
    by (intro allI impI) (rule d)
  show ?thesis by (rule conjI[OF c1 conjI[OF c2 conjI[OF c3 c4]]])
qed

lemma toy_classification_run:
  "run_steps (classification_steps toy_calls (toy_env c)) (classification_init g) =
     (\<lparr>v_data_train = Some toy_train, v_n_components = Some 5, v_labels = Some [0, 1], v_true_k = Some 2,
       v_vectorizer = Some 2,
       v_X_train = Some [[- 3 - real g, - 6 - real g], [- 5 - real g, - 6 - real g]],
       v_lsa = Some (6 + real g), v_data_test = Some toy_test,
       v_target_names = Some [''sci.space'', ''alt.atheism''], v_y_train = Some [0, 1],
       v_y_test = Some [0], v_X_test = Some [[- 1 - real g, - 4 - real g]], v_gnb = Some (),
       v_y_pred_NB = Some [0], v_svm = Some (), v_y_pred_SVM = Some [0],
       v_printed = [''Extracting features from the test data using the same vectorizer''],
       v_generator = g + 2\<rparr>, None)"
  by (simp add: classification_steps_def run_steps_Cons run_steps_Nil statement_def both_def
      name_lookup_def classification_init_def toy_env_def toy_calls_def pure_calls_def toy_sklearn_def
      toy_train_def toy_test_def)

lemma toy_open_read:
  "CHR 0x0D \<notin> set c \<Longrightarrow>
   open_read (e_fs (toy_env c)) (lee_train_file (e_gensim_path (toy_env c)) (e_sep (toy_env c))) = Inr c"
  by (simp add: toy_env_def open_read_def lee_train_file_def test_data_dir_def universal_newlines_id)

text \<open>
  A run of the notebook on the small libraries, on a corpus of more than a hundred
  documents: all three groups of cells are reached.
\<close>

lemma toy_notebook:
  assumes c: "CHR 0x0D \<notin> set c" and len: "100 < length (texts_of (map (toy_token my_stop_words) c))"
    and g: "g \<noteq> 13"
  shows "t_ldamodel (r_topics (notebook toy_text toy_calls toy_lib (toy_env c) g)) =
           Some (length (texts_of (map (toy_token my_stop_words) c)))"
    and "map_option v_X_train (r_classification (notebook toy_text toy_calls toy_lib (toy_env c) g)) =
           Some (Some [[- 3 - real (g + sum_list (map length (texts_of (map (toy_token my_stop_words) c)))),
                        - 6 - real (g + sum_list (map length (texts_of (map (toy_token my_stop_words) c))))],
                       [- 5 - real (g + sum_list (map length (texts_of (map (toy_token my_stop_words) c)))),
                        - 6 - real (g + sum_list (map length (texts_of (map (toy_token my_stop_words) c))))]])"
    and "map_option g_chars (r_generation (notebook toy_text toy_calls toy_lib (toy_env c) g)) =
           Some (Some (chars c))"
proof -
  let ?n = "g + sum_list (map length (texts_of (map (toy_token my_stop_words) c)))"
  from toy_topic_run[OF c len, of g] g obtain t where
    t: "run_steps (topic_steps toy_text (toy_env c)) (topic_init g) = (t, None)"
    and lda: "t_ldamodel t = Some (length (texts_of (map (toy_token my_stop_words) c)))"
    and gen: "t_generator t = ?n"
    by simp
  obtain cl where cl: "run_steps (classification_steps toy_calls (toy_env c)) (classification_init (t_generator t)) = (cl, None)"
    and X: "v_X_train cl = Some [[- 3 - real ?n, - 6 - real ?n], [- 5 - real ?n, - 6 - real ?n]]"
    unfolding gen toy_classification_run by simp
  obtain gn err where gn: "run_steps (generation_steps toy_lib (toy_env c))
      (generation_init (e_fs (toy_env c)) (v_generator cl) (t_test_data_dir t) (t_lee_train_file t)) = (gn, err)"
    by (cases "run_steps (generation_steps toy_lib (toy_env c))
      (generation_init (e_fs (toy_env c)) (v_generator cl) (t_test_data_dir t) (t_lee_train_file t))")
  have nb: "notebook toy_text toy_calls toy_lib (toy_env c) g =
      \<lparr>r_topics = t, r_classification = Some cl, r_generation = Some gn, r_error = err\<rparr>"
    using t cl gn by (simp add: notebook_def)
  obtain lx ly where b: "build_examples c = Inr (lx, ly)"
    using build_examples_returns[of c] by blast
  from generation_fields_read[OF toy_open_read[OF c] b, of toy_lib "v_generator cl" "t_test_data_dir t" "t_lee_train_file t"]
  have ch: "g_chars gn = Some (chars c)"
    unfolding gn by simp
  show "t_ldamodel (r_topics (notebook toy_text toy_calls toy_lib (toy_env c) g)) =
           Some (length (texts_of (map (toy_token my_stop_words) c)))"
    unfolding nb using lda by simp
  show "map_option v_X_train (r_classification (notebook toy_text toy_calls toy_lib (toy_env c) g)) =
           Some (Some [[- 3 - real ?n, - 6 - real ?n], [- 5 - real ?n, - 6 - real ?n]])"
    unfolding nb using X by simp
  show "map_option g_chars (r_generation (notebook toy_text toy_calls toy_lib (toy_env c) g)) =
           Some (Some (chars c))"
    unfolding nb using ch by simp
qed

lemma toy_corpora:
  "CHR 0x0D \<notin> set (replicate 101 (CHR 0x0A))"
  "CHR 0x0D \<notin> set (CHR ''a'' # replicate 101 (CHR 0x0A))"
  "texts_of (map (toy_token my_stop_words) (replicate 101 (CHR 0x0A))) = replicate 101 []"
  "texts_of (map (toy_token my_stop_words) (CHR ''a'' # replicate 101 (CHR 0x0A))) = [''a''] # replicate 100 []"
  "chars (replicate 101 (CHR 0x0A)) = [CHR 0x0A]"
  "chars (CHR ''a'' # replicate 101 (CHR 0x0A)) = [CHR 0x0A, CHR ''a'']"
proof -
  have c101: "replicate 101 (CHR 0x0A) = replicate (Suc 100) (CHR 0x0A)" by simp
  show "CHR 0x0D \<notin> set (replicate 101 (CHR 0x0A))" "CHR 0x0D \<notin> set (CHR ''a'' # replicate 101 (CHR 0x0A))"
    by simp_all
  show "texts_of (map (toy_token my_stop_words) (replicate 101 (CHR 0x0A))) = replicate 101 []"
    unfolding c101 texts_of_def toy_texts_newlines by simp
  show "texts_of (map (toy_token my_stop_words) (CHR ''a'' # replicate 101 (CHR 0x0A))) = [''a''] # replicate 100 []"
    unfolding c101 texts_of_def toy_texts_letter by simp
  show "chars (replicate 101 (CHR 0x0A)) = [CHR 0x0A]"
    by (simp add: chars_def)
  have "CHR 0x0A < CHR ''a''" by (simp add: less_char_def)
  then show "chars (CHR ''a'' # replicate 101 (CHR 0x0A)) = [CHR 0x0A, CHR ''a'']"
    by (simp add: chars_def)
qed

text \<open>
  C6 as stated fails. Two runs from the same generator that differ only in the content of
  the corpus file, the data of the topic-modelling cells, differ in the results of both
  other groups of cells: the generation cells read the same file and find another
  alphabet, and the classification cells fit their SVD from the generator as the topic
  model left it, which has drawn once more for the one more token, and compute other
  features.
\<close>

theorem shared_corpus_counterexample:
  "toy_env (CHR ''a'' # replicate 101 (CHR 0x0A)) =
     (toy_env (replicate 101 (CHR 0x0A)))
       \<lparr>e_fs := (e_fs (toy_env (replicate 101 (CHR 0x0A))))
          \<lparr>files := (files (e_fs (toy_env (replicate 101 (CHR 0x0A)))))
             (''/gensim/test/test_data/lee_background.cor'' \<mapsto> TextFile (CHR ''a'' # replicate 101 (CHR 0x0A)))\<rparr>\<rparr> \<and>
   map_option g_chars (r_generation (notebook toy_text toy_calls toy_lib (toy_env (replicate 101 (CHR 0x0A))) 0)) =
     Some (Some [CHR 0x0A]) \<and>
   map_option g_chars
       (r_generation (notebook toy_text toy_calls toy_lib (toy_env (CHR ''a'' # replicate 101 (CHR 0x0A))) 0)) =
     Some (Some [CHR 0x0A, CHR ''a'']) \<and>
   map_option v_X_train
       (r_classification (notebook toy_text toy_calls toy_lib (toy_env (replicate 101 (CHR 0x0A))) 0)) =
     Some (Some [[- 3, - 6], [- 5, - 6]]) \<and>
   map_option v_X_train
       (r_classification (notebook toy_text toy_calls toy_lib (toy_env (CHR ''a'' # replicate 101 (CHR 0x0A))) 0)) =
     Some (Some [[- 4, - 7], [- 6, - 7]])"
proof -
  let ?c1 = "replicate 101 (CHR 0x0A)"
  let ?c2 = "CHR ''a'' # replicate 101 (CHR 0x0A)"
  have e: "toy_env ?c2 =
     (toy_env ?c1)\<lparr>e_fs := (e_fs (toy_env ?c1))\<lparr>files := (files (e_fs (toy_env ?c1)))
             (''/gensim/test/test_data/lee_background.cor'' \<mapsto> TextFile ?c2)\<rparr>\<rparr>"
    by (simp add: toy_env_def fun_upd_twist)
  have l1: "100 < length (texts_of (map (toy_token my_stop_words) ?c1))"
    and l2: "100 < length (texts_of (map (toy_token my_stop_words) ?c2))"
    unfolding toy_corpora by simp_all
  have g: "(0::nat) \<noteq> 13" by simp
  note r1 = toy_notebook[OF toy_corpora(1) l1 g, unfolded toy_corpora]
  note r2 = toy_notebook[OF toy_corpora(2) l2 g, unfolded toy_corpora]
  have x1: "map_option v_X_train (r_classification (notebook toy_text toy_calls toy_lib (toy_env ?c1) 0)) =
     Some (Some [[- 3, - 6], [- 5, - 6]])"
    using r1(2) by (simp add: sum_list_replicate)
  have x2: "map_option v_X_train (r_classification (notebook toy_text toy_calls toy_lib (toy_env ?c2) 0)) =
     Some (Some [[- 4, - 7], [- 6, - 7]])"
    using r2(2) by (simp add: sum_list_replicate)
  from e r1(3) r2(3) x1 x2 show ?thesis by (simp only: conj_assoc)
qed

lemma notebook_reaches_generation:
  assumes "run_steps (topic_steps tx env) (topic_init g) = (t, None)"
    and "run_steps (classification_steps sk env) (classification_init (t_generator t)) = (c, None)"
  shows "\<exists>gen. r_generation (notebook tx sk kl env g) = Some gen"
  using assms by (simp add: notebook_def split: prod.splits)

text \<open>
  On the small libraries, with a corpus of 101 empty documents: a run without the first
  weights file, with other newsgroups collections and other scikit-learn calls has the
  same topic-modelling results; a run without the first weights file has the same
  classification results; a run from another generator and with other newsgroups
  collections finds the same alphabet; and the generation cells run the same whatever
  the two shared names were bound to.
\<close>

theorem branches_independent_witness:
  "r_topics (notebook toy_text (pure_calls toy_sklearn) toy_lib
       ((toy_env (replicate 101 (CHR 0x0A)))
          \<lparr>e_fs := (e_fs (toy_env (replicate 101 (CHR 0x0A))))
             \<lparr>files := (files (e_fs (toy_env (replicate 101 (CHR 0x0A)))))
                (''Weights/weights-improvement-01-4.3050.hdf5'' := None)\<rparr>,
           e_newsgroups := (\<lambda>subset. Inr toy_test)\<rparr>) 0) =
     r_topics (notebook toy_text toy_calls toy_lib (toy_env (replicate 101 (CHR 0x0A))) 0) \<and>
   t_ldamodel (r_topics (notebook toy_text toy_calls toy_lib (toy_env (replicate 101 (CHR 0x0A))) 0)) = Some 101 \<and>
   r_classification (notebook toy_text toy_calls toy_lib
       ((toy_env (replicate 101 (CHR 0x0A)))
          \<lparr>e_fs := (e_fs (toy_env (replicate 101 (CHR 0x0A))))
             \<lparr>files := (files (e_fs (toy_env (replicate 101 (CHR 0x0A)))))
                (''Weights/weights-improvement-01-4.3050.hdf5'' := None)\<rparr>\<rparr>) 0) =
     r_classification (notebook toy_text toy_calls toy_lib (toy_env (replicate 101 (CHR 0x0A))) 0) \<and>
   map_option v_X_train
       (r_classification (notebook toy_text toy_calls toy_lib (toy_env (replicate 101 (CHR 0x0A))) 0)) =
     Some (Some [[- 3, - 6], [- 5, - 6]]) \<and>
   map_option g_chars (r_generation (notebook toy_text toy_calls toy_lib
       ((toy_env (replicate 101 (CHR 0x0A)))
          \<lparr>e_fs := (e_fs (toy_env (replicate 101 (CHR 0x0A))))
             \<lparr>files := (files (e_fs (toy_env (replicate 101 (CHR 0x0A)))))
                (''Weights/weights-improvement-01-4.3050.hdf5'' := None)\<rparr>,
           e_newsgroups := (\<lambda>subset. Inr toy_test)\<rparr>) 5)) =
     map_option g_chars (r_generation (notebook toy_text toy_calls toy_lib (toy_env (replicate 101 (CHR 0x0A))) 0)) \<and>
   map_option g_chars (r_generation (notebook toy_text toy_calls toy_lib (toy_env (replicate 101 (CHR 0x0A))) 0)) =
     Some (Some [CHR 0x0A]) \<and>
   run_steps (generation_steps toy_lib (toy_env (replicate 101 (CHR 0x0A))))
       (generation_init toy_fs 0 (Some ''elsewhere'') None) =
     run_steps (generation_steps toy_lib (toy_env (replicate 101 (CHR 0x0A))))
       (generation_init toy_fs 0 None None)"
proof -
  let ?c = "replicate 101 (CHR 0x0A)"
  let ?env = "toy_env ?c"
  let ?envC = "?env\<lparr>e_fs := (e_fs ?env)\<lparr>files := (files (e_fs ?env))
                (''Weights/weights-improvement-01-4.3050.hdf5'' := None)\<rparr>\<rparr>"
  let ?envB = "?env\<lparr>e_fs := (e_fs ?env)\<lparr>files := (files (e_fs ?env))
                (''Weights/weights-improvement-01-4.3050.hdf5'' := None)\<rparr>,
           e_newsgroups := (\<lambda>subset. Inr toy_test)\<rparr>"
  note bi = branches_independent[where kl = toy_lib and env = "?env" and tx = toy_text and sk = toy_calls and gi = 0]
  note b1 = bi[THEN conjunct1]
  note b2 = bi[THEN conjunct2, THEN conjunct1]
  note b3 = bi[THEN conjunct2, THEN conjunct2, THEN conjunct1]
  note b4 = bi[THEN conjunct2, THEN conjunct2, THEN conjunct2]
  have P: "lee_train_file (e_gensim_path ?env) (e_sep ?env) = ''/gensim/test/test_data/lee_background.cor''"
    by (simp add: toy_env_def lee_train_file_def test_data_dir_def)
  have sameB: "e_gensim_path ?envB = e_gensim_path ?env \<and> e_sep ?envB = e_sep ?env \<and>
      files (e_fs ?envB) (lee_train_file (e_gensim_path ?env) (e_sep ?env)) =
        files (e_fs ?env) (lee_train_file (e_gensim_path ?env) (e_sep ?env))"
    unfolding P by simp
  have sameC: "e_gensim_path ?envC = e_gensim_path ?env \<and> e_sep ?envC = e_sep ?env \<and>
      files (e_fs ?envC) (lee_train_file (e_gensim_path ?env) (e_sep ?env)) =
        files (e_fs ?env) (lee_train_file (e_gensim_path ?env) (e_sep ?env)) \<and>
      e_newsgroups ?envC = e_newsgroups ?env"
    unfolding P by simp
  from b2[rule_format, where ?env' = "?envB" and ?sk' = "pure_calls toy_sklearn" and ?kl' = toy_lib] sameB
  have w1: "r_topics (notebook toy_text (pure_calls toy_sklearn) toy_lib ?envB 0) =
      r_topics (notebook toy_text toy_calls toy_lib ?env 0)"
    by blast
  from b3[rule_format, where ?env' = "?envC" and ?kl' = toy_lib] sameC
  have w3: "r_classification (notebook toy_text toy_calls toy_lib ?envC 0) =
      r_classification (notebook toy_text toy_calls toy_lib ?env 0)"
    by blast
  have l: "100 < length (texts_of (map (toy_token my_stop_words) ?c))"
    unfolding toy_corpora by simp
  have g: "(0::nat) \<noteq> 13" by simp
  note r = toy_notebook[OF toy_corpora(1) l g, unfolded toy_corpora]
  have w2: "t_ldamodel (r_topics (notebook toy_text toy_calls toy_lib ?env 0)) = Some 101"
    using r(1) by simp
  have w4: "map_option v_X_train (r_classification (notebook toy_text toy_calls toy_lib ?env 0)) =
     Some (Some [[- 3, - 6], [- 5, - 6]])"
    using r(2) by (simp add: sum_list_replicate)
  note w6 = r(3)
  from w6 obtain gen where gen: "r_generation (notebook toy_text toy_calls toy_lib ?env 0) = Some gen"
    by (cases "r_generation (notebook toy_text toy_calls toy_lib ?env 0)") simp_all
  have "run_steps (topic_steps toy_text ?envB) (topic_init 5) = run_steps (topic_steps toy_text ?env) (topic_init 5)"
    using sameB by (intro topic_steps_corpus) blast+
  with toy_topic_run[OF toy_corpora(1) l, of 5] obtain t where
    t: "run_steps (topic_steps toy_text ?envB) (topic_init 5) = (t, None)"
    by simp
  have "\<exists>cl. run_steps (classification_steps toy_calls ?envB) (classification_init (t_generator t)) = (cl, None)"
    by (simp add: classification_steps_def run_steps_Cons run_steps_Nil statement_def both_def
      name_lookup_def classification_init_def toy_env_def toy_calls_def pure_calls_def toy_sklearn_def
      toy_test_def)
  then obtain cl where
    cl: "run_steps (classification_steps toy_calls ?envB) (classification_init (t_generator t)) = (cl, None)"
    by blast
  from notebook_reaches_generation[OF t cl, of toy_lib] obtain gen' where
    gen': "r_generation (notebook toy_text toy_calls toy_lib ?envB 5) = Some gen'"
    by blast
  from b4[rule_format, where ?tx' = toy_text and ?sk' = toy_calls and ?kl' = toy_lib and ?env' = "?envB"
      and ?gi' = 5 and ?gen = gen and ?gen' = gen'] sameB gen gen'
  have "g_chars gen' = g_chars gen"
    by blast
  with gen gen' have w5: "map_option g_chars (r_generation (notebook toy_text toy_calls toy_lib ?envB 5)) =
     map_option g_chars (r_generation (notebook toy_text toy_calls toy_lib ?env 0))"
    by simp
  from b1[rule_format, where fs = toy_fs and g = 0 and d = "Some ''elsewhere''" and p = None and ?d' = None and ?p' = None]
  have w7: "run_steps (generation_steps toy_lib ?env) (generation_init toy_fs 0 (Some ''elsewhere'') None) =
     run_steps (generation_steps toy_lib ?env) (generation_init toy_fs 0 None None)"
    by blast
  from w1 w2 w3 w4 w5 w6 w7 show ?thesis by (simp only: conj_assoc)
qed

text \<open>
  With calls that never raise and draw nothing, the classification cells bind what
  \<open>classification_demo\<close> computes.
\<close>

lemma classification_steps_pure:
  assumes "e_newsgroups env ''train'' = Inr data_train" "e_newsgroups env ''test'' = Inr data_test"
  shows "run_steps (classification_steps (pure_calls lib) env) (classification_init g) =
     (\<lparr>v_data_train = Some data_train, v_n_components = Some 5,
       v_labels = Some (bunch_target data_train),
       v_true_k = Some (length (remdups (bunch_target data_train))),
       v_vectorizer = Some (c_vectorizer (classification_demo lib data_train data_test)),
       v_X_train = Some (c_X_train (classification_demo lib data_train data_test)),
       v_lsa = Some (c_lsa (classification_demo lib data_train data_test)),
       v_data_test = Some data_test,
       v_target_names = Some (bunch_target_names data_train),
       v_y_train = Some (c_y_train (classification_demo lib data_train data_test)),
       v_y_test = Some (c_y_test (classification_demo lib data_train data_test)),
       v_X_test = Some (c_X_test (classification_demo lib data_train data_test)),
       v_gnb = Some (gnb_fit lib (c_X_train (classification_demo lib data_train data_test))
                       (bunch_target data_train)),
       v_y_pred_NB = Some (c_y_pred_NB (classification_demo lib data_train data_test)),
       v_svm = Some (svc_fit lib (c_X_train (classification_demo lib data_train data_test))
                       (bunch_target data_train)),
       v_y_pred_SVM = Some (c_y_pred_SVM (classification_demo lib data_train data_test)),
       v_printed = [''Extracting features from the test data using the same vectorizer''],
       v_generator = g\<rparr>, None)"
  using assms
  by (simp add: classification_steps_def run_steps_Cons run_steps_Nil statement_def both_def
      name_lookup_def classification_init_def pure_calls_def classification_demo_def Let_def
      lsa_fit_transform_def vectorizer_transform_def vectorizer_fit_transform_def)

end
